(* ===== verification/Udp_Prelude.thy ===== *)
theory Udp_Prelude
  imports Main "HOL-Library.Word"
begin

text \<open>
  Shared vocabulary of the model of \<open>src/cpp/src/Ice/UdpTransceiver.cpp\<close>: the machine
  integers the C++ code computes with, the classified OS error codes, the result of a
  system call, the Ice exceptions the transceiver raises, the system calls it issues and
  the observable effects it produces.  The generic lemmas on these types that the
  component theories share are collected here, in the collection \<open>udp_simps\<close>.
\<close>

named_theorems udp_simps \<open>simplification rules shared by the transceiver theories\<close>

section \<open>Machine types\<close>

text \<open>A C \<open>int\<close> is a 32-bit two's-complement value; a payload byte is an 8-bit word.\<close>

type_synonym int32 = "32 word"
type_synonym byte = "8 word"

text \<open>
  \<open>static_cast<int>(n)\<close> of a \<open>size_t\<close> (the length of a buffer): the value modulo
  \<open>2^32\<close>, read as a signed 32-bit integer.
\<close>

definition int_of_size :: "nat \<Rightarrow> int" where
  "int_of_size n = sint (word_of_nat n :: int32)"

section \<open>Operating-system interface\<close>

text \<open>
  The OS error code after a failed call (\<open>getSocketErrno()\<close>), classified the way the
  helpers \<open>interrupted()\<close>, \<open>wouldBlock()\<close> and \<open>recvTruncated()\<close> of the
  platform layer classify it; every other code is kept as its number.
\<close>

datatype errno = EINTR | EWOULDBLOCK | EMSGSIZE | EOTHER int

text \<open>A system call either returns a value or fails (\<open>SOCKET_ERROR\<close>) with an error code.\<close>

datatype 'a sysret = Ok 'a | Fail errno

text \<open>
  The exceptions of the transceiver.  \<open>TimeoutExceptionPtr\<close> is what \<open>write\<close>
  throws on a poll timeout: \<open>throw new Ice::TimeoutException\<close> throws a pointer, a value
  of a different C++ type from the \<open>TimeoutException\<close> that \<open>read\<close> throws.
\<close>

datatype ice_exn =
    DatagramLimitException
  | MemoryLimitException
  | SocketException errno
  | ConnectFailedException errno
  | TimeoutException
  | TimeoutExceptionPtr
  | ConnectionLostException
  | DNSException string

datatype poll_event = POLLIN | POLLOUT

text \<open>The two directions of a socket buffer (\<open>SO_RCVBUF\<close>, \<open>SO_SNDBUF\<close>).\<close>

datatype direction = Receive | Send

text \<open>
  The system calls and platform helpers the transceiver issues, with the arguments the
  code passes: those of the I/O engine on the transceiver's own socket, then those of
  construction and shutdown (\<open>createSocket\<close>, \<open>setBlock\<close>, \<open>setReuseAddress\<close>,
  \<open>doBind\<close>, the multicast options, \<open>getAddressForServer\<close>,
  \<open>shutdownSocketReadWrite\<close>, the disconnect, \<open>closeSocket\<close>,
  \<open>fdToLocalAddress\<close>, and the connect and send of the decoy socket), which name the
  handle they act on.
\<close>

datatype 'addr syscall =
    SysSend "byte list"
  | SysPoll poll_event int
  | SysRecv nat
  | SysRecvFrom nat
  | SysConnect 'addr
  | SysGetBufSize direction
  | SysSetBufSize direction int
  | SysSocket
  | SysSetBlock int
  | SysReuseAddr int
  | SysBind int 'addr
  | SysMcastInterface int string
  | SysMcastTtl int int
  | SysMcastGroup int 'addr string
  | SysResolve string int
  | SysShutdown int
  | SysDisconnect int
  | SysClose int
  | SysLocalAddr int
  | SysConnectOn int 'addr
  | SysSendOn int nat

text \<open>
  The trace lines of the transceiver (\<open>Trace out(_logger, _traceLevels->networkCat)\<close>),
  each written at a level of \<open>_traceLevels->network\<close>: closing (1, line 36), shutting down
  (2, line 55), sent \<open>ret\<close> bytes (3, line 201), connected to the first peer (1, line
  275), received \<open>ret\<close> bytes (3, line 352), starting to send (1, line 460) and starting
  to receive (1, line 551).  Each ends with \<open>toString()\<close>.
\<close>

datatype trace_msg =
    TrClosing
  | TrShuttingDown
  | TrSent nat
  | TrConnected
  | TrReceived nat
  | TrStartSending
  | TrStartReceiving

text \<open>
  Which form \<open>toString()\<close> prints (lines 372--385): the local and remote addresses for
  a multicast server with an open handle, the handle's description otherwise.
\<close>

datatype tostring_form = AddressesToString | FdToString

text \<open>
  Observable effects of one call: each system call issued, each call of the statistics
  sink, each warning written to the logger (with the numbers it prints), the diagnostic
  line \<open>write\<close> prints on \<open>cerr\<close> (packet size, maximum packet size, send buffer
  size), and each trace line with the form its \<open>toString()\<close> took (\<open>None\<close>: the
  branch read \<open>_mcastServer\<close> before it was ever assigned), or, for the bind-mode
  constructor's line at level 2 (line 494), the address \<open>addrToString(_addr)\<close> prints.
\<close>

datatype 'addr effect =
    Call "'addr syscall"
  | BytesSent nat
  | BytesReceived nat
  | WarnDatagramLimit int
  | StderrSizes int int int
  | WarnInvalidBufSize string int int
  | WarnBufSizeAdjusted string int int
  | Trace trace_msg "tostring_form option"
  | TraceBind 'addr

section \<open>Generic lemmas\<close>

lemma int_of_size_small [udp_simps]:
  assumes "n < 2 ^ 31"
  shows "int_of_size n = int n"
proof -
  have "int n < 2 ^ 31" using assms by (simp add: of_nat_less_iff [symmetric])
  then show ?thesis
    by (simp add: int_of_size_def signed_of_nat signed_take_bit_int_eq_self)
qed

lemma int_of_size_mod [udp_simps]: "int_of_size (n + 2 ^ 32) = int_of_size n"
proof -
  have "(word_of_nat (n + 2 ^ 32) :: int32) = word_of_nat n"
    by (simp add: word_of_nat_eq_iff take_bit_eq_mod)
  then show ?thesis unfolding int_of_size_def by (rule arg_cong)
qed

text \<open>A non-negative C \<open>int\<close> converted to an unsigned length keeps its value.\<close>

lemma unat_nonneg_sint:
  assumes "0 \<le> sint (w :: int32)"
  shows "unat w = nat (sint w)"
proof -
  have "uint w = take_bit 32 (sint w)" by (simp add: uint_sint)
  also have "\<dots> = sint w" using assms sint_less [of w] by (simp add: take_bit_int_eq_self)
  finally show ?thesis by (simp add: unat_eq_nat_uint)
qed

end
