(* ===== verification/Udp_Limits.thy ===== *)
theory Udp_Limits
  imports Udp_Prelude
begin

text \<open>
  The datagram size ceiling of \<open>UdpTransceiver.cpp\<close>: the constants \<open>_udpOverhead\<close>
  and \<open>_maxPacketSize\<close> (lines 646--651), the packet size that \<open>write\<close>, \<open>read\<close>
  and \<open>checkSendSize\<close> compute from a negotiated buffer size as
  \<open>min(_maxPacketSize, size - _udpOverhead)\<close> in 32-bit \<open>int\<close>, the comparison of
  that packet size with \<open>static_cast<int>(buf.b.size())\<close>, and \<open>checkSendSize\<close>
  itself (lines 393--405).  The lemmas give the packet size exactly when the buffer
  size is a non-negative \<open>int\<close>, and show where the cast of the buffer length makes
  the comparison differ from the comparison of the true lengths.
\<close>

section \<open>Constants and the packet size\<close>

definition udpOverhead :: int32 where
  "udpOverhead = 20 + 8"

definition maxPacketSize :: int32 where
  "maxPacketSize = 65535 - udpOverhead"

text \<open>\<open>std::min(a, b)\<close> is \<open>(b < a) ? b : a\<close>, on signed \<open>int\<close>.\<close>

definition min_int32 :: "int32 \<Rightarrow> int32 \<Rightarrow> int32" where
  "min_int32 a b = (if sint b < sint a then b else a)"

definition packet_size :: "int32 \<Rightarrow> int32" where
  "packet_size bufSize = min_int32 maxPacketSize (bufSize - udpOverhead)"

text \<open>\<open>packetSize < static_cast<int>(buf.b.size())\<close>.\<close>

definition exceeds_packet :: "int32 \<Rightarrow> nat \<Rightarrow> bool" where
  "exceeds_packet packetSize len = (sint packetSize < int_of_size len)"

text \<open>
  \<open>checkSendSize(buf, messageSizeMax)\<close>: the message-size limit (a \<open>size_t\<close>
  comparison) first, then the datagram limit against the send buffer size.
\<close>

definition checkSendSize :: "int32 \<Rightarrow> nat \<Rightarrow> nat \<Rightarrow> ice_exn + unit" where
  "checkSendSize sndSize len messageSizeMax =
     (if messageSizeMax < len then Inl MemoryLimitException
      else if exceeds_packet (packet_size sndSize) len then Inl DatagramLimitException
      else Inr ())"

section \<open>Values of the constants and of the packet size\<close>

lemma udpOverhead_val [udp_simps]: "sint udpOverhead = 28"
  by (simp add: udpOverhead_def)

lemma maxPacketSize_val [udp_simps]: "sint maxPacketSize = 65507"
  by (simp add: maxPacketSize_def udpOverhead_def)

text \<open>
  A buffer size \<open>s\<close> with \<open>0 \<le> s\<close> leaves \<open>s - 28\<close> inside the \<open>int\<close> range, so
  the 32-bit subtraction does not wrap.
\<close>

lemma sint_minus_overhead [udp_simps]:
  assumes "0 \<le> sint s"
  shows "sint (s - udpOverhead) = sint s - 28"
proof -
  have "sint s < 2 ^ 31" using sint_lt [of s] by simp
  with assms have "- (2 ^ 31) \<le> sint s - sint udpOverhead \<and> sint s - sint udpOverhead < 2 ^ 31"
    by (simp add: udpOverhead_val)
  then have "sint (s - udpOverhead) = sint s - sint udpOverhead"
    by (simp add: sint_word_ariths signed_take_bit_int_eq_self)
  then show ?thesis by (simp add: udpOverhead_val)
qed

lemma sint_min_int32 [udp_simps]: "sint (min_int32 a b) = min (sint a) (sint b)"
  by (simp add: min_int32_def)

text \<open>A buffer size below the overhead gives a negative packet size, which every length exceeds.\<close>

lemma exceeds_below_overhead:
  assumes "0 \<le> sint s" and "sint s < 28" and "n < 2 ^ 31"
  shows "exceeds_packet (packet_size s) n"
  using assms by (simp add: exceeds_packet_def int_of_size_small packet_size_def sint_min_int32
                            maxPacketSize_val sint_minus_overhead)

section \<open>Properties of the size limit\<close>

text \<open>
  C17: for a buffer size that is a non-negative \<open>int\<close> (every size the OS reports),
  the packet size is exactly \<open>min(65507, size - 28)\<close>: the 32-bit arithmetic does not
  wrap and the ceiling never exceeds 65507 bytes.
\<close>

theorem packet_size_exact:
  assumes "0 \<le> sint s"
  shows "sint (packet_size s) = min 65507 (sint s - 28)"
  using assms by (simp add: packet_size_def sint_min_int32 maxPacketSize_val sint_minus_overhead)

text \<open>
  C18: the size check compares the packet size with the buffer length cast to a 32-bit
  \<open>int\<close>, so it sees the length only modulo \<open>2^32\<close>: a buffer of \<open>2^32 + n\<close> bytes
  passes or fails exactly as a buffer of \<open>n\<close> bytes does.
\<close>

theorem exceeds_packet_wraps:
  "exceeds_packet p (n + 2 ^ 32) \<longleftrightarrow> exceeds_packet p n"
  by (simp only: exceeds_packet_def int_of_size_mod)

text \<open>
  For buffers shorter than \<open>2^31\<close> bytes the cast is exact and the check is the
  comparison of the true lengths.
\<close>

theorem exceeds_packet_exact:
  assumes "n < 2 ^ 31"
  shows "exceeds_packet p n \<longleftrightarrow> sint p < int n"
  using assms by (simp add: exceeds_packet_def int_of_size_small)

text \<open>
  C22: \<open>checkSendSize\<close> accepts a message within the message size limit and shorter
  than \<open>2^31\<close> bytes exactly when its length is at most \<open>min(65507, sndSize - 28)\<close>;
  a message over the limit is a \<open>MemoryLimitException\<close> whatever its datagram size.
\<close>

theorem checkSendSize_accepts:
  assumes "len < 2 ^ 31" and "0 \<le> sint s"
  shows "checkSendSize s len messageSizeMax =
           (if messageSizeMax < len then Inl MemoryLimitException
            else if int len \<le> min 65507 (sint s - 28) then Inr () else Inl DatagramLimitException)"
  using assms by (auto simp add: checkSendSize_def exceeds_packet_exact packet_size_exact)

section \<open>Witnesses\<close>

theorem packet_size_exact_witness:
  "sint (packet_size 65536) = 65507 \<and> sint (packet_size 100) = 72"
proof -
  have "sint (packet_size 65536) = min 65507 (sint (65536 :: int32) - 28)"
    by (rule packet_size_exact) simp
  moreover have "sint (packet_size 100) = min 65507 (sint (100 :: int32) - 28)"
    by (rule packet_size_exact) simp
  ultimately show ?thesis by simp
qed

theorem exceeds_packet_exact_witness:
  "exceeds_packet 2 3 \<and> \<not> exceeds_packet 65507 65507"
proof -
  have "exceeds_packet 2 3 \<longleftrightarrow> sint (2 :: int32) < int 3"
    by (rule exceeds_packet_exact) simp
  moreover have "exceeds_packet 65507 65507 \<longleftrightarrow> sint (65507 :: int32) < int 65507"
    by (rule exceeds_packet_exact) simp
  ultimately show ?thesis by simp
qed

theorem checkSendSize_accepts_witness:
  "checkSendSize 65536 65507 1048576 = Inr () \<and> checkSendSize 65536 65508 1048576 = Inl DatagramLimitException"
proof -
  have "checkSendSize 65536 65507 1048576 =
          (if 1048576 < (65507::nat) then Inl MemoryLimitException
           else if int 65507 \<le> min 65507 (sint (65536::int32) - 28) then Inr () else Inl DatagramLimitException)"
    by (rule checkSendSize_accepts) simp_all
  moreover have "checkSendSize 65536 65508 1048576 =
          (if 1048576 < (65508::nat) then Inl MemoryLimitException
           else if int 65508 \<le> min 65507 (sint (65536::int32) - 28) then Inr () else Inl DatagramLimitException)"
    by (rule checkSendSize_accepts) simp_all
  ultimately show ?thesis by simp
qed

end
