(* ===== verification/Udp_State.thy ===== *)
theory Udp_State
  imports Udp_Limits
begin

text \<open>
  The state of one \<open>IceInternal::UdpTransceiver\<close> object (the data members the .cpp
  file reads and writes), the \<open>Buffer\<close> that \<open>read\<close> and \<open>write\<close> work on, the
  result type of a member function (an exception, a failed \<open>assert\<close>, or a return
  value), the answers of the operating system that drive the I/O loops, the trace sink
  (\<open>trace_line\<close>, a trace block guarded by \<open>_traceLevels->network\<close>, and
  \<open>untraced\<close>, the effects with the trace lines removed), \<open>toString()\<close>, and the
  small members \<open>fd()\<close>, \<open>close()\<close>, \<open>shutdownWrite()\<close>, \<open>initialize()\<close>,
  \<open>type()\<close> and the destructor (lines 24--48, 366--391, 567--570).
\<close>

section \<open>Transceiver state\<close>

text \<open>\<open>INVALID_SOCKET\<close> is \<open>-1\<close> on POSIX systems.\<close>

definition INVALID_SOCKET :: int where
  "INVALID_SOCKET = -1"

text \<open>
  \<open>_mcastServer\<close> is not in the constructors' initialiser lists; only the multicast
  branch of the bind-mode constructor assigns it.  Its value is \<open>None\<close> while it is
  uninitialised.
\<close>

record 'addr udp_transceiver =
  fd :: int
  incoming :: bool
  addr :: 'addr
  connect :: bool
  warn :: bool
  traceNetwork :: int
  shutdownReadWrite :: bool
  mcastServer :: "bool option"
  rcvSize :: int32
  sndSize :: int32

text \<open>A \<open>Buffer\<close>: the byte vector \<open>b\<close> and the iterator \<open>i\<close> as an index into it.\<close>

record buffer =
  buf_b :: "byte list"
  buf_i :: nat

text \<open>\<open>std::vector::resize(n)\<close>: truncate, or extend with zero bytes.\<close>

definition resize :: "byte list \<Rightarrow> nat \<Rightarrow> byte list" where
  "resize xs n = take n xs @ replicate (n - length xs) 0"

section \<open>Results and the OS environment\<close>

text \<open>
  A member function ends by raising an exception, by a failed \<open>assert\<close> (a
  contract violation, fatal in a debug build) or by the \<open>std::length_error\<close> that
  \<open>std::vector::resize\<close> throws for a size beyond its maximum, or returns a value.
\<close>

datatype failure = Raise ice_exn | AssertFail | LengthError

type_synonym 'a result = "failure + 'a"

text \<open>
  The answers the operating system gives to the calls of the I/O loops, one list per
  kind of call, consumed in order.  A list that runs out is a call that has not
  returned: the model of that member function is then \<open>None\<close>.
  A receive answer is the datagram as copied into the buffer and the sender's address.
\<close>

type_synonym 'addr recv_answer = "(byte list \<times> 'addr) sysret"

record 'addr os_env =
  send_ans :: "nat sysret list"
  poll_ans :: "nat sysret list"
  recv_ans :: "'addr recv_answer list"
  connect_ans :: "unit sysret list"

text \<open>An I/O call's outcome: its result, its effects in order, the answers left.\<close>

type_synonym ('a, 'addr) io_outcome = "'a result \<times> 'addr effect list \<times> 'addr os_env"

text \<open>Prefixing an effect to the effects of the rest of a loop.\<close>

definition prepend :: "'e \<Rightarrow> ('r \<times> 'e list \<times> 'z) option \<Rightarrow> ('r \<times> 'e list \<times> 'z) option" where
  "prepend e = map_option (\<lambda>(r, es, z). (r, e # es, z))"

text \<open>
  The answers with every interrupted call (\<open>EINTR\<close>) removed: what a caller would see
  if no call were ever interrupted.
\<close>

definition strip_eintr :: "'a sysret list \<Rightarrow> 'a sysret list" where
  "strip_eintr rs = filter (\<lambda>r. r \<noteq> Fail EINTR) rs"

text \<open>\<open>k\<close> interrupted calls, then the list: the shape of an answer list whose first
  \<open>k\<close> calls are interrupted.\<close>

abbreviation interrupted_then :: "nat \<Rightarrow> 'a sysret list \<Rightarrow> 'a sysret list" where
  "interrupted_then k rs \<equiv> replicate k (Fail EINTR) @ rs"

text \<open>Effects that issue no system call.\<close>

definition no_syscall :: "'addr effect list \<Rightarrow> bool" where
  "no_syscall es = (\<forall>e \<in> set es. \<forall>c. e \<noteq> Call c)"

text \<open>The effects with the trace lines left out: what a run shows with tracing off.\<close>

definition is_trace :: "'addr effect \<Rightarrow> bool" where
  "is_trace e = (case e of Trace m f \<Rightarrow> True | TraceBind a \<Rightarrow> True | _ \<Rightarrow> False)"

definition untraced :: "'addr effect list \<Rightarrow> 'addr effect list" where
  "untraced es = filter (\<lambda>e. \<not> is_trace e) es"

section \<open>Small members\<close>

text \<open>\<open>fd()\<close>: asserts that the handle is valid and returns it.\<close>

definition fd_get :: "'addr udp_transceiver \<Rightarrow> int result" where
  "fd_get t = (if fd t \<noteq> INVALID_SOCKET then Inr (fd t) else Inl AssertFail)"

text \<open>
  \<open>toString()\<close> (lines 373--385) as far as it decides which form to print: it reads
  \<open>_mcastServer\<close>, and when that member was never assigned the branch is undefined
  (\<open>None\<close>).
\<close>

definition toString :: "'addr udp_transceiver \<Rightarrow> tostring_form option" where
  "toString t =
     (case mcastServer t of
        None \<Rightarrow> None
      | Some m \<Rightarrow> Some (if m \<and> fd t \<noteq> INVALID_SOCKET then AddressesToString else FdToString))"

text \<open>A trace line at \<open>level\<close>: written when \<open>_traceLevels->network >= level\<close>, ending
  with \<open>toString()\<close>.\<close>

definition trace_line :: "'addr udp_transceiver \<Rightarrow> int \<Rightarrow> trace_msg \<Rightarrow> 'addr effect list" where
  "trace_line t level msg = (if level \<le> traceNetwork t then [Trace msg (toString t)] else [])"

text \<open>
  \<open>close()\<close> (lines 31--43): the trace line, then the assertion that the handle is
  valid; \<open>closeSocket(_fd)\<close> with the OS's answer \<open>ans\<close> to the close, which throws
  a \<open>SocketException\<close> if the close fails (the handle is then not marked invalid); on
  success it marks the handle invalid and returns the handle it closed.
\<close>

definition close :: "'addr udp_transceiver \<Rightarrow> unit sysret \<Rightarrow> ('addr udp_transceiver \<times> int) result \<times> 'addr effect list" where
  "close t ans =
     (if fd t \<noteq> INVALID_SOCKET
      then (case ans of
              Ok _ \<Rightarrow> (Inr (t\<lparr>fd := INVALID_SOCKET\<rparr>, fd t), trace_line t 1 TrClosing @ [Call (SysClose (fd t))])
            | Fail e \<Rightarrow> (Inl (Raise (SocketException e)), trace_line t 1 TrClosing @ [Call (SysClose (fd t))]))
      else (Inl AssertFail, trace_line t 1 TrClosing))"

text \<open>The destructor asserts that \<open>close()\<close> has run.\<close>

definition destroy :: "'addr udp_transceiver \<Rightarrow> unit result" where
  "destroy t = (if fd t = INVALID_SOCKET then Inr () else Inl AssertFail)"

text \<open>\<open>shutdownWrite()\<close> does nothing; \<open>initialize()\<close> is finished at once.\<close>

definition shutdownWrite :: "'addr udp_transceiver \<Rightarrow> 'addr udp_transceiver" where
  "shutdownWrite t = t"

datatype socket_status = Finished | NeedRead | NeedWrite

definition initialize :: "'addr udp_transceiver \<Rightarrow> int \<Rightarrow> socket_status" where
  "initialize t timeout = Finished"

definition type_name :: string where
  "type_name = ''udp''"

section \<open>Sample values\<close>

text \<open>
  A transceiver with handle 3, both buffer sizes 65536 (a common OS default), warnings
  on and no peer yet, and a three-byte buffer: the inputs of the witnesses.
\<close>

definition sample_tx :: "nat udp_transceiver" where
  "sample_tx = \<lparr>fd = 3, incoming = True, addr = 1, connect = True, warn = True, traceNetwork = 0,
                 shutdownReadWrite = False, mcastServer = None, rcvSize = 65536, sndSize = 65536\<rparr>"

definition sample_buf :: buffer where
  "sample_buf = \<lparr>buf_b = [1, 2, 3], buf_i = 0\<rparr>"

definition sample_env ::
  "nat sysret list \<Rightarrow> nat sysret list \<Rightarrow> nat recv_answer list \<Rightarrow> unit sysret list \<Rightarrow> nat os_env" where
  "sample_env ss ps rs cs = \<lparr>send_ans = ss, poll_ans = ps, recv_ans = rs, connect_ans = cs\<rparr>"

section \<open>Lemmas on the result plumbing\<close>

lemma prepend_None [simp]: "prepend e None = None"
  by (simp add: prepend_def)

lemma prepend_Some [simp]: "prepend e (Some (r, es, z)) = Some (r, e # es, z)"
  by (simp add: prepend_def)

lemma prepend_eq_Some:
  "prepend e x = Some (r, es, z) \<longleftrightarrow> (\<exists>es'. es = e # es' \<and> x = Some (r, es', z))"
  by (cases x) (auto simp: prepend_def)

lemma prepend_result [simp]: "map_option fst (prepend e x) = map_option fst x"
  by (cases x) (auto simp: prepend_def)

text \<open>The result of a call depends only on the result of its loop.\<close>

lemma map_option_fst_split:
  assumes "\<And>x. fst (F x) = H (fst x)"
  shows "map_option fst (map_option F X) = map_option H (map_option fst X)"
  using assms by (cases X) auto

lemma map_sum_id_eq_Inl [simp]: "map_sum id f r = Inl x \<longleftrightarrow> r = Inl x"
  by (cases r) auto

lemma map_sum_id_eq_Inr [simp]: "map_sum id f r = Inr y \<longleftrightarrow> (\<exists>v. r = Inr v \<and> y = f v)"
  by (cases r) auto

lemma trace_line_off [simp]: "traceNetwork t < level \<Longrightarrow> trace_line t level msg = []"
  by (simp add: trace_line_def)

lemma trace_line_no_call [simp]: "Call c \<notin> set (trace_line t level msg)"
  by (simp add: trace_line_def)

lemma untraced_simps [simp]:
  "untraced [] = []"
  "untraced (es @ es') = untraced es @ untraced es'"
  "untraced (Call c # es) = Call c # untraced es"
  "untraced (BytesSent n # es) = BytesSent n # untraced es"
  "untraced (BytesReceived n # es) = BytesReceived n # untraced es"
  "untraced (WarnDatagramLimit i # es) = WarnDatagramLimit i # untraced es"
  "untraced (trace_line t level msg) = []"
  by (simp_all add: untraced_def is_trace_def trace_line_def)

lemma sample_tx_traceNetwork [simp]: "traceNetwork sample_tx = 0"
  by (simp add: sample_tx_def)

lemma sample_packet_size [simp]: "packet_size 65536 = 65507"
  by (simp add: packet_size_def min_int32_def maxPacketSize_def udpOverhead_def)

lemma strip_eintr_simps [simp]:
  "strip_eintr [] = []"
  "strip_eintr (Ok v # rs) = Ok v # strip_eintr rs"
  "strip_eintr (Fail e # rs) = (if e = EINTR then strip_eintr rs else Fail e # strip_eintr rs)"
  by (auto simp: strip_eintr_def)

end
