(* ===== verification/Udp_Write.thy ===== *)
theory Udp_Write
  imports Udp_State
begin

text \<open>
  \<open>UdpTransceiver::write(Buffer& buf, int timeout)\<close> (lines 108--213).  The two
  labels of the C++ code, \<open>repeat\<close> (the send) and \<open>repeatSelect\<close> (the wait for
  writability), are two mutually recursive functions; each \<open>goto\<close> is a recursive
  call and each call of the OS consumes one answer of the environment, so the loop
  terminates by the number of answers left.  The whole member function checks the size
  limit, then runs the loop.
\<close>

section \<open>The send loop\<close>

text \<open>
  The loop consumes the answers to \<open>send\<close> and to \<open>poll\<close> (on Windows \<open>select\<close>,
  with the same meaning of the timeout: negative waits forever) and returns the
  answers it has not consumed.
\<close>

type_synonym 'addr write_outcome =
  "bool result \<times> 'addr effect list \<times> nat sysret list \<times> nat sysret list"

fun write_send :: "'addr udp_transceiver \<Rightarrow> int \<Rightarrow> byte list \<Rightarrow> nat sysret list \<Rightarrow> nat sysret list \<Rightarrow> 'addr write_outcome option"
  and write_select :: "'addr udp_transceiver \<Rightarrow> int \<Rightarrow> byte list \<Rightarrow> nat sysret list \<Rightarrow> nat sysret list \<Rightarrow> 'addr write_outcome option"
where
  "write_send t timeout data [] ps = None"
| "write_send t timeout data (Ok ret # ss) ps =
     Some (if ret = length data then Inr True else Inl AssertFail,
           [Call (SysSend data)] @ trace_line t 3 (TrSent ret) @ [BytesSent ret], ss, ps)"
| "write_send t timeout data (Fail e # ss) ps =
     prepend (Call (SysSend data))
      (if e = EINTR then write_send t timeout data ss ps
       else if e = EWOULDBLOCK then write_select t timeout data ss ps
       else Some (Inl (Raise (SocketException e)), [], ss, ps))"
| "write_select t timeout data ss [] =
     (if timeout = 0 then Some (Inr False, [], ss, []) else None)"
| "write_select t timeout data ss (Ok n # ps) =
     (if timeout = 0 then Some (Inr False, [], ss, Ok n # ps)
      else prepend (Call (SysPoll POLLOUT timeout))
            (if n = 0 then Some (Inl (Raise TimeoutExceptionPtr), [], ss, ps)
             else write_send t timeout data ss ps))"
| "write_select t timeout data ss (Fail e # ps) =
     (if timeout = 0 then Some (Inr False, [], ss, Fail e # ps)
      else prepend (Call (SysPoll POLLOUT timeout))
            (if e = EINTR then write_select t timeout data ss ps
             else Some (Inl (Raise (SocketException e)), [], ss, ps)))"

section \<open>The member function\<close>

text \<open>
  \<open>write\<close>: the precondition \<open>buf.i == buf.b.begin()\<close>, the datagram limit (with
  its diagnostic line on \<open>cerr\<close>, an effect here), the validity of the handle, then
  the loop.  On success the iterator moves to the end of the buffer.
\<close>

definition write_udp :: "'addr udp_transceiver \<Rightarrow> buffer \<Rightarrow> int \<Rightarrow> 'addr os_env
                       \<Rightarrow> (bool \<times> buffer, 'addr) io_outcome option" where
  "write_udp t buf timeout env =
     (if buf_i buf \<noteq> 0 then Some (Inl AssertFail, [], env)
      else
        (let packetSize = packet_size (sndSize t); len = length (buf_b buf) in
         if exceeds_packet packetSize len
         then Some (Inl (Raise DatagramLimitException), [StderrSizes (sint packetSize) (sint maxPacketSize) (sint (sndSize t))], env)
         else if fd t = INVALID_SOCKET then Some (Inl AssertFail, [], env)
         else
           map_option
             (\<lambda>(r, es, ss, ps).
                (map_sum id (\<lambda>ok. (ok, if ok then buf\<lparr>buf_i := len\<rparr> else buf)) r, es,
                 env\<lparr>send_ans := ss, poll_ans := ps\<rparr>))
             (write_send t timeout (buf_b buf) (send_ans env) (poll_ans env))))"

section \<open>Predicates of the claims\<close>

text \<open>The exceptions the loop can raise.\<close>

definition write_loop_exn :: "ice_exn \<Rightarrow> bool" where
  "write_loop_exn x = (x = TimeoutExceptionPtr \<or> (\<exists>c. x = SocketException c \<and> c \<noteq> EINTR))"

text \<open>A call of \<open>write\<close> that passes the iterator assertion, the size limit and the
  handle assertion, so that it enters the loop.\<close>

definition write_admissible :: "'addr udp_transceiver \<Rightarrow> buffer \<Rightarrow> bool" where
  "write_admissible t buf =
     (buf_i buf = 0 \<and> \<not> exceeds_packet (packet_size (sndSize t)) (length (buf_b buf))
      \<and> fd t \<noteq> INVALID_SOCKET)"

section \<open>Lemmas on the loop\<close>

text \<open>With timeout 0 the wait is never entered: \<open>write\<close> is not ready.\<close>

lemma write_select_zero [simp]: "write_select t 0 data ss ps = Some (Inr False, [], ss, ps)"
proof (cases ps)
  case (Cons r rs)
  then show ?thesis by (cases r) auto
qed simp

lemma write_loop_exn_intros:
  "write_loop_exn TimeoutExceptionPtr"
  "c \<noteq> EINTR \<Longrightarrow> write_loop_exn (SocketException c)"
  by (auto simp: write_loop_exn_def)

lemma write_loop_raises:
  shows "write_send t timeout data ss ps = Some (Inl (Raise x), es, ss', ps') \<Longrightarrow> write_loop_exn x"
    and "write_select t timeout data ss ps = Some (Inl (Raise x), es, ss', ps') \<Longrightarrow> write_loop_exn x"
proof (induction t timeout data ss ps and t timeout data ss ps arbitrary: es ss' ps' and es ss' ps'
       rule: write_send_write_select.induct)
  case (2 t timeout data ret ss ps)
  then show ?case by (simp split: if_splits)
next
  case (4 t timeout data ss)
  then show ?case by (simp split: if_splits)
qed (auto simp: prepend_eq_Some write_loop_exn_intros split: if_splits)

lemma write_loop_no_limit:
  "write_send t timeout data ss ps = Some (Inl (Raise DatagramLimitException), es, ss', ps') \<Longrightarrow> False"
  using write_loop_raises(1) by (fastforce simp: write_loop_exn_def)

text \<open>Interrupted calls before the first answer that counts only repeat the call.\<close>

lemma write_send_interrupted:
  "write_send t timeout data (interrupted_then k ss) ps =
     map_option (\<lambda>(r, es, z). (r, replicate k (Call (SysSend data)) @ es, z)) (write_send t timeout data ss ps)"
proof (induction k)
  case 0
  then show ?case by (simp add: case_prod_unfold option.map_ident)
next
  case (Suc k)
  then show ?case by (simp add: prepend_def option.map_comp comp_def case_prod_unfold)
qed

lemma write_select_interrupted:
  "timeout \<noteq> 0 \<Longrightarrow> write_select t timeout data ss (interrupted_then k ps) =
     map_option (\<lambda>(r, es, z). (r, replicate k (Call (SysPoll POLLOUT timeout)) @ es, z))
       (write_select t timeout data ss ps)"
proof (induction k)
  case 0
  then show ?case by (simp add: case_prod_unfold option.map_ident)
next
  case (Suc k)
  then show ?case by (simp add: prepend_def option.map_comp comp_def case_prod_unfold)
qed

text \<open>Removing the interrupted answers does not change what the loop returns.\<close>

lemma write_loop_strip_eintr:
  shows "map_option fst (write_send t timeout data ss ps :: 'addr write_outcome option) =
           map_option fst (write_send t timeout data (strip_eintr ss) (strip_eintr ps) :: 'addr write_outcome option)"
    and "map_option fst (write_select t timeout data ss ps :: 'addr write_outcome option) =
           map_option fst (write_select t timeout data (strip_eintr ss) (strip_eintr ps) :: 'addr write_outcome option)"
proof (induction t timeout data ss ps and t timeout data ss ps rule: write_send_write_select.induct)
  case (6 t timeout data ss e ps)
  then show ?case by (cases "timeout = 0"; cases "ps") auto
qed auto

section \<open>Lemmas on the member function\<close>

lemma write_udp_loop:
  assumes "write_admissible t buf"
  shows "write_udp t buf timeout env =
           map_option
             (\<lambda>(r, es, ss, ps).
                (map_sum id (\<lambda>ok. (ok, if ok then buf\<lparr>buf_i := length (buf_b buf)\<rparr> else buf)) r, es,
                 env\<lparr>send_ans := ss, poll_ans := ps\<rparr>))
             (write_send t timeout (buf_b buf) (send_ans env) (poll_ans env))"
  using assms by (simp add: write_udp_def write_admissible_def Let_def)

lemma write_udp_raise_cases:
  assumes "write_udp t buf timeout env = Some (Inl (Raise x), es, env')"
  shows "(x = DatagramLimitException \<and> env' = env \<and> no_syscall es)
         \<or> (\<exists>ss' ps'. write_send t timeout (buf_b buf) (send_ans env) (poll_ans env)
                      = Some (Inl (Raise x), es, ss', ps'))"
  using assms by (auto simp: write_udp_def Let_def no_syscall_def split: if_splits)

lemma write_udp_not_admissible:
  "\<not> write_admissible t buf \<Longrightarrow> \<exists>r es. write_udp t buf timeout env = Some (r, es, env)"
  by (auto simp: write_udp_def write_admissible_def Let_def)

section \<open>Properties of write\<close>

text \<open>
  C2: a buffer longer than \<open>min(_maxPacketSize, _sndSize - _udpOverhead)\<close> (as
  \<open>write\<close> compares it) makes \<open>write\<close> raise \<open>DatagramLimitException\<close> before any
  system call and without consuming an answer of the OS; and \<open>write\<close> raises that
  exception this way only for such a buffer.
\<close>

theorem write_udp_datagram_limit:
  assumes "buf_i buf = 0"
  shows "exceeds_packet (packet_size (sndSize t)) (length (buf_b buf)) \<longleftrightarrow>
         (\<exists>es. write_udp t buf timeout env = Some (Inl (Raise DatagramLimitException), es, env)
               \<and> no_syscall es)"
proof
  assume "exceeds_packet (packet_size (sndSize t)) (length (buf_b buf))"
  with assms show "\<exists>es. write_udp t buf timeout env = Some (Inl (Raise DatagramLimitException), es, env)
                      \<and> no_syscall es"
    by (simp add: write_udp_def no_syscall_def)
next
  assume "\<exists>es. write_udp t buf timeout env = Some (Inl (Raise DatagramLimitException), es, env)
             \<and> no_syscall es"
  with assms write_loop_no_limit show "exceeds_packet (packet_size (sndSize t)) (length (buf_b buf))"
    by (auto simp: write_udp_def Let_def split: if_splits)
qed

text \<open>
  C6: when the OS accepts the datagram (after any number of interrupted sends), \<open>write\<close>
  returns true, moves the iterator to the end of the buffer and reports the length to the
  statistics sink; every send passes the whole buffer.
\<close>

theorem write_udp_sent:
  assumes "write_admissible t buf" and "send_ans env = interrupted_then k (Ok (length (buf_b buf)) # ss)"
  shows "write_udp t buf timeout env =
           Some (Inr (True, buf\<lparr>buf_i := length (buf_b buf)\<rparr>),
                 replicate (Suc k) (Call (SysSend (buf_b buf))) @ trace_line t 3 (TrSent (length (buf_b buf)))
                   @ [BytesSent (length (buf_b buf))],
                 env\<lparr>send_ans := ss\<rparr>)"
  using assms by (simp add: write_udp_loop write_send_interrupted replicate_append_same)

text \<open>
  With timeout 0, a send that would block makes \<open>write\<close> return false at once,
  without waiting and without moving the iterator.
\<close>

theorem write_udp_not_ready:
  assumes "write_admissible t buf" and "send_ans env = interrupted_then k (Fail EWOULDBLOCK # ss)"
  shows "write_udp t buf 0 env =
           Some (Inr (False, buf), replicate (Suc k) (Call (SysSend (buf_b buf))), env\<lparr>send_ans := ss\<rparr>)"
  using assms by (simp add: write_udp_loop write_send_interrupted replicate_append_same)

text \<open>
  Interrupted system calls are absorbed: removing every \<open>EINTR\<close> answer to
  \<open>send\<close> and \<open>poll\<close> does not change whether \<open>write\<close> returns or what it returns.
\<close>

lemma write_udp_eintr_transparent:
  "map_option fst (write_udp t buf timeout env) =
   map_option fst (write_udp t buf timeout
     (env\<lparr>send_ans := strip_eintr (send_ans env), poll_ans := strip_eintr (poll_ans env)\<rparr>))"
proof (cases "write_admissible t buf")
  case True
  then show ?thesis
    by (simp add: write_udp_loop map_option_fst_split split_def write_loop_strip_eintr(1) [symmetric])
next
  case False
  then show ?thesis by (auto simp: write_udp_def write_admissible_def Let_def)
qed

text \<open>
  C12: \<open>write\<close> raises only \<open>DatagramLimitException\<close>, a \<open>SocketException\<close>
  with an error other than \<open>EINTR\<close>, or, on a poll timeout, the pointer
  \<open>new TimeoutException\<close>: never the \<open>TimeoutException\<close> value that callers catch.
\<close>

theorem write_udp_exceptions:
  assumes "write_udp t buf timeout env = Some (Inl (Raise x), es, env')"
  shows "x = DatagramLimitException \<or> x = TimeoutExceptionPtr \<or> (\<exists>c. x = SocketException c \<and> c \<noteq> EINTR)"
  using write_udp_raise_cases [OF assms]
proof
  assume "\<exists>ss' ps'. write_send t timeout (buf_b buf) (send_ans env) (poll_ans env)
                      = Some (Inl (Raise x), es, ss', ps')"
  then obtain ss' ps' where "write_send t timeout (buf_b buf) (send_ans env) (poll_ans env)
                      = Some (Inl (Raise x), es, ss', ps')" by blast
  then have "write_loop_exn x" by (rule write_loop_raises(1))
  then show ?thesis by (auto simp: write_loop_exn_def)
qed simp

text \<open>
  C11: when the send would block and the wait for writability times out, \<open>write\<close>
  raises the timeout (as the pointer \<open>new TimeoutException\<close>) after one send and one
  poll, each repeated for every interruption, the poll with the caller's timeout.
\<close>

theorem write_udp_timeout:
  assumes "write_admissible t buf" and "timeout \<noteq> 0"
    and "send_ans env = interrupted_then k (Fail EWOULDBLOCK # ss)"
    and "poll_ans env = interrupted_then j (Ok 0 # ps)"
  shows "write_udp t buf timeout env =
           Some (Inl (Raise TimeoutExceptionPtr),
                 replicate (Suc k) (Call (SysSend (buf_b buf)))
                   @ replicate (Suc j) (Call (SysPoll POLLOUT timeout)),
                 env\<lparr>send_ans := ss, poll_ans := ps\<rparr>)"
  using assms
  by (simp add: write_udp_loop write_send_interrupted write_select_interrupted replicate_append_same)

text \<open>
  C15: with timeout 0 \<open>write\<close> never waits: it returns as soon as the OS gives one
  answer to \<open>send\<close> that is not an interruption.
\<close>

theorem write_udp_returns_nonblocking:
  assumes "\<exists>r \<in> set (send_ans env). r \<noteq> Fail EINTR"
  shows "write_udp t buf 0 env \<noteq> None"
proof (cases "write_admissible t buf")
  case True
  from assms obtain ys r zs where split: "send_ans env = ys @ r # zs" and r: "r \<noteq> Fail EINTR"
    and ys: "\<forall>y \<in> set ys. y = Fail EINTR"
    using split_list_first_prop [where P = "\<lambda>r. r \<noteq> Fail EINTR", OF assms] by auto
  from ys have "ys = replicate (length ys) (Fail EINTR)"
    by (simp add: replicate_length_same)
  with split have "send_ans env = interrupted_then (length ys) (r # zs)" by simp
  moreover have "write_send t 0 (buf_b buf) (r # zs) (poll_ans env) \<noteq> None"
    using r by (cases r) auto
  ultimately show ?thesis
    using True by (simp add: write_udp_loop write_send_interrupted)
next
  case False
  then show ?thesis using write_udp_not_admissible by blast
qed

text \<open>
  C19: after \<open>close()\<close>, a \<open>write\<close> that passes the size check fails its assertion
  on the handle (a contract violation) before any system call.
\<close>

theorem write_udp_after_close:
  assumes "close t ans = (Inr (t', h), ces)" and "buf_i buf = 0"
    and "\<not> exceeds_packet (packet_size (sndSize t)) (length (buf_b buf))"
  shows "write_udp t' buf timeout env = Some (Inl AssertFail, [], env)"
  using assms by (auto simp: close_def write_udp_def Let_def split: if_splits sysret.splits)

section \<open>Witnesses\<close>

lemma sample_write_admissible: "write_admissible sample_tx sample_buf"
  by (simp add: write_admissible_def sample_tx_def sample_buf_def exceeds_packet_def int_of_size_def
                INVALID_SOCKET_def)

theorem write_udp_datagram_limit_witness:
  "\<exists>es. write_udp (sample_tx\<lparr>sndSize := 30\<rparr>) sample_buf 100 (sample_env [Ok 3] [] [] [])
          = Some (Inl (Raise DatagramLimitException), es, sample_env [Ok 3] [] [] []) \<and> no_syscall es"
proof -
  have "buf_i sample_buf = 0" by (simp add: sample_buf_def)
  moreover have "exceeds_packet (packet_size (sndSize (sample_tx\<lparr>sndSize := 30\<rparr>))) (length (buf_b sample_buf))"
    by (simp add: packet_size_def min_int32_def maxPacketSize_def udpOverhead_def exceeds_packet_def
                  int_of_size_def sample_buf_def)
  ultimately show ?thesis
    using write_udp_datagram_limit [of sample_buf "sample_tx\<lparr>sndSize := 30\<rparr>" 100 "sample_env [Ok 3] [] [] []"]
    by blast
qed

theorem write_udp_sent_witness:
  "write_udp sample_tx sample_buf 100 (sample_env [Fail EINTR, Ok 3] [] [] []) =
     Some (Inr (True, sample_buf\<lparr>buf_i := 3\<rparr>),
           [Call (SysSend [1, 2, 3]), Call (SysSend [1, 2, 3]), BytesSent 3], sample_env [] [] [] [])"
  using write_udp_sent [OF sample_write_admissible, of "sample_env [Fail EINTR, Ok 3] [] [] []" 1 "[]"]
  by (simp add: sample_env_def sample_buf_def)

theorem write_udp_not_ready_witness:
  "write_udp sample_tx sample_buf 0 (sample_env [Fail EWOULDBLOCK] [] [] []) =
     Some (Inr (False, sample_buf), [Call (SysSend [1, 2, 3])], sample_env [] [] [] [])"
  using write_udp_not_ready [OF sample_write_admissible, of "sample_env [Fail EWOULDBLOCK] [] [] []" 0 "[]"]
  by (simp add: sample_env_def sample_buf_def)

theorem write_udp_exceptions_witness:
  "write_udp sample_tx sample_buf 100 (sample_env [Fail EWOULDBLOCK] [Ok 0] [] []) =
     Some (Inl (Raise TimeoutExceptionPtr), [Call (SysSend [1, 2, 3]), Call (SysPoll POLLOUT 100)], sample_env [] [] [] [])
   \<and> TimeoutExceptionPtr \<noteq> TimeoutException"
proof -
  have run: "write_udp sample_tx sample_buf 100 (sample_env [Fail EWOULDBLOCK] [Ok 0] [] []) =
     Some (Inl (Raise TimeoutExceptionPtr), [Call (SysSend [1, 2, 3]), Call (SysPoll POLLOUT 100)], sample_env [] [] [] [])"
    unfolding write_udp_loop [OF sample_write_admissible] by (simp add: sample_env_def sample_buf_def)
  from write_udp_exceptions [OF run] run show ?thesis by simp
qed

theorem write_udp_timeout_witness:
  "write_udp sample_tx sample_buf 250 (sample_env [Fail EINTR, Fail EWOULDBLOCK] [Fail EINTR, Ok 0] [] []) =
     Some (Inl (Raise TimeoutExceptionPtr),
           [Call (SysSend [1, 2, 3]), Call (SysSend [1, 2, 3]), Call (SysPoll POLLOUT 250), Call (SysPoll POLLOUT 250)],
           sample_env [] [] [] [])"
  using write_udp_timeout [OF sample_write_admissible, of 250 "sample_env [Fail EINTR, Fail EWOULDBLOCK] [Fail EINTR, Ok 0] [] []" 1 "[]" 1 "[]"]
  by (simp add: sample_env_def sample_buf_def)

theorem write_udp_returns_nonblocking_witness:
  "write_udp sample_tx sample_buf 0 (sample_env [Fail EINTR, Fail EWOULDBLOCK] [] [] []) \<noteq> None"
  by (rule write_udp_returns_nonblocking) (simp add: sample_env_def)

theorem write_udp_after_close_witness:
  "write_udp (sample_tx\<lparr>fd := INVALID_SOCKET\<rparr>) sample_buf 100 (sample_env [Ok 3] [] [] []) =
     Some (Inl AssertFail, [], sample_env [Ok 3] [] [] [])"
proof -
  have "close sample_tx (Ok ()) = (Inr (sample_tx\<lparr>fd := INVALID_SOCKET\<rparr>, 3), [Call (SysClose 3)])"
    by (simp add: close_def sample_tx_def INVALID_SOCKET_def)
  moreover have "buf_i sample_buf = 0" by (simp add: sample_buf_def)
  moreover have "\<not> exceeds_packet (packet_size (sndSize sample_tx)) (length (buf_b sample_buf))"
    using sample_write_admissible by (simp add: write_admissible_def)
  ultimately show ?thesis by (rule write_udp_after_close)
qed

end
