(* ===== verification/Udp_Read.thy ===== *)
theory Udp_Read
  imports Udp_State
begin

text \<open>
  \<open>UdpTransceiver::read(Buffer& buf, int timeout)\<close> (lines 215--364).  As for
  \<open>write\<close>, the labels \<open>repeat\<close> and \<open>repeatSelect\<close> are two mutually recursive
  functions over the answers of the OS.  Each pass through \<open>repeat\<close> first reads the
  shutdown flag (under \<open>_shutdownReadWriteMutex\<close>), then asserts that the handle is
  valid, then receives: with \<open>recvfrom\<close> and a \<open>connect\<close> to the sender while the
  transceiver still has to connect to its first peer, with \<open>recv\<close> otherwise.  The
  wait for readability is \<open>poll(fdSet, 1, -1)\<close> (on Windows \<open>select\<close> with no
  timeout): it ignores the \<open>timeout\<close> argument.  A received datagram is traced at
  network level 3 (\<open>received_effects\<close>); \<open>untrace_read\<close> is the same member with
  the trace sink removed, against which the trace level is shown to be unobservable.
\<close>

section \<open>Platform helpers\<close>

text \<open>
  \<open>recvTruncated()\<close> of the platform layer: on Windows a datagram larger than the
  buffer fails with \<open>WSAEMSGSIZE\<close>; elsewhere the helper is always false.
\<close>

definition recvTruncated :: "bool \<Rightarrow> errno \<Rightarrow> bool" where
  "recvTruncated windows e = (windows \<and> e = EMSGSIZE)"

text \<open>
  \<open>doConnect(fd, addr, -1)\<close> of the platform layer, as the spec describes it: it
  associates the socket with the peer, or raises a connect failure with the OS error.
\<close>

definition doConnect :: "unit sysret \<Rightarrow> unit result" where
  "doConnect r = (case r of Ok u \<Rightarrow> Inr u | Fail e \<Rightarrow> Inl (Raise (ConnectFailedException e)))"

text \<open>The warning \<open>read\<close> logs before a \<open>DatagramLimitException\<close> when \<open>_warn\<close> is set.\<close>

definition warn_limit :: "'addr udp_transceiver \<Rightarrow> int32 \<Rightarrow> 'addr effect list" where
  "warn_limit t packetSize = (if warn t then [WarnDatagramLimit (sint packetSize)] else [])"

text \<open>After a datagram of \<open>n\<close> bytes: the trace line at level 3 and the statistics
  sink (lines 350--359).\<close>

definition received_effects :: "'addr udp_transceiver \<Rightarrow> nat \<Rightarrow> 'addr effect list" where
  "received_effects t n = trace_line t 3 (TrReceived n) @ [BytesReceived n]"

section \<open>The receive loop\<close>

text \<open>
  The loop returns \<open>None\<close> for "not ready" and \<open>Some (data, t')\<close> for a received
  datagram, \<open>t'\<close> the transceiver after a possible first connect; it also returns the
  answers to \<open>recv\<close>, \<open>poll\<close> and \<open>connect\<close> it has not consumed.
\<close>

type_synonym 'addr read_outcome =
  "(byte list \<times> 'addr udp_transceiver) option result \<times> 'addr effect list
     \<times> 'addr recv_answer list \<times> nat sysret list \<times> unit sysret list"

fun read_repeat :: "bool \<Rightarrow> 'addr udp_transceiver \<Rightarrow> int \<Rightarrow> int32 \<Rightarrow> 'addr recv_answer list
                      \<Rightarrow> nat sysret list \<Rightarrow> unit sysret list \<Rightarrow> 'addr read_outcome option"
  and read_select :: "bool \<Rightarrow> 'addr udp_transceiver \<Rightarrow> int \<Rightarrow> int32 \<Rightarrow> 'addr recv_answer list
                      \<Rightarrow> nat sysret list \<Rightarrow> unit sysret list \<Rightarrow> 'addr read_outcome option"
where
  "read_repeat windows t timeout packetSize [] ps cs =
     (if shutdownReadWrite t then Some (Inl (Raise ConnectionLostException), [], [], ps, cs)
      else if fd t = INVALID_SOCKET then Some (Inl AssertFail, [], [], ps, cs)
      else None)"
| "read_repeat windows t timeout packetSize (r # rs) ps cs =
     (if shutdownReadWrite t then Some (Inl (Raise ConnectionLostException), [], r # rs, ps, cs)
      else if fd t = INVALID_SOCKET then Some (Inl AssertFail, [], r # rs, ps, cs)
      else
        prepend (Call (if connect t then SysRecvFrom (unat packetSize) else SysRecv (unat packetSize)))
         (case r of
            Ok (data, peer) \<Rightarrow>
              (if connect t then
                 (case cs of
                    [] \<Rightarrow> None
                  | c # cs' \<Rightarrow>
                      prepend (Call (SysConnect peer))
                        (case doConnect c of
                           Inl f \<Rightarrow> Some (Inl f, [], rs, ps, cs')
                         | Inr _ \<Rightarrow> Some (Inr (Some (data, t\<lparr>connect := False\<rparr>)),
                                         trace_line (t\<lparr>connect := False\<rparr>) 1 TrConnected
                                         @ received_effects (t\<lparr>connect := False\<rparr>) (length data), rs, ps, cs')))
               else Some (Inr (Some (data, t)), received_effects t (length data), rs, ps, cs))
          | Fail e \<Rightarrow>
              (if e = EINTR then read_repeat windows t timeout packetSize rs ps cs
               else if e = EWOULDBLOCK then
                 (if timeout = 0 then Some (Inr None, [], rs, ps, cs)
                  else read_select windows t timeout packetSize rs ps cs)
               else if recvTruncated windows e then
                 Some (Inl (Raise DatagramLimitException), warn_limit t packetSize, rs, ps, cs)
               else Some (Inl (Raise (SocketException e)), [], rs, ps, cs))))"
| "read_select windows t timeout packetSize rs [] cs = None"
| "read_select windows t timeout packetSize rs (p # ps) cs =
     prepend (Call (SysPoll POLLIN (-1)))
      (case p of
         Fail e \<Rightarrow>
           (if e = EINTR then read_select windows t timeout packetSize rs ps cs
            else Some (Inl (Raise (SocketException e)), [], rs, ps, cs))
       | Ok n \<Rightarrow>
           (if n = 0 then Some (Inl (Raise TimeoutException), [], rs, ps, cs)
            else read_repeat windows t timeout packetSize rs ps cs))"

section \<open>The member function\<close>

text \<open>
  The end of \<open>read\<close>: not ready returns false with the buffer resized to the packet
  size (line 305); a received datagram of \<open>ret\<close> bytes, which the kernel copied over
  the first \<open>ret\<close> bytes of the buffer, is followed by \<open>buf.b.resize(ret);
  buf.i = buf.b.end(); return true;\<close> (lines 361--363).
\<close>

definition read_done :: "buffer \<Rightarrow> 'addr udp_transceiver \<Rightarrow> (byte list \<times> 'addr udp_transceiver) option
                          \<Rightarrow> bool \<times> buffer \<times> 'addr udp_transceiver" where
  "read_done buf1 t got =
     (case got of
        None \<Rightarrow> (False, buf1, t)
      | Some (data, t') \<Rightarrow>
          (let copied = data @ drop (length data) (buf_b buf1) in
           (True, \<lparr>buf_b = resize copied (length data), buf_i = length data\<rparr>, t')))"

text \<open>
  \<open>read\<close>: the precondition on the iterator, the datagram limit against the receive
  buffer size (with its warning), the resize of the buffer to the packet size (a
  negative packet size converts to a huge \<open>size_t\<close>, and \<open>resize\<close> throws), then the
  loop.  On success the buffer holds exactly the received bytes and the iterator is at
  its end; when not ready the buffer keeps the packet size.
\<close>

definition read_udp :: "bool \<Rightarrow> 'addr udp_transceiver \<Rightarrow> buffer \<Rightarrow> int \<Rightarrow> 'addr os_env
                         \<Rightarrow> (bool \<times> buffer \<times> 'addr udp_transceiver, 'addr) io_outcome option" where
  "read_udp windows t buf timeout env =
     (if buf_i buf \<noteq> 0 then Some (Inl AssertFail, [], env)
      else
        (let packetSize = packet_size (rcvSize t) in
         if exceeds_packet packetSize (length (buf_b buf))
         then Some (Inl (Raise DatagramLimitException), warn_limit t packetSize, env)
         else if sint packetSize < 0 then Some (Inl LengthError, [], env)
         else
           (let buf1 = \<lparr>buf_b = resize (buf_b buf) (nat (sint packetSize)), buf_i = 0\<rparr> in
            map_option
              (\<lambda>(r, es, rs, ps, cs).
                 (map_sum id (read_done buf1 t) r,
                  es, env\<lparr>recv_ans := rs, poll_ans := ps, connect_ans := cs\<rparr>))
              (read_repeat windows t timeout packetSize (recv_ans env) (poll_ans env) (connect_ans env)))))"

section \<open>Predicates of the claims\<close>

text \<open>A call of \<open>read\<close> that passes the iterator assertion, the size limit and the
  resize, so that it enters the loop.\<close>

definition read_admissible :: "'addr udp_transceiver \<Rightarrow> buffer \<Rightarrow> bool" where
  "read_admissible t buf =
     (buf_i buf = 0 \<and> \<not> exceeds_packet (packet_size (rcvSize t)) (length (buf_b buf))
      \<and> 0 \<le> sint (packet_size (rcvSize t)))"

text \<open>The receive call one pass of the loop issues.\<close>

definition recv_call :: "'addr udp_transceiver \<Rightarrow> int32 \<Rightarrow> 'addr effect" where
  "recv_call t packetSize =
     Call (if connect t then SysRecvFrom (unat packetSize) else SysRecv (unat packetSize))"

text \<open>A loop outcome with its trace lines left out and the trace level of the returned
  object cleared.\<close>

definition untrace_loop :: "'addr read_outcome option \<Rightarrow> 'addr read_outcome option" where
  "untrace_loop = map_option (\<lambda>(r, es, z).
     (map_sum id (map_option (\<lambda>(d, t'). (d, t'\<lparr>traceNetwork := 0\<rparr>))) r, untraced es, z))"

text \<open>The same for the outcome of \<open>read\<close>.\<close>

definition untrace_read ::
  "(bool \<times> buffer \<times> 'addr udp_transceiver, 'addr) io_outcome option
     \<Rightarrow> (bool \<times> buffer \<times> 'addr udp_transceiver, 'addr) io_outcome option" where
  "untrace_read = map_option (\<lambda>(r, es, env').
     (map_sum id (\<lambda>(b, buf', t'). (b, buf', t'\<lparr>traceNetwork := 0\<rparr>)) r, untraced es, env'))"

section \<open>Lemmas on the loop\<close>

lemma received_effects_off [simp]: "traceNetwork t < 3 \<Longrightarrow> received_effects t n = [BytesReceived n]"
  by (simp add: received_effects_def)

lemma received_effects_no_call [simp]: "Call c \<notin> set (received_effects t n)"
  by (simp add: received_effects_def)

lemma read_repeat_interrupted:
  assumes "\<not> shutdownReadWrite t" and "fd t \<noteq> INVALID_SOCKET"
  shows "read_repeat windows t timeout p (interrupted_then k rs) ps cs =
     map_option (\<lambda>(r, es, z). (r, replicate k (recv_call t p) @ es, z)) (read_repeat windows t timeout p rs ps cs)"
proof (induction k)
  case 0
  then show ?case by (simp add: case_prod_unfold option.map_ident)
next
  case (Suc k)
  with assms show ?case by (simp add: prepend_def option.map_comp comp_def case_prod_unfold recv_call_def)
qed

text \<open>A set shutdown flag or an invalid handle ends the loop before any call.\<close>

lemma read_repeat_stopped:
  assumes "shutdownReadWrite t \<or> fd t = INVALID_SOCKET"
  shows "\<exists>f. read_repeat windows t timeout p rs ps cs = Some (Inl f, [], rs, ps, cs)"
  using assms by (cases rs) auto

lemma read_loop_state:
  shows "read_repeat windows t timeout p rs ps cs = Some (Inr (Some (data, t')), es, rs', ps', cs') \<Longrightarrow>
           t' = (if connect t then t\<lparr>connect := False\<rparr> else t)"
    and "read_select windows t timeout p rs ps cs = Some (Inr (Some (data, t')), es, rs', ps', cs') \<Longrightarrow>
           t' = (if connect t then t\<lparr>connect := False\<rparr> else t)"
proof (induction windows t timeout p rs ps cs and windows t timeout p rs ps cs
       arbitrary: es rs' ps' cs' and es rs' ps' cs' rule: read_repeat_read_select.induct)
  case (2 windows t timeout p r rs ps cs)
  then show ?case
    by (auto simp: prepend_eq_Some doConnect_def split: if_splits sysret.splits list.splits sum.splits)
qed (auto simp: prepend_eq_Some split: if_splits sysret.splits)

lemma read_loop_polls:
  shows "read_repeat windows t timeout p rs ps cs = Some (r, es, rs', ps', cs') \<Longrightarrow>
           Call (SysPoll ev tmo) \<in> set es \<Longrightarrow> ev = POLLIN \<and> tmo = -1"
    and "read_select windows t timeout p rs ps cs = Some (r, es, rs', ps', cs') \<Longrightarrow>
           Call (SysPoll ev tmo) \<in> set es \<Longrightarrow> ev = POLLIN \<and> tmo = -1"
proof (induction windows t timeout p rs ps cs and windows t timeout p rs ps cs
       arbitrary: r es rs' ps' cs' and r es rs' ps' cs' rule: read_repeat_read_select.induct)
  case (2 windows t timeout p r rs ps cs)
  then show ?case
    by (auto simp: prepend_eq_Some warn_limit_def split: if_splits sysret.splits list.splits sum.splits)
qed (auto simp: prepend_eq_Some split: if_splits sysret.splits)

lemma read_loop_timeout:
  shows "read_repeat windows t timeout p rs ps cs = Some (Inl (Raise TimeoutException), es, rs', ps', cs') \<Longrightarrow>
           Ok 0 \<in> set ps"
    and "read_select windows t timeout p rs ps cs = Some (Inl (Raise TimeoutException), es, rs', ps', cs') \<Longrightarrow>
           Ok 0 \<in> set ps"
proof (induction windows t timeout p rs ps cs and windows t timeout p rs ps cs
       arbitrary: es rs' ps' cs' and es rs' ps' cs' rule: read_repeat_read_select.induct)
  case (2 windows t timeout p r rs ps cs)
  then show ?case
    by (auto simp: prepend_eq_Some doConnect_def split: if_splits sysret.splits list.splits sum.splits)
qed (auto simp: prepend_eq_Some split: if_splits sysret.splits)

lemma read_loop_limit:
  shows "read_repeat windows t timeout p rs ps cs = Some (Inl (Raise DatagramLimitException), es, rs', ps', cs') \<Longrightarrow>
           \<not> no_syscall es"
    and "read_select windows t timeout p rs ps cs = Some (Inl (Raise DatagramLimitException), es, rs', ps', cs') \<Longrightarrow>
           \<not> no_syscall es"
proof (induction windows t timeout p rs ps cs and windows t timeout p rs ps cs
       arbitrary: es rs' ps' cs' and es rs' ps' cs' rule: read_repeat_read_select.induct)
  case (2 windows t timeout p r rs ps cs)
  then show ?case
    by (auto simp: prepend_eq_Some doConnect_def no_syscall_def split: if_splits sysret.splits list.splits sum.splits)
qed (auto simp: prepend_eq_Some no_syscall_def split: if_splits sysret.splits)

lemma read_loop_strip_eintr:
  shows "map_option fst (read_repeat windows t timeout p rs ps cs) =
           map_option fst (read_repeat windows t timeout p (strip_eintr rs) (strip_eintr ps) cs)"
    and "map_option fst (read_select windows t timeout p rs ps cs) =
           map_option fst (read_select windows t timeout p (strip_eintr rs) (strip_eintr ps) cs)"
proof (induction windows t timeout p rs ps cs and windows t timeout p rs ps cs
       rule: read_repeat_read_select.induct)
  case (1 windows t timeout p ps cs)
  then show ?case by simp
next
  case (2 windows t timeout p r rs ps cs)
  then show ?case
    by (cases "strip_eintr rs") (auto simp: case_prod_unfold split: sysret.splits list.splits sum.splits)
next
  case (4 windows t timeout p rs q ps cs)
  then show ?case by (cases q) auto
qed auto

lemma untrace_loop_prepend [simp]:
  "untrace_loop (prepend (Call c) X) = prepend (Call c) (untrace_loop X)"
  by (cases X) (auto simp: untrace_loop_def prepend_def)

lemma untrace_loop_Some [simp]:
  "untrace_loop (Some (r, es, z)) =
     Some (map_sum id (map_option (\<lambda>(d, t'). (d, t'\<lparr>traceNetwork := 0\<rparr>))) r, untraced es, z)"
  by (simp add: untrace_loop_def)

text \<open>The trace level changes nothing of the loop but its trace lines.\<close>

lemma read_loop_trace:
  shows "untrace_loop (read_repeat w (t\<lparr>traceNetwork := n\<rparr>) tm p rs ps cs) = untrace_loop (read_repeat w t tm p rs ps cs)"
    and "untrace_loop (read_select w (t\<lparr>traceNetwork := n\<rparr>) tm p rs ps cs) = untrace_loop (read_select w t tm p rs ps cs)"
proof (induction w t tm p rs ps cs and w t tm p rs ps cs rule: read_repeat_read_select.induct)
  case (2 w t tm p r rs ps cs)
  then show ?case
    by (cases r) (auto simp: warn_limit_def received_effects_def split: sum.splits list.splits)
next
  case (4 w t tm p rs q ps cs)
  then show ?case by (cases q) auto
qed simp_all

section \<open>Lemmas on the member function\<close>

lemma read_done_None [simp]: "read_done buf1 t None = (False, buf1, t)"
  by (simp add: read_done_def)

lemma read_done_Some [simp]:
  "read_done buf1 t (Some (data, t')) = (True, \<lparr>buf_b = data, buf_i = length data\<rparr>, t')"
  by (simp add: read_done_def resize_def)

lemma read_done_object:
  "read_done buf1 t got = (b, buf', t') \<Longrightarrow> t' = (case got of None \<Rightarrow> t | Some (data, t'') \<Rightarrow> t'')"
  by (auto simp: read_done_def Let_def split: option.splits)

lemma read_udp_loop:
  assumes "read_admissible t buf"
  shows "read_udp windows t buf timeout env =
           map_option
              (\<lambda>(r, es, rs, ps, cs).
                 (map_sum id
                    (read_done \<lparr>buf_b = resize (buf_b buf) (nat (sint (packet_size (rcvSize t)))), buf_i = 0\<rparr> t)
                    r,
                  es, env\<lparr>recv_ans := rs, poll_ans := ps, connect_ans := cs\<rparr>))
              (read_repeat windows t timeout (packet_size (rcvSize t)) (recv_ans env) (poll_ans env) (connect_ans env))"
  using assms by (simp add: read_udp_def read_admissible_def Let_def)

lemma read_udp_not_admissible:
  "\<not> read_admissible t buf \<Longrightarrow> \<exists>r es. read_udp windows t buf timeout env = Some (r, es, env)"
  by (auto simp: read_udp_def read_admissible_def Let_def)

lemma untrace_read_loop:
  "untrace_read (map_option (\<lambda>(r, es, rs, ps, cs). (map_sum id (read_done buf1 t) r, es, f rs ps cs)) X) =
   map_option (\<lambda>(r, es, rs, ps, cs).
       (map_sum id (\<lambda>got. case read_done buf1 (t\<lparr>traceNetwork := 0\<rparr>) got of
                            (b, buf', t') \<Rightarrow> (b, buf', t'\<lparr>traceNetwork := 0\<rparr>)) r, es, f rs ps cs))
     (untrace_loop X)"
proof (cases X)
  case (Some x)
  obtain r es rs ps cs where x: "x = (r, es, rs, ps, cs)" by (cases x) auto
  show ?thesis
    using Some x
    by (cases r) (auto simp: untrace_read_def untrace_loop_def read_done_def Let_def split: option.splits)
qed (simp add: untrace_read_def untrace_loop_def)

section \<open>Properties of read\<close>

text \<open>
  C1: once the shutdown flag is set, \<open>read\<close> raises \<open>ConnectionLostException\<close>
  before any receive, whatever the OS would answer: the flag is read first on every
  pass through the loop.
\<close>

theorem read_udp_shutdown:
  assumes "read_admissible t buf" and "shutdownReadWrite t"
  shows "read_udp windows t buf timeout env = Some (Inl (Raise ConnectionLostException), [], env)"
  using assms by (cases "recv_ans env") (simp_all add: read_udp_loop)

text \<open>
  C3: a buffer longer than \<open>min(_maxPacketSize, _rcvSize - _udpOverhead)\<close> (as
  \<open>read\<close> compares it) makes \<open>read\<close> raise \<open>DatagramLimitException\<close> before any
  system call and without consuming an answer of the OS; \<open>read\<close> raises it this way
  only for such a buffer (a truncated datagram raises it after a receive).
\<close>

theorem read_udp_datagram_limit:
  assumes "buf_i buf = 0"
  shows "exceeds_packet (packet_size (rcvSize t)) (length (buf_b buf)) \<longleftrightarrow>
         (\<exists>es. read_udp windows t buf timeout env = Some (Inl (Raise DatagramLimitException), es, env)
               \<and> no_syscall es)"
proof
  assume "exceeds_packet (packet_size (rcvSize t)) (length (buf_b buf))"
  with assms show "\<exists>es. read_udp windows t buf timeout env = Some (Inl (Raise DatagramLimitException), es, env)
                      \<and> no_syscall es"
    by (simp add: read_udp_def no_syscall_def warn_limit_def)
next
  assume "\<exists>es. read_udp windows t buf timeout env = Some (Inl (Raise DatagramLimitException), es, env)
             \<and> no_syscall es"
  with assms read_loop_limit(1) show "exceeds_packet (packet_size (rcvSize t)) (length (buf_b buf))"
    by (fastforce simp: read_udp_def Let_def split: if_splits)
qed

text \<open>
  C4: a transceiver that still has to connect receives its first datagram with
  \<open>recvfrom\<close>, connects the socket to the sender, clears \<open>_connect\<close>, and returns
  true with the buffer holding exactly the datagram.
\<close>

theorem read_udp_first_datagram:
  assumes "read_admissible t buf" and "\<not> shutdownReadWrite t" and "fd t \<noteq> INVALID_SOCKET"
    and "connect t"
    and "recv_ans env = interrupted_then k (Ok (data, peer) # rs)"
    and "connect_ans env = Ok () # cs"
  shows "read_udp windows t buf timeout env =
           Some (Inr (True, \<lparr>buf_b = data, buf_i = length data\<rparr>, t\<lparr>connect := False\<rparr>),
                 replicate (Suc k) (Call (SysRecvFrom (unat (packet_size (rcvSize t)))))
                   @ [Call (SysConnect peer)] @ trace_line (t\<lparr>connect := False\<rparr>) 1 TrConnected
                   @ received_effects (t\<lparr>connect := False\<rparr>) (length data),
                 env\<lparr>recv_ans := rs, connect_ans := cs\<rparr>)"
  using assms
  by (simp add: read_udp_loop read_repeat_interrupted recv_call_def doConnect_def replicate_append_same)

text \<open>
  C5: \<open>read\<close> changes the transceiver only by clearing \<open>_connect\<close>, and only when
  it returns a datagram while \<open>_connect\<close> was set: the pending connect is a one-way
  switch, never set again by \<open>read\<close>.
\<close>

theorem read_udp_connect_one_way:
  assumes "read_udp windows t buf timeout env = Some (Inr (got, buf', t'), es, env')"
  shows "t' = (if got \<and> connect t then t\<lparr>connect := False\<rparr> else t)"
proof (cases "read_admissible t buf")
  case True
  with assms obtain r rs ps cs buf1 where
    loop: "read_repeat windows t timeout (packet_size (rcvSize t)) (recv_ans env) (poll_ans env) (connect_ans env)
             = Some (Inr r, es, rs, ps, cs)"
    and res: "read_done buf1 t r = (got, buf', t')"
    by (auto simp: read_udp_loop)
  show ?thesis
  proof (cases r)
    case None
    with res show ?thesis by simp
  next
    case (Some dt)
    then obtain data t'' where r: "r = Some (data, t'')" by (cases dt) auto
    with res have "got" and "t' = t''" by (auto simp: read_done_def Let_def)
    with loop r read_loop_state(1) show ?thesis by fastforce
  qed
next
  case False
  with assms show ?thesis by (auto simp: read_udp_def read_admissible_def Let_def split: if_splits)
qed

text \<open>
  C7: a connected transceiver receives with \<open>recv\<close> and returns true with the buffer
  holding exactly the datagram, its iterator at the end, and the length reported to the
  statistics sink; the transceiver is unchanged.
\<close>

theorem read_udp_received:
  assumes "read_admissible t buf" and "\<not> shutdownReadWrite t" and "fd t \<noteq> INVALID_SOCKET"
    and "\<not> connect t"
    and "recv_ans env = interrupted_then k (Ok (data, peer) # rs)"
  shows "read_udp windows t buf timeout env =
           Some (Inr (True, \<lparr>buf_b = data, buf_i = length data\<rparr>, t),
                 replicate (Suc k) (Call (SysRecv (unat (packet_size (rcvSize t)))))
                   @ received_effects t (length data),
                 env\<lparr>recv_ans := rs\<rparr>)"
  using assms
  by (simp add: read_udp_loop read_repeat_interrupted recv_call_def replicate_append_same)

text \<open>
  C9: with timeout 0, a receive that would block makes \<open>read\<close> return false at once;
  the buffer is left resized to the packet size.
\<close>

theorem read_udp_not_ready:
  assumes "read_admissible t buf" and "\<not> shutdownReadWrite t" and "fd t \<noteq> INVALID_SOCKET"
    and "recv_ans env = interrupted_then k (Fail EWOULDBLOCK # rs)"
  shows "read_udp windows t buf 0 env =
           Some (Inr (False, \<lparr>buf_b = resize (buf_b buf) (nat (sint (packet_size (rcvSize t)))), buf_i = 0\<rparr>, t),
                 replicate (Suc k) (recv_call t (packet_size (rcvSize t))),
                 env\<lparr>recv_ans := rs\<rparr>)"
  using assms
  by (simp add: read_udp_loop read_repeat_interrupted recv_call_def replicate_append_same)

text \<open>
  Interrupted system calls are absorbed: removing every \<open>EINTR\<close> answer to the
  receives and polls does not change whether \<open>read\<close> returns or what it returns.
\<close>

lemma read_udp_eintr_transparent:
  "map_option fst (read_udp windows t buf timeout env) =
   map_option fst (read_udp windows t buf timeout
     (env\<lparr>recv_ans := strip_eintr (recv_ans env), poll_ans := strip_eintr (poll_ans env)\<rparr>))"
proof (cases "read_admissible t buf")
  case True
  then show ?thesis
    by (simp add: read_udp_loop map_option_fst_split split_def read_loop_strip_eintr(1) [symmetric])
next
  case False
  then show ?thesis by (auto simp: read_udp_def read_admissible_def Let_def)
qed

text \<open>
  C14: \<open>read\<close> ignores its timeout while it waits: every wait is a poll for input with
  timeout \<open>-1\<close> (forever), so when the OS honours that wait (never reports a poll
  timeout) \<open>read\<close> never raises \<open>TimeoutException\<close>, whatever timeout it was given.
\<close>

theorem read_udp_ignores_timeout:
  assumes "read_udp windows t buf timeout env = Some (r, es, env')"
  shows "(\<forall>ev tmo. Call (SysPoll ev tmo) \<in> set es \<longrightarrow> ev = POLLIN \<and> tmo = -1)
         \<and> (Ok 0 \<notin> set (poll_ans env) \<longrightarrow> r \<noteq> Inl (Raise TimeoutException))"
proof (cases "read_admissible t buf")
  case True
  with assms obtain r' rs ps cs where
    loop: "read_repeat windows t timeout (packet_size (rcvSize t)) (recv_ans env) (poll_ans env) (connect_ans env)
             = Some (r', es, rs, ps, cs)"
    and res: "r = map_sum id (read_done \<lparr>buf_b = resize (buf_b buf) (nat (sint (packet_size (rcvSize t)))),
                                               buf_i = 0\<rparr> t) r'"
    by (auto simp: read_udp_loop)
  from loop read_loop_polls(1) have "\<forall>ev tmo. Call (SysPoll ev tmo) \<in> set es \<longrightarrow> ev = POLLIN \<and> tmo = -1"
    by blast
  moreover have "Ok 0 \<notin> set (poll_ans env) \<longrightarrow> r \<noteq> Inl (Raise TimeoutException)"
  proof (intro impI notI)
    assume no0: "Ok 0 \<notin> set (poll_ans env)" and "r = Inl (Raise TimeoutException)"
    with res have "r' = Inl (Raise TimeoutException)" by (cases r') auto
    with loop have "Ok 0 \<in> set (poll_ans env)" by (auto intro: read_loop_timeout(1))
    with no0 show False by simp
  qed
  ultimately show ?thesis ..
next
  case False
  with assms show ?thesis
    by (auto simp: read_udp_def read_admissible_def Let_def warn_limit_def split: if_splits)
qed

text \<open>
  C16: the trace sink is purely observational: whatever the trace level
  \<open>_traceLevels->network\<close>, \<open>read\<close> makes the same system calls, statistics calls and
  warnings, consumes the same answers and returns the same result and object; only its
  trace lines differ.
\<close>

theorem read_udp_trace_transparent:
  "untrace_read (read_udp w (t\<lparr>traceNetwork := n\<rparr>) buf tm env) = untrace_read (read_udp w t buf tm env)"
proof (cases "read_admissible t buf")
  case True
  then have "read_admissible (t\<lparr>traceNetwork := n\<rparr>) buf" by (simp add: read_admissible_def)
  with True show ?thesis
    by (simp add: read_udp_loop untrace_read_loop read_loop_trace(1))
next
  case False
  then show ?thesis
    by (auto simp: read_udp_def read_admissible_def Let_def untrace_read_def warn_limit_def)
qed

text \<open>
  C39: with timeout 0 \<open>read\<close> never waits: it returns as soon as the OS gives one
  answer to a receive that is not an interruption (and, for a first datagram, an answer
  to the connect).
\<close>

theorem read_udp_returns_nonblocking:
  assumes "\<exists>r \<in> set (recv_ans env). r \<noteq> Fail EINTR" and "connect t \<longrightarrow> connect_ans env \<noteq> []"
  shows "read_udp windows t buf 0 env \<noteq> None"
proof (cases "read_admissible t buf")
  case adm: True
  show ?thesis
  proof (cases "shutdownReadWrite t \<or> fd t = INVALID_SOCKET")
    case True
    then show ?thesis using adm read_repeat_stopped by (fastforce simp: read_udp_loop)
  next
    case False
    from assms(1) obtain ys r zs where split: "recv_ans env = ys @ r # zs" and r: "r \<noteq> Fail EINTR"
      and ys: "\<forall>y \<in> set ys. y = Fail EINTR"
      using split_list_first_prop [where P = "\<lambda>r. r \<noteq> Fail EINTR", OF assms(1)] by auto
    from ys have "ys = replicate (length ys) (Fail EINTR)"
      by (simp add: replicate_length_same)
    with split have rs: "recv_ans env = interrupted_then (length ys) (r # zs)" by simp
    have "read_repeat windows t 0 (packet_size (rcvSize t)) (r # zs) (poll_ans env) (connect_ans env) \<noteq> None"
      using r False assms(2)
      by (cases r) (auto split: list.splits sum.splits simp: doConnect_def neq_Nil_conv)
    then show ?thesis
      using adm False rs by (simp add: read_udp_loop read_repeat_interrupted)
  qed
next
  case False
  then show ?thesis using read_udp_not_admissible by blast
qed

text \<open>
  After \<open>close()\<close>, a \<open>read\<close> that passes the size check and finds no
  shutdown request fails its assertion on the handle before any system call.
\<close>

theorem read_udp_after_close:
  assumes "close t ans = (Inr (t', h), ces)" and "read_admissible t buf" and "\<not> shutdownReadWrite t"
  shows "read_udp windows t' buf timeout env = Some (Inl AssertFail, [], env)"
proof -
  from assms(1) have t': "t' = t\<lparr>fd := INVALID_SOCKET\<rparr>" by (auto simp: close_def split: if_splits sysret.splits)
  with assms(2) have "read_admissible t' buf" by (simp add: read_admissible_def)
  with assms(3) t' show ?thesis by (cases "recv_ans env") (simp_all add: read_udp_loop)
qed

section \<open>Witnesses\<close>

lemma sample_read_admissible: "read_admissible sample_tx sample_buf"
  by (simp add: read_admissible_def sample_tx_def sample_buf_def exceeds_packet_def int_of_size_def)

lemma sample_read_admissible_small: "read_admissible (sample_tx\<lparr>rcvSize := 40\<rparr>) sample_buf"
  by (simp add: read_admissible_def sample_buf_def exceeds_packet_def int_of_size_def packet_size_def
                min_int32_def maxPacketSize_def udpOverhead_def)

theorem read_udp_shutdown_witness:
  "read_udp False (sample_tx\<lparr>shutdownReadWrite := True\<rparr>) sample_buf 100 (sample_env [] [] [Ok ([7], 9)] []) =
     Some (Inl (Raise ConnectionLostException), [], sample_env [] [] [Ok ([7], 9)] [])"
proof -
  have "read_admissible (sample_tx\<lparr>shutdownReadWrite := True\<rparr>) sample_buf"
    using sample_read_admissible by (simp add: read_admissible_def)
  then show ?thesis by (rule read_udp_shutdown) simp
qed

theorem read_udp_datagram_limit_witness:
  "\<exists>es. read_udp False (sample_tx\<lparr>rcvSize := 30\<rparr>) sample_buf 100 (sample_env [] [] [Ok ([7], 9)] [])
          = Some (Inl (Raise DatagramLimitException), es, sample_env [] [] [Ok ([7], 9)] []) \<and> no_syscall es"
proof -
  have "buf_i sample_buf = 0" by (simp add: sample_buf_def)
  moreover have "exceeds_packet (packet_size (rcvSize (sample_tx\<lparr>rcvSize := 30\<rparr>))) (length (buf_b sample_buf))"
    by (simp add: packet_size_def min_int32_def maxPacketSize_def udpOverhead_def exceeds_packet_def
                  int_of_size_def sample_buf_def)
  ultimately show ?thesis
    using read_udp_datagram_limit [of sample_buf "sample_tx\<lparr>rcvSize := 30\<rparr>" False 100
                                     "sample_env [] [] [Ok ([7], 9)] []"]
    by blast
qed

theorem read_udp_first_datagram_witness:
  "read_udp False sample_tx sample_buf 100 (sample_env [] [] [Fail EINTR, Ok ([7, 8], 9)] [Ok ()]) =
     Some (Inr (True, \<lparr>buf_b = [7, 8], buf_i = 2\<rparr>, sample_tx\<lparr>connect := False\<rparr>),
           [Call (SysRecvFrom 65507), Call (SysRecvFrom 65507), Call (SysConnect 9), BytesReceived 2],
           sample_env [] [] [] [])"
  using read_udp_first_datagram [where windows = False and env = "sample_env [] [] [Fail EINTR, Ok ([7, 8], 9)] [Ok ()]"
            and k = 1 and data = "[7, 8]" and peer = 9 and rs = "[]" and cs = "[]" and timeout = 100,
                                   OF sample_read_admissible]
  by (simp add: sample_tx_def sample_env_def INVALID_SOCKET_def)

theorem read_udp_connect_one_way_witness:
  "read_udp False sample_tx sample_buf 100 (sample_env [] [] [Ok ([7, 8], 9)] [Ok ()]) =
     Some (Inr (True, \<lparr>buf_b = [7, 8], buf_i = 2\<rparr>, sample_tx\<lparr>connect := False\<rparr>),
           [Call (SysRecvFrom 65507), Call (SysConnect 9), BytesReceived 2], sample_env [] [] [] [])
   \<and> \<not> connect (sample_tx\<lparr>connect := False\<rparr>) \<and> connect sample_tx"
proof -
  have run: "read_udp False sample_tx sample_buf 100 (sample_env [] [] [Ok ([7, 8], 9)] [Ok ()]) =
     Some (Inr (True, \<lparr>buf_b = [7, 8], buf_i = 2\<rparr>, sample_tx\<lparr>connect := False\<rparr>),
           [Call (SysRecvFrom 65507), Call (SysConnect 9), BytesReceived 2], sample_env [] [] [] [])"
    unfolding read_udp_loop [OF sample_read_admissible]
    by (simp add: sample_tx_def sample_env_def INVALID_SOCKET_def doConnect_def)
  from read_udp_connect_one_way [OF run] run show ?thesis by (simp add: sample_tx_def)
qed

theorem read_udp_received_witness:
  "read_udp False (sample_tx\<lparr>connect := False\<rparr>) sample_buf 100 (sample_env [] [] [Ok ([5], 9)] []) =
     Some (Inr (True, \<lparr>buf_b = [5], buf_i = 1\<rparr>, sample_tx\<lparr>connect := False\<rparr>),
           [Call (SysRecv 65507), BytesReceived 1], sample_env [] [] [] [])"
proof -
  have "read_admissible (sample_tx\<lparr>connect := False\<rparr>) sample_buf"
    using sample_read_admissible by (simp add: read_admissible_def)
  from read_udp_received [where windows = False and env = "sample_env [] [] [Ok ([5], 9)] []"
                              and k = 0 and data = "[5]" and peer = 9 and rs = "[]" and timeout = 100, OF this]
  show ?thesis by (simp add: sample_tx_def sample_env_def INVALID_SOCKET_def)
qed

theorem read_udp_not_ready_witness:
  "read_udp False (sample_tx\<lparr>rcvSize := 40\<rparr>) sample_buf 0 (sample_env [] [] [Fail EWOULDBLOCK] []) =
     Some (Inr (False, \<lparr>buf_b = [1, 2, 3, 0, 0, 0, 0, 0, 0, 0, 0, 0], buf_i = 0\<rparr>, sample_tx\<lparr>rcvSize := 40\<rparr>),
           [Call (SysRecvFrom 12)], sample_env [] [] [] [])"
proof -
  have ps: "packet_size 40 = 12"
    by (simp add: packet_size_def min_int32_def maxPacketSize_def udpOverhead_def)
  have rz: "resize [1, 2, 3] 12 = [1, 2, 3, 0, 0, 0, 0, 0, 0, 0, 0, 0]"
    by (simp add: resize_def eval_nat_numeral)
  have "read_udp False (sample_tx\<lparr>rcvSize := 40\<rparr>) sample_buf 0 (sample_env [] [] [Fail EWOULDBLOCK] []) =
     Some (Inr (False, \<lparr>buf_b = resize (buf_b sample_buf) (nat (sint (packet_size (rcvSize (sample_tx\<lparr>rcvSize := 40\<rparr>))))),
                         buf_i = 0\<rparr>, sample_tx\<lparr>rcvSize := 40\<rparr>),
           replicate (Suc 0) (recv_call (sample_tx\<lparr>rcvSize := 40\<rparr>) (packet_size (rcvSize (sample_tx\<lparr>rcvSize := 40\<rparr>)))),
           (sample_env [] [] [Fail EWOULDBLOCK] [])\<lparr>recv_ans := []\<rparr>)"
    by (rule read_udp_not_ready [OF sample_read_admissible_small])
       (simp_all add: sample_tx_def sample_env_def INVALID_SOCKET_def)
  then show ?thesis
    using ps rz by (simp add: sample_buf_def recv_call_def sample_tx_def sample_env_def)
qed

theorem read_udp_ignores_timeout_witness:
  "read_udp False (sample_tx\<lparr>connect := False\<rparr>) sample_buf 100
       (sample_env [] [Ok 1] [Fail EWOULDBLOCK, Ok ([1], 9)] []) =
     Some (Inr (True, \<lparr>buf_b = [1], buf_i = 1\<rparr>, sample_tx\<lparr>connect := False\<rparr>),
           [Call (SysRecv 65507), Call (SysPoll POLLIN (-1)), Call (SysRecv 65507), BytesReceived 1],
           sample_env [] [] [] [])
   \<and> Inr (True, \<lparr>buf_b = [1], buf_i = 1\<rparr>, sample_tx\<lparr>connect := False\<rparr>) \<noteq> Inl (Raise TimeoutException)"
proof -
  have adm: "read_admissible (sample_tx\<lparr>connect := False\<rparr>) sample_buf"
    using sample_read_admissible by (simp add: read_admissible_def)
  have run: "read_udp False (sample_tx\<lparr>connect := False\<rparr>) sample_buf 100
       (sample_env [] [Ok 1] [Fail EWOULDBLOCK, Ok ([1], 9)] []) =
     Some (Inr (True, \<lparr>buf_b = [1], buf_i = 1\<rparr>, sample_tx\<lparr>connect := False\<rparr>),
           [Call (SysRecv 65507), Call (SysPoll POLLIN (-1)), Call (SysRecv 65507), BytesReceived 1],
           sample_env [] [] [] [])"
    unfolding read_udp_loop [OF adm] by (simp add: sample_tx_def sample_env_def INVALID_SOCKET_def)
  from read_udp_ignores_timeout [OF run] run show ?thesis by (simp add: sample_env_def)
qed

theorem read_udp_returns_nonblocking_witness:
  "read_udp False sample_tx sample_buf 0 (sample_env [] [] [Fail EINTR, Fail EWOULDBLOCK] [Ok ()]) \<noteq> None"
  by (rule read_udp_returns_nonblocking) (simp_all add: sample_env_def sample_tx_def)

theorem read_udp_after_close_witness:
  "read_udp False (sample_tx\<lparr>fd := INVALID_SOCKET\<rparr>) sample_buf 100 (sample_env [] [] [Ok ([7], 9)] []) =
     Some (Inl AssertFail, [], sample_env [] [] [Ok ([7], 9)] [])"
proof -
  have "close sample_tx (Ok ()) = (Inr (sample_tx\<lparr>fd := INVALID_SOCKET\<rparr>, 3), [Call (SysClose 3)])"
    by (simp add: close_def sample_tx_def INVALID_SOCKET_def)
  moreover note sample_read_admissible
  moreover have "\<not> shutdownReadWrite sample_tx" by (simp add: sample_tx_def)
  ultimately show ?thesis by (rule read_udp_after_close)
qed

end
