(* ===== verification/Udp_BufSize.thy ===== *)
theory Udp_BufSize
  imports Udp_State
begin

text \<open>
  \<open>UdpTransceiver::setBufSize\<close> (lines 572--644): for the receive and then the send
  direction it reads the OS default size of the socket buffer, stores it, reads the
  requested size from the properties \<open>Ice.UDP.RcvSize\<close> / \<open>Ice.UDP.SndSize\<close>
  (default: the OS default), replaces a request below \<open>_udpOverhead\<close> by the default
  with a warning, and, when the request differs from the default, sets it, reads back
  the size the kernel applied, stores that, and warns when it is smaller than requested.
  The kernel's buffer sizes and the way it adjusts a requested size are the OS state
  \<open>os_sockbuf\<close>; \<open>getRecvBufferSize\<close> and its kin of the platform layer are modelled
  from the spec as reads and writes of that state.
\<close>

section \<open>The kernel's socket buffers\<close>

text \<open>
  The applied sizes of the two buffers, and the kernel's adjustment of a requested size
  (Linux, for instance, doubles it and caps it at \<open>rmem_max\<close>/\<open>wmem_max\<close>).
\<close>

record os_sockbuf =
  sb_rcv :: int32
  sb_snd :: int32
  sb_adjust :: "direction \<Rightarrow> int32 \<Rightarrow> int32"

text \<open>\<open>getRecvBufferSize\<close> / \<open>getSendBufferSize\<close>.\<close>

definition getBufferSize :: "os_sockbuf \<Rightarrow> direction \<Rightarrow> int32" where
  "getBufferSize os dir = (case dir of Receive \<Rightarrow> sb_rcv os | Send \<Rightarrow> sb_snd os)"

text \<open>\<open>setRecvBufferSize\<close> / \<open>setSendBufferSize\<close>: the kernel applies its adjustment.\<close>

definition setBufferSize :: "os_sockbuf \<Rightarrow> direction \<Rightarrow> int32 \<Rightarrow> os_sockbuf" where
  "setBufferSize os dir sz =
     (case dir of Receive \<Rightarrow> os\<lparr>sb_rcv := sb_adjust os Receive sz\<rparr>
                | Send \<Rightarrow> os\<lparr>sb_snd := sb_adjust os Send sz\<rparr>)"

text \<open>
  \<open>getPropertyAsIntWithDefault(prop, dflt)\<close>: the properties map a key to the value
  it parses to, if the key is set.
\<close>

type_synonym properties = "string \<Rightarrow> int32 option"

definition getPropertyAsIntWithDefault :: "properties \<Rightarrow> string \<Rightarrow> int32 \<Rightarrow> int32" where
  "getPropertyAsIntWithDefault props key dflt = (case props key of None \<Rightarrow> dflt | Some v \<Rightarrow> v)"

section \<open>The loop of setBufSize\<close>

text \<open>\<open>*addr = v\<close>: the field \<open>_rcvSize\<close> or \<open>_sndSize\<close> the loop writes.\<close>

definition store_size :: "direction \<Rightarrow> int32 \<Rightarrow> 'addr udp_transceiver \<Rightarrow> 'addr udp_transceiver" where
  "store_size dir v t = (case dir of Receive \<Rightarrow> t\<lparr>rcvSize := v\<rparr> | Send \<Rightarrow> t\<lparr>sndSize := v\<rparr>)"

type_synonym 'addr bufsize_state = "'addr udp_transceiver \<times> os_sockbuf \<times> 'addr effect list"

text \<open>One iteration of the \<open>for\<close> loop, for \<open>i = 0\<close> (receive) or \<open>i = 1\<close> (send).\<close>

definition setBufSize_body :: "properties \<Rightarrow> nat \<Rightarrow> 'addr bufsize_state \<Rightarrow> 'addr bufsize_state" where
  "setBufSize_body props i st =
     (case st of (t, os, es) \<Rightarrow>
       (let dir = (if i = 0 then Receive else Send);
            direction = (if i = 0 then ''receive'' else ''send'');
            prop = (if i = 0 then ''Ice.UDP.RcvSize'' else ''Ice.UDP.SndSize'');
            dfltSize = getBufferSize os dir;
            t1 = store_size dir dfltSize t;
            es1 = es @ [Call (SysGetBufSize dir)];
            requested = getPropertyAsIntWithDefault props prop dfltSize;
            (sizeRequested, es2) =
              (if sint requested < sint udpOverhead
               then (dfltSize, es1 @ [WarnInvalidBufSize prop (sint requested) (sint dfltSize)])
               else (requested, es1))
        in if sizeRequested \<noteq> dfltSize then
             (let os' = setBufferSize os dir sizeRequested;
                  applied = getBufferSize os' dir
              in (store_size dir applied t1, os',
                  es2 @ [Call (SysSetBufSize dir (sint sizeRequested)), Call (SysGetBufSize dir)]
                      @ (if sint applied < sint sizeRequested
                         then [WarnBufSizeAdjusted direction (sint sizeRequested) (sint applied)] else [])))
           else (t1, os, es2)))"

text \<open>\<open>for(int i = 0; i < 2; ++i)\<close>.\<close>

function setBufSize_loop :: "properties \<Rightarrow> nat \<Rightarrow> 'addr bufsize_state \<Rightarrow> 'addr bufsize_state" where
  "setBufSize_loop props i st =
     (if i < 2 then setBufSize_loop props (Suc i) (setBufSize_body props i st) else st)"
  by pat_completeness auto
termination
  by (relation "measure (\<lambda>(props, i, st). 2 - i)") auto

declare setBufSize_loop.simps [simp del]

text \<open>The member function: the handle assertion, then the loop.\<close>

definition setBufSize :: "properties \<Rightarrow> 'addr udp_transceiver \<Rightarrow> os_sockbuf
                           \<Rightarrow> 'addr bufsize_state result" where
  "setBufSize props t os =
     (if fd t = INVALID_SOCKET then Inl AssertFail else Inr (setBufSize_loop props 0 (t, os, [])))"

section \<open>The negotiated size\<close>

text \<open>
  What the spec promises for one direction: the OS default, unless the configured size
  is at least the overhead and differs from the default, in which case the size the
  kernel applies to it.
\<close>

definition negotiated :: "os_sockbuf \<Rightarrow> direction \<Rightarrow> int32 option \<Rightarrow> int32" where
  "negotiated os dir cfg =
     (let d = getBufferSize os dir; r = (case cfg of None \<Rightarrow> d | Some v \<Rightarrow> v) in
      if sint r < 28 \<or> r = d then d else sb_adjust os dir r)"

text \<open>The loop index as a direction, and the names the loop uses for each direction.\<close>

definition dir_of :: "nat \<Rightarrow> direction" where
  "dir_of i = (if i = 0 then Receive else Send)"

definition size_property :: "direction \<Rightarrow> string" where
  "size_property d = (case d of Receive \<Rightarrow> ''Ice.UDP.RcvSize'' | Send \<Rightarrow> ''Ice.UDP.SndSize'')"

definition direction_name :: "direction \<Rightarrow> string" where
  "direction_name d = (case d of Receive \<Rightarrow> ''receive'' | Send \<Rightarrow> ''send'')"

section \<open>Sample values\<close>

text \<open>
  A kernel with default buffers of 106496 bytes that doubles a requested size and caps
  it at 262144 (Linux with \<open>wmem_max = rmem_max = 131072\<close>), and properties that ask
  for a receive buffer of 10 bytes (below the overhead) and a send buffer of 300000.
\<close>

definition sample_os :: os_sockbuf where
  "sample_os = \<lparr>sb_rcv = 106496, sb_snd = 106496,
                 sb_adjust = (\<lambda>d r. if sint r < 131072 then 2 * r else 262144)\<rparr>"

definition sample_props :: properties where
  "sample_props k = (if k = ''Ice.UDP.RcvSize'' then Some 10
                     else if k = ''Ice.UDP.SndSize'' then Some 300000 else None)"

section \<open>Lemmas on one iteration of the loop\<close>

lemmas setBufSize_unfold = setBufSize_body_def Let_def negotiated_def getPropertyAsIntWithDefault_def
      store_size_def setBufferSize_def getBufferSize_def dir_of_def size_property_def
      direction_name_def udpOverhead_val

lemma setBufSize_loop_unroll:
  "setBufSize_loop props 0 st = setBufSize_body props 1 (setBufSize_body props 0 st)"
  by (simp add: setBufSize_loop.simps [of props 0] setBufSize_loop.simps [of props "Suc 0"]
                setBufSize_loop.simps [of props "Suc (Suc 0)"])

lemma setBufSize_body_state:
  "fst (setBufSize_body props i (t, os, es)) =
     store_size (dir_of i) (negotiated os (dir_of i) (props (size_property (dir_of i)))) t"
  by (auto simp: setBufSize_unfold split: option.splits direction.splits)

lemma getBufferSize_body:
  "getBufferSize (fst (snd (setBufSize_body props i (t, os, es)))) d =
     (if d = dir_of i then negotiated os d (props (size_property d)) else getBufferSize os d)"
  by (auto simp: setBufSize_unfold split: option.splits direction.splits)

lemma sb_adjust_body:
  "sb_adjust (fst (snd (setBufSize_body props i (t, os, es)))) = sb_adjust os"
  by (auto simp: setBufSize_body_def Let_def setBufferSize_def split: direction.splits)

lemma body_set_call:
  "Call (SysSetBufSize d n) \<in> set (snd (snd (setBufSize_body props i (t, os, es)))) \<longleftrightarrow>
     Call (SysSetBufSize d n) \<in> set es \<or>
     (d = dir_of i \<and> (\<exists>v. props (size_property d) = Some v \<and> n = sint v \<and> 28 \<le> n \<and> v \<noteq> getBufferSize os d))"
  by (auto simp: setBufSize_unfold split: option.splits direction.splits)

lemma body_warn_adjusted:
  "WarnBufSizeAdjusted nm r a \<in> set (snd (snd (setBufSize_body props i (t, os, es)))) \<longleftrightarrow>
     WarnBufSizeAdjusted nm r a \<in> set es \<or>
     (nm = direction_name (dir_of i) \<and> (\<exists>v. props (size_property (dir_of i)) = Some v \<and> 28 \<le> sint v \<and>
        v \<noteq> getBufferSize os (dir_of i) \<and> r = sint v \<and> a = sint (sb_adjust os (dir_of i) v) \<and> a < r))"
  by (auto simp: setBufSize_unfold split: option.splits direction.splits)

lemma body_warn_invalid:
  "WarnInvalidBufSize p r d \<in> set (snd (snd (setBufSize_body props i (t, os, es)))) \<longleftrightarrow>
     WarnInvalidBufSize p r d \<in> set es \<or>
     (p = size_property (dir_of i) \<and> d = sint (getBufferSize os (dir_of i)) \<and>
      r = sint (getPropertyAsIntWithDefault props p (getBufferSize os (dir_of i))) \<and> r < 28)"
  by (auto simp: setBufSize_unfold split: option.splits direction.splits)

lemma setBufSize_Inr:
  "setBufSize props t os = Inr r \<longleftrightarrow>
     fd t \<noteq> INVALID_SOCKET \<and> r = setBufSize_body props 1 (setBufSize_body props 0 (t, os, []))"
  by (auto simp: setBufSize_def setBufSize_loop_unroll)

lemma negotiated_cong:
  "getBufferSize os' d = getBufferSize os d \<Longrightarrow> sb_adjust os' = sb_adjust os \<Longrightarrow>
     negotiated os' d c = negotiated os d c"
  by (simp add: negotiated_def Let_def)

lemma dir_of_simps [simp]: "dir_of 0 = Receive" "dir_of (Suc i) = Send" "dir_of 1 = Send"
  by (simp_all add: dir_of_def)



lemma setBufSize_trace:
  assumes "setBufSize props t os = Inr (t', os', es)"
  obtains t1 os1 es1 where
    "setBufSize_body props 0 (t, os, []) = (t1, os1, es1)"
    "setBufSize_body props 1 (t1, os1, es1) = (t', os', es)"
    "getBufferSize os1 Send = getBufferSize os Send" "sb_adjust os1 = sb_adjust os"
proof -
  obtain t1 os1 es1 where b0: "setBufSize_body props 0 (t, os, []) = (t1, os1, es1)"
    by (metis prod.exhaust)
  moreover have "setBufSize_body props 1 (t1, os1, es1) = (t', os', es)"
    using assms b0 by (simp add: setBufSize_Inr)
  moreover have "getBufferSize os1 Send = getBufferSize os Send" "sb_adjust os1 = sb_adjust os"
    using getBufferSize_body [of props 0 t os "[]" Send] sb_adjust_body [of props 0 t os "[]"] b0
    by simp_all
  ultimately show ?thesis by (rule that)
qed

lemma direction_cases: "d = Receive \<or> d = Send"
  by (cases d) simp_all

text \<open>
  C24: \<open>setBufSize\<close> asks the kernel for a buffer size exactly when the size is
  configured, at least the overhead (28), and different from the OS default, and it asks
  for exactly the configured size.
\<close>

theorem setBufSize_requests_valid:
  assumes "setBufSize props t os = Inr (t', os', es)"
  shows "Call (SysSetBufSize d n) \<in> set es \<longleftrightarrow>
           (\<exists>v. props (size_property d) = Some v \<and> n = sint v \<and> 28 \<le> n \<and> v \<noteq> getBufferSize os d)"
proof -
  obtain t1 os1 es1 where b: "setBufSize_body props 0 (t, os, []) = (t1, os1, es1)"
    "setBufSize_body props 1 (t1, os1, es1) = (t', os', es)"
    "getBufferSize os1 Send = getBufferSize os Send" "sb_adjust os1 = sb_adjust os"
    using assms by (rule setBufSize_trace)
  have e1: "Call (SysSetBufSize d n) \<in> set es1 \<longleftrightarrow> d = Receive \<and>
      (\<exists>v. props (size_property d) = Some v \<and> n = sint v \<and> 28 \<le> n \<and> v \<noteq> getBufferSize os d)"
    using body_set_call [of d n props 0 t os "[]"] b(1) by simp
  have e2: "Call (SysSetBufSize d n) \<in> set es \<longleftrightarrow> Call (SysSetBufSize d n) \<in> set es1 \<or> d = Send \<and>
      (\<exists>v. props (size_property d) = Some v \<and> n = sint v \<and> 28 \<le> n \<and> v \<noteq> getBufferSize os1 d)"
    using body_set_call [of d n props 1 t1 os1 es1] b(2) by simp
  show ?thesis
  proof (cases d)
    case Receive
    then show ?thesis using e1 e2 by simp
  next
    case Send
    then show ?thesis using e1 e2 b(3) by simp
  qed
qed

lemma direction_ex: "(\<exists>d. P d) \<longleftrightarrow> P Receive \<or> P Send"
  by (metis direction_cases)

text \<open>
  C26: the warning "requested size adjusted" is logged for a direction exactly when a
  size was requested for it and the kernel applied a smaller one; it names the
  direction, the requested and the applied size.
\<close>

theorem setBufSize_warns_adjusted:
  assumes "setBufSize props t os = Inr (t', os', es)"
  shows "WarnBufSizeAdjusted nm r a \<in> set es \<longleftrightarrow>
           (\<exists>d v. nm = direction_name d \<and> props (size_property d) = Some v \<and> 28 \<le> sint v \<and>
              v \<noteq> getBufferSize os d \<and> r = sint v \<and> a = sint (sb_adjust os d v) \<and> a < r)"
proof -
  obtain t1 os1 es1 where b: "setBufSize_body props 0 (t, os, []) = (t1, os1, es1)"
    "setBufSize_body props 1 (t1, os1, es1) = (t', os', es)"
    "getBufferSize os1 Send = getBufferSize os Send" "sb_adjust os1 = sb_adjust os"
    using assms by (rule setBufSize_trace)
  have e1: "WarnBufSizeAdjusted nm r a \<in> set es1 \<longleftrightarrow> nm = direction_name Receive \<and>
      (\<exists>v. props (size_property Receive) = Some v \<and> 28 \<le> sint v \<and> v \<noteq> getBufferSize os Receive \<and>
         r = sint v \<and> a = sint (sb_adjust os Receive v) \<and> a < r)"
    using body_warn_adjusted [of nm r a props 0 t os "[]"] b(1) by simp
  have e2: "WarnBufSizeAdjusted nm r a \<in> set es \<longleftrightarrow> WarnBufSizeAdjusted nm r a \<in> set es1 \<or>
      nm = direction_name Send \<and>
      (\<exists>v. props (size_property Send) = Some v \<and> 28 \<le> sint v \<and> v \<noteq> getBufferSize os Send \<and>
         r = sint v \<and> a = sint (sb_adjust os Send v) \<and> a < r)"
    using body_warn_adjusted [of nm r a props 1 t1 os1 es1] b(2-4) by simp
  show ?thesis
    unfolding direction_ex [where P = "\<lambda>d. \<exists>v. nm = direction_name d \<and> _ d v"] e2 e1 by blast
qed

text \<open>
  C27: the warning "invalid value" is logged for a property exactly when the requested
  size of its direction (the property, or the OS default when it is unset) is below the
  overhead; the warning carries that value and the default that replaces it.
\<close>

theorem setBufSize_warns_invalid:
  assumes "setBufSize props t os = Inr (t', os', es)"
  shows "WarnInvalidBufSize p r dflt \<in> set es \<longleftrightarrow>
           (\<exists>d. p = size_property d \<and> dflt = sint (getBufferSize os d) \<and>
              r = sint (getPropertyAsIntWithDefault props p (getBufferSize os d)) \<and> r < 28)"
proof -
  obtain t1 os1 es1 where b: "setBufSize_body props 0 (t, os, []) = (t1, os1, es1)"
    "setBufSize_body props 1 (t1, os1, es1) = (t', os', es)"
    "getBufferSize os1 Send = getBufferSize os Send" "sb_adjust os1 = sb_adjust os"
    using assms by (rule setBufSize_trace)
  have e1: "WarnInvalidBufSize p r dflt \<in> set es1 \<longleftrightarrow> p = size_property Receive \<and>
      dflt = sint (getBufferSize os Receive) \<and>
      r = sint (getPropertyAsIntWithDefault props p (getBufferSize os Receive)) \<and> r < 28"
    using body_warn_invalid [of p r dflt props 0 t os "[]"] b(1) by simp
  have e2: "WarnInvalidBufSize p r dflt \<in> set es \<longleftrightarrow> WarnInvalidBufSize p r dflt \<in> set es1 \<or>
      p = size_property Send \<and> dflt = sint (getBufferSize os Send) \<and>
      r = sint (getPropertyAsIntWithDefault props p (getBufferSize os Send)) \<and> r < 28"
    using body_warn_invalid [of p r dflt props 1 t1 os1 es1] b(2-3) by simp
  show ?thesis
    unfolding direction_ex e2 e1 by blast
qed



lemmas sample_bufsize_defs = sample_os_def sample_props_def sample_tx_def INVALID_SOCKET_def

lemma sample_setBufSize:
  "setBufSize sample_props sample_tx sample_os =
     Inr (sample_tx\<lparr>rcvSize := 106496, sndSize := 262144\<rparr>, sample_os\<lparr>sb_snd := 262144\<rparr>,
          [Call (SysGetBufSize Receive), WarnInvalidBufSize ''Ice.UDP.RcvSize'' 10 106496,
           Call (SysGetBufSize Send), Call (SysSetBufSize Send 300000), Call (SysGetBufSize Send),
           WarnBufSizeAdjusted ''send'' 300000 262144])"
  by (simp add: setBufSize_def setBufSize_loop_unroll setBufSize_unfold sample_bufsize_defs)


lemma setBufSize_sizes:
  assumes "setBufSize props t os = Inr (t', os', es)"
  shows "t' = t\<lparr>rcvSize := negotiated os Receive (props ''Ice.UDP.RcvSize''),
                 sndSize := negotiated os Send (props ''Ice.UDP.SndSize'')\<rparr> \<and>
         sb_rcv os' = negotiated os Receive (props ''Ice.UDP.RcvSize'') \<and>
         sb_snd os' = negotiated os Send (props ''Ice.UDP.SndSize'')"
proof -
  obtain t1 os1 es1 where b: "setBufSize_body props 0 (t, os, []) = (t1, os1, es1)"
    "setBufSize_body props 1 (t1, os1, es1) = (t', os', es)"
    "getBufferSize os1 Send = getBufferSize os Send" "sb_adjust os1 = sb_adjust os"
    using assms by (rule setBufSize_trace)
  have n: "negotiated os1 Send c = negotiated os Send c" for c
    using b(3,4) by (rule negotiated_cong)
  have "sb_rcv os1 = negotiated os Receive (props ''Ice.UDP.RcvSize'')"
    using getBufferSize_body [of props 0 t os "[]" Receive] b(1)
    by (simp add: getBufferSize_def size_property_def)
  moreover have "t1 = t\<lparr>rcvSize := negotiated os Receive (props ''Ice.UDP.RcvSize'')\<rparr>"
    using setBufSize_body_state [of props 0 t os "[]"] b(1) by (simp add: store_size_def size_property_def)
  moreover have "sb_rcv os' = sb_rcv os1" "sb_snd os' = negotiated os Send (props ''Ice.UDP.SndSize'')"
    using getBufferSize_body [of props 1 t1 os1 es1 Receive] getBufferSize_body [of props 1 t1 os1 es1 Send] b(2) n
    by (simp_all add: getBufferSize_def size_property_def)
  moreover have "t' = t1\<lparr>sndSize := negotiated os Send (props ''Ice.UDP.SndSize'')\<rparr>"
    using setBufSize_body_state [of props 1 t1 os1 es1] b(2) n by (simp add: store_size_def size_property_def)
  ultimately show ?thesis by simp
qed

lemma setBufSize_valid:
  assumes "fd t \<noteq> INVALID_SOCKET"
  obtains os' es' where
    "setBufSize props t os = Inr (t\<lparr>rcvSize := negotiated os Receive (props ''Ice.UDP.RcvSize''),
                                     sndSize := negotiated os Send (props ''Ice.UDP.SndSize'')\<rparr>, os', es')"
proof -
  obtain t' os' es' where r: "setBufSize props t os = Inr (t', os', es')"
    using assms by (simp add: setBufSize_def) (metis prod_cases3)
  then show ?thesis using setBufSize_sizes [OF r] that by simp
qed

lemma negotiated_floor:
  assumes "28 \<le> sint (getBufferSize os d)" and "\<forall>r. 28 \<le> sint r \<longrightarrow> 28 \<le> sint (sb_adjust os d r)"
  shows "28 \<le> sint (negotiated os d c)"
  using assms by (auto simp: negotiated_def Let_def split: option.splits)

lemma packet_size_nonneg:
  assumes "28 \<le> sint s"
  shows "0 \<le> sint (packet_size s) \<and> sint (packet_size s) \<le> 65507"
  using assms by (simp add: packet_size_def sint_min_int32 maxPacketSize_val sint_minus_overhead)

text \<open>
  C23: \<open>setBufSize\<close> refines the negotiation contract: on a valid handle it changes no
  field but \<open>_rcvSize\<close> and \<open>_sndSize\<close>, and sets each to the negotiated size of its
  direction (the OS default, or the kernel's adjustment of a configured size that is at
  least the overhead and differs from the default); on an invalid handle its assertion
  fails.
\<close>

theorem setBufSize_negotiates:
  "map_sum id fst (setBufSize props t os) =
     (if fd t = INVALID_SOCKET then Inl AssertFail
      else Inr (t\<lparr>rcvSize := negotiated os Receive (props ''Ice.UDP.RcvSize''),
                 sndSize := negotiated os Send (props ''Ice.UDP.SndSize'')\<rparr>))"
proof (cases "setBufSize props t os")
  case (Inr r)
  then show ?thesis using setBufSize_sizes [of props t os "fst r" "fst (snd r)" "snd (snd r)"]
    by (simp add: setBufSize_Inr)
qed (auto simp: setBufSize_def split: if_splits)

text \<open>
  After \<open>setBufSize\<close> the stored sizes are the sizes the kernel reports for the
  socket: the setting of the send buffer does not disturb the receive size stored before.
\<close>

lemma setBufSize_consistent:
  assumes "setBufSize props t os = Inr (t', os', es)"
  shows "rcvSize t' = sb_rcv os' \<and> sndSize t' = sb_snd os'"
  using setBufSize_sizes [OF assms] by simp

text \<open>
  C28: when the kernel's default sizes are at least the overhead and it never adjusts a
  request of at least the overhead below it, the packet sizes that \<open>read\<close> and
  \<open>write\<close> derive from the stored sizes lie in \<open>[0, 65507]\<close>.
\<close>

theorem setBufSize_floor:
  assumes "setBufSize props t os = Inr (t', os', es)"
    and "28 \<le> sint (sb_rcv os)" and "28 \<le> sint (sb_snd os)"
    and "\<forall>d r. 28 \<le> sint r \<longrightarrow> 28 \<le> sint (sb_adjust os d r)"
  shows "0 \<le> sint (packet_size (rcvSize t')) \<and> sint (packet_size (rcvSize t')) \<le> 65507 \<and>
         0 \<le> sint (packet_size (sndSize t')) \<and> sint (packet_size (sndSize t')) \<le> 65507"
proof -
  have "28 \<le> sint (negotiated os d c)" for d c
    using assms(2-4) by (intro negotiated_floor) (simp_all add: getBufferSize_def split: direction.splits)
  then show ?thesis using setBufSize_sizes [OF assms(1)] packet_size_nonneg by simp
qed

lemma sample_adjust_floor: "\<forall>d r. 28 \<le> sint r \<longrightarrow> 28 \<le> sint (sb_adjust sample_os d r)"
proof (intro allI impI)
  fix d and r :: int32
  assume r: "28 \<le> sint r"
  show "28 \<le> sint (sb_adjust sample_os d r)"
  proof (cases "sint r < 131072")
    case True
    then have "sint (2 * r) = 2 * sint r"
      using r by (simp add: sint_word_ariths signed_take_bit_int_eq_self)
    then show ?thesis using True r by (simp add: sample_os_def)
  qed (simp add: sample_os_def)
qed

theorem setBufSize_floor_witness:
  "0 \<le> sint (packet_size (rcvSize (sample_tx\<lparr>rcvSize := 106496, sndSize := 262144\<rparr> :: nat udp_transceiver))) \<and>
   sint (packet_size (sndSize (sample_tx\<lparr>rcvSize := 106496, sndSize := 262144\<rparr> :: nat udp_transceiver))) \<le> 65507"
  using setBufSize_floor [OF sample_setBufSize _ _ sample_adjust_floor] by (simp add: sample_os_def)


theorem setBufSize_requests_valid_witness:
  "(\<exists>v. sample_props (size_property Send) = Some v \<and> 300000 = sint v \<and> 28 \<le> (300000::int)
        \<and> v \<noteq> getBufferSize sample_os Send) \<and>
   \<not> (\<exists>v. sample_props (size_property Receive) = Some v \<and> 10 = sint v \<and> 28 \<le> (10::int)
        \<and> v \<noteq> getBufferSize sample_os Receive)"
  using setBufSize_requests_valid [OF sample_setBufSize, of Send 300000]
        setBufSize_requests_valid [OF sample_setBufSize, of Receive 10]
  by simp

theorem setBufSize_warns_adjusted_witness:
  "\<exists>d v. ''send'' = direction_name d \<and> sample_props (size_property d) = Some v \<and> 28 \<le> sint v \<and>
     v \<noteq> getBufferSize sample_os d \<and> 300000 = sint v \<and> 262144 = sint (sb_adjust sample_os d v) \<and>
     (262144::int) < 300000"
  using setBufSize_warns_adjusted [OF sample_setBufSize, of "''send''" 300000 262144]
  by simp

theorem setBufSize_warns_invalid_witness:
  "\<exists>d. ''Ice.UDP.RcvSize'' = size_property d \<and> 106496 = sint (getBufferSize sample_os d) \<and>
     10 = sint (getPropertyAsIntWithDefault sample_props ''Ice.UDP.RcvSize'' (getBufferSize sample_os d)) \<and>
     (10::int) < 28"
  using setBufSize_warns_invalid [OF sample_setBufSize, of "''Ice.UDP.RcvSize''" 10 106496]
  by simp

theorem setBufSize_negotiates_witness:
  "map_sum id fst (setBufSize sample_props sample_tx sample_os) =
     Inr (sample_tx\<lparr>rcvSize := 106496, sndSize := 262144\<rparr>)"
  using setBufSize_negotiates [of sample_props sample_tx sample_os]
  by (simp add: negotiated_def getBufferSize_def sample_bufsize_defs)

end
