(* ===== verification/Udp_Construct.thy ===== *)
theory Udp_Construct
  imports Udp_Read Udp_BufSize
begin

text \<open>
  The two constructors of \<open>UdpTransceiver\<close> (lines 413--565): the connect-mode
  constructor of an outgoing endpoint and the bind-mode constructor of an incoming one,
  with the multicast set-up of each, and \<open>effectivePort()\<close>.  Addresses are the IPv4 and IPv6 socket addresses, so the
  multicast tests \<open>IN_MULTICAST\<close> and \<open>IN6_IS_ADDR_MULTICAST\<close> are computed on the
  address words.  The kernel is a record of the open handles, the handle the next
  \<open>socket()\<close> returns, the buffers of the new socket, the answer it gives to each
  platform call and the name resolver.  A constructor is the list of the steps of its
  \<open>try\<close> block, run until the first that throws, followed by the \<open>catch(...)\<close>
  block: the model returns the exception in flight, if any, with the object's state.
  The trace blocks of the constructors are steps that emit a trace line when the
  network trace level is high enough.
\<close>

section \<open>Socket addresses\<close>

text \<open>
  A \<open>sockaddr_in\<close> or \<open>sockaddr_in6\<close>: the address and the port, as the host-order
  values \<open>ntohl\<close> and \<open>ntohs\<close> give (the IPv6 address as its 128 bits, first byte
  most significant).
\<close>

datatype sockaddr = SockAddrIn "32 word" "16 word" | SockAddrIn6 "128 word" "16 word"

text \<open>\<open>IN_MULTICAST(ntohl(s_addr))\<close> (class D: the top four bits are \<open>1110\<close>) and
  \<open>IN6_IS_ADDR_MULTICAST\<close> (the first byte is \<open>0xff\<close>).\<close>

definition IN_MULTICAST :: "32 word \<Rightarrow> bool" where
  "IN_MULTICAST a = (and a 0xf0000000 = 0xe0000000)"

definition IN6_IS_ADDR_MULTICAST :: "128 word \<Rightarrow> bool" where
  "IN6_IS_ADDR_MULTICAST a = (drop_bit 120 a = 0xff)"

text \<open>The multicast test and the port of lines 432--445 (and 497--510).\<close>

definition is_multicast :: "sockaddr \<Rightarrow> bool" where
  "is_multicast a = (case a of SockAddrIn h p \<Rightarrow> IN_MULTICAST h | SockAddrIn6 h p \<Rightarrow> IN6_IS_ADDR_MULTICAST h)"

definition sock_port :: "sockaddr \<Rightarrow> int" where
  "sock_port a = (case a of SockAddrIn h p \<Rightarrow> uint p | SockAddrIn6 h p \<Rightarrow> uint p)"

section \<open>The kernel\<close>

text \<open>
  \<open>k_ans\<close> is the answer of the kernel to each platform call (\<open>createSocket\<close>,
  \<open>setBlock\<close>, \<open>doConnect\<close>, \<open>doBind\<close>, the socket options); a call is issued at most
  once per construction, so a function of the call is as general as a sequence of
  answers.  \<open>k_resolve\<close> is \<open>getAddressForServer\<close>: \<open>None\<close> is a name it cannot
  resolve.  \<open>k_local\<close> is the local address of each handle, as \<open>fdToLocalAddress\<close>
  reports it.
\<close>

record kernel =
  k_open :: "int list"
  k_next :: int
  k_bufs :: os_sockbuf
  k_ans :: "sockaddr syscall \<Rightarrow> unit sysret"
  k_resolve :: "string \<Rightarrow> int \<Rightarrow> sockaddr option"
  k_local :: "int \<Rightarrow> sockaddr"

type_synonym cstate = "sockaddr udp_transceiver \<times> kernel \<times> sockaddr effect list"

text \<open>A step of a \<open>try\<close> block: the exception it throws, if any, and the new state.\<close>

type_synonym cstep = "cstate \<Rightarrow> failure option \<times> cstate"

primrec run_steps :: "cstep list \<Rightarrow> cstate \<Rightarrow> failure option \<times> cstate" where
  "run_steps [] st = (None, st)"
| "run_steps (f # fs) st =
     (case f st of (None, st') \<Rightarrow> run_steps fs st' | (Some x, st') \<Rightarrow> (Some x, st'))"

text \<open>
  A platform helper of \<open>Network.cpp\<close> on the socket under construction: it issues one
  call and, when the call fails, releases the socket (spec 4.1 step 5: "on any failure
  the socket is released") and throws the exception \<open>exn\<close> makes of the error code
  (\<open>SocketException\<close> for most helpers, \<open>doConnect\<close>'s
  \<open>ConnectFailedException\<close>).
\<close>

definition plat_call :: "(sockaddr udp_transceiver \<Rightarrow> sockaddr syscall) \<Rightarrow> (unit sysret \<Rightarrow> unit result) \<Rightarrow> cstep" where
  "plat_call c exn st =
     (case st of (t, k, es) \<Rightarrow>
        (case exn (k_ans k (c t)) of
           Inl x \<Rightarrow> (Some x, (t, k\<lparr>k_open := removeAll (fd t) (k_open k)\<rparr>, es @ [Call (c t), Call (SysClose (fd t))]))
         | Inr _ \<Rightarrow> (None, (t, k, es @ [Call (c t)]))))"

definition socket_exn :: "unit sysret \<Rightarrow> unit result" where
  "socket_exn r = (case r of Ok u \<Rightarrow> Inr u | Fail e \<Rightarrow> Inl (Raise (SocketException e)))"

text \<open>\<open>_fd = createSocket(true, family)\<close>: a new handle, open in the kernel.\<close>

definition createSocket_step :: cstep where
  "createSocket_step st =
     (case st of (t, k, es) \<Rightarrow>
        (case k_ans k SysSocket of
           Fail e \<Rightarrow> (Some (Raise (SocketException e)), (t, k, es @ [Call SysSocket]))
         | Ok _ \<Rightarrow> (None, (t\<lparr>fd := k_next k\<rparr>,
                             k\<lparr>k_open := k_next k # k_open k, k_next := k_next k + 1\<rparr>,
                             es @ [Call SysSocket]))))"

text \<open>\<open>setBufSize(instance)\<close> on the new socket's buffers.\<close>

definition setBufSize_step :: "properties \<Rightarrow> cstep" where
  "setBufSize_step props st =
     (case st of (t, k, es) \<Rightarrow>
        (case setBufSize props t (k_bufs k) of
           Inl x \<Rightarrow> (Some x, (t, k, es))
         | Inr (t', os', es') \<Rightarrow> (None, (t', k\<lparr>k_bufs := os'\<rparr>, es @ es'))))"

text \<open>\<open>getAddressForServer(host, port, _addr, ...)\<close>.\<close>

definition resolve_step :: "string \<Rightarrow> int \<Rightarrow> cstep" where
  "resolve_step host port st =
     (case st of (t, k, es) \<Rightarrow>
        (case k_resolve k host port of
           None \<Rightarrow> (Some (Raise (DNSException host)), (t, k, es @ [Call (SysResolve host port)]))
         | Some a \<Rightarrow> (None, (t\<lparr>addr := a\<rparr>, k, es @ [Call (SysResolve host port)]))))"

text \<open>A trace line that prints \<open>toString()\<close>, which reads \<open>_mcastServer\<close>.\<close>

definition trace_step :: "int \<Rightarrow> trace_msg \<Rightarrow> cstep" where
  "trace_step level msg st = (case st of (t, k, es) \<Rightarrow> (None, (t, k, es @ trace_line t level msg)))"

text \<open>The bind-mode constructor's trace line at level 2, \<open>addrToString(_addr)\<close>
  (lines 492--496).\<close>

definition bind_trace_step :: cstep where
  "bind_trace_step st =
     (case st of (t, k, es) \<Rightarrow>
        (None, (t, k, es @ (if 2 \<le> traceNetwork t then [TraceBind (addr t)] else []))))"

definition update_step :: "(sockaddr udp_transceiver \<Rightarrow> sockaddr udp_transceiver) \<Rightarrow> cstep" where
  "update_step f st = (case st of (t, k, es) \<Rightarrow> (None, (f t, k, es)))"

text \<open>The \<open>catch(...)\<close> block of both constructors: \<open>_fd = INVALID_SOCKET; throw;\<close>.\<close>

definition catch_all :: "failure option \<times> cstate \<Rightarrow> failure option \<times> cstate" where
  "catch_all r =
     (case r of (None, st) \<Rightarrow> (None, st)
              | (Some x, (t, k, es)) \<Rightarrow> (Some x, (t\<lparr>fd := INVALID_SOCKET\<rparr>, k, es)))"

text \<open>
  Predicates of the proof that a failed construction releases its socket: the object
  holds the new handle \<open>h\<close>, open beside the handles \<open>S\<close> open before (and the
  wildcard address resolves); the kernel is back to \<open>S\<close>; the outcome of a step.
\<close>

definition owned_new :: "int \<Rightarrow> int set \<Rightarrow> cstate \<Rightarrow> bool" where
  "owned_new h S st = (fd (fst st) = h \<and> set (k_open (fst (snd st))) = insert h S
                       \<and> (\<forall>p. k_resolve (fst (snd st)) [] p \<noteq> None))"

definition released :: "int set \<Rightarrow> cstate \<Rightarrow> bool" where
  "released S st = (set (k_open (fst (snd st))) = S)"

definition step_outcome :: "(cstate \<Rightarrow> bool) \<Rightarrow> (cstate \<Rightarrow> bool) \<Rightarrow> failure option \<times> cstate \<Rightarrow> bool" where
  "step_outcome P R r = (case r of (None, st') \<Rightarrow> P st' | (Some x, st') \<Rightarrow> R st')"

text \<open>\<open>getPropertyAsInt("Ice.Warn.Datagrams") > 0\<close>.\<close>

definition warn_datagrams :: "properties \<Rightarrow> bool" where
  "warn_datagrams props = (0 < sint (getPropertyAsIntWithDefault props ''Ice.Warn.Datagrams'' 0))"

section \<open>The connect-mode constructor\<close>

text \<open>
  The initialiser list (lines 413--422): \<open>_fd\<close>, \<open>_rcvSize\<close>, \<open>_sndSize\<close> and
  \<open>_mcastServer\<close> are not initialised; \<open>_fd\<close> and the sizes are assigned before
  any read, \<open>_mcastServer\<close> is \<open>None\<close> (never assigned).
\<close>

definition connect_init :: "properties \<Rightarrow> int \<Rightarrow> sockaddr \<Rightarrow> sockaddr udp_transceiver" where
  "connect_init props traceLevel a =
     \<lparr>fd = INVALID_SOCKET, incoming = False, addr = a, connect = True, warn = warn_datagrams props,
      traceNetwork = traceLevel, shutdownReadWrite = False, mcastServer = None, rcvSize = 0, sndSize = 0\<rparr>"

text \<open>The multicast options of lines 446--456.\<close>

definition connect_mcast_steps :: "sockaddr \<Rightarrow> string \<Rightarrow> int \<Rightarrow> cstep list" where
  "connect_mcast_steps a mcastInterface mcastTtl =
     (if is_multicast a then
        (if mcastInterface \<noteq> [] then [plat_call (\<lambda>t. SysMcastInterface (fd t) mcastInterface) socket_exn] else [])
        @ (if mcastTtl \<noteq> -1 then [plat_call (\<lambda>t. SysMcastTtl (fd t) mcastTtl) socket_exn] else [])
      else [])"

definition connect_steps :: "properties \<Rightarrow> sockaddr \<Rightarrow> string \<Rightarrow> int \<Rightarrow> cstep list" where
  "connect_steps props a mcastInterface mcastTtl =
     [createSocket_step,
      setBufSize_step props,
      plat_call (\<lambda>t. SysSetBlock (fd t)) socket_exn,
      plat_call (\<lambda>t. SysConnect (addr t)) doConnect,
      update_step (\<lambda>t. t\<lparr>connect := False\<rparr>)]
     @ connect_mcast_steps a mcastInterface mcastTtl
     @ [trace_step 1 TrStartSending]"

definition UdpTransceiver_connect ::
  "properties \<Rightarrow> int \<Rightarrow> kernel \<Rightarrow> sockaddr \<Rightarrow> string \<Rightarrow> int \<Rightarrow> failure option \<times> cstate" where
  "UdpTransceiver_connect props traceLevel k a mcastInterface mcastTtl =
     catch_all (run_steps (connect_steps props a mcastInterface mcastTtl)
                          (connect_init props traceLevel a, k, []))"

section \<open>The bind-mode constructor\<close>

text \<open>
  The initialiser list (lines 476--484): \<open>_addr\<close> is filled in by
  \<open>getAddressForServer\<close> (the model starts it at the zero address); \<open>_mcastServer\<close>
  is assigned only on the multicast branch.
\<close>

definition bind_init :: "properties \<Rightarrow> int \<Rightarrow> bool \<Rightarrow> sockaddr udp_transceiver" where
  "bind_init props traceLevel connectFlag =
     \<lparr>fd = INVALID_SOCKET, incoming = True, addr = SockAddrIn 0 0, connect = connectFlag,
      warn = warn_datagrams props, traceNetwork = traceLevel, shutdownReadWrite = False, mcastServer = None,
      rcvSize = 0, sndSize = 0\<rparr>"

text \<open>
  Windows does not bind to a multicast address: it resolves the wildcard address with
  the same port and binds to that (lines 515--522).
\<close>

definition wildcard_bind_step :: cstep where
  "wildcard_bind_step st =
     (case st of (t, k, es) \<Rightarrow>
        (let p = sock_port (addr t) in
         case k_resolve k [] p of
           None \<Rightarrow> (Some (Raise (DNSException [])), (t, k, es @ [Call (SysResolve [] p)]))
         | Some w \<Rightarrow> plat_call (\<lambda>t. SysBind (fd t) w) socket_exn (t, k, es @ [Call (SysResolve [] p)])))"

text \<open>The multicast branch (lines 511--528) and the unicast branch (lines 529--547).\<close>

definition bind_mcast_steps :: "bool \<Rightarrow> string \<Rightarrow> cstep list" where
  "bind_mcast_steps windows mcastInterface =
     [plat_call (\<lambda>t. SysReuseAddr (fd t)) socket_exn,
      if windows then wildcard_bind_step else plat_call (\<lambda>t. SysBind (fd t) (addr t)) socket_exn,
      plat_call (\<lambda>t. SysMcastGroup (fd t) (addr t) mcastInterface) socket_exn,
      update_step (\<lambda>t. t\<lparr>mcastServer := Some True\<rparr>)]"

definition bind_unicast_steps :: "bool \<Rightarrow> cstep list" where
  "bind_unicast_steps windows =
     (if windows then [] else [plat_call (\<lambda>t. SysReuseAddr (fd t)) socket_exn])
     @ [plat_call (\<lambda>t. SysBind (fd t) (addr t)) socket_exn]"

text \<open>The branch is chosen on the resolved address, at run time.\<close>

definition bind_step :: "bool \<Rightarrow> string \<Rightarrow> cstep" where
  "bind_step windows mcastInterface st =
     (case st of (t, k, es) \<Rightarrow>
        run_steps (if is_multicast (addr t) then bind_mcast_steps windows mcastInterface
                   else bind_unicast_steps windows) st)"

definition bind_steps :: "properties \<Rightarrow> bool \<Rightarrow> string \<Rightarrow> int \<Rightarrow> string \<Rightarrow> cstep list" where
  "bind_steps props windows host port mcastInterface =
     [resolve_step host port,
      createSocket_step,
      setBufSize_step props,
      plat_call (\<lambda>t. SysSetBlock (fd t)) socket_exn,
      bind_trace_step,
      bind_step windows mcastInterface,
      trace_step 1 TrStartReceiving]"

definition UdpTransceiver_bind ::
  "properties \<Rightarrow> int \<Rightarrow> bool \<Rightarrow> kernel \<Rightarrow> string \<Rightarrow> int \<Rightarrow> string \<Rightarrow> bool \<Rightarrow> failure option \<times> cstate" where
  "UdpTransceiver_bind props traceLevel windows k host port mcastInterface connectFlag =
     catch_all (run_steps (bind_steps props windows host port mcastInterface)
                          (bind_init props traceLevel connectFlag, k, []))"

section \<open>Sample values\<close>

text \<open>A unicast peer, a multicast group, a kernel that grants everything and one that refuses
  \<open>connect\<close> and \<open>bind\<close>.\<close>

definition sample_peer :: sockaddr where
  "sample_peer = SockAddrIn 0x7f000001 10000"

definition sample_group :: sockaddr where
  "sample_group = SockAddrIn 0xef000001 10000"

definition sample_kernel :: kernel where
  "sample_kernel = \<lparr>k_open = [], k_next = 3, k_bufs = sample_os, k_ans = (\<lambda>c. Ok ()),
     k_resolve = (\<lambda>h p. if h = [] then Some (SockAddrIn 0 (word_of_int p)) else Some sample_group),
     k_local = (\<lambda>h. SockAddrIn 0x7f000001 10001)\<rparr>"

definition refusing_kernel :: kernel where
  "refusing_kernel = sample_kernel\<lparr>k_ans := (\<lambda>c. case c of SysConnect a \<Rightarrow> Fail (EOTHER 111)
                                                        | SysBind h a \<Rightarrow> Fail (EOTHER 98) | _ \<Rightarrow> Ok ())\<rparr>"


section \<open>effectivePort\<close>

text \<open>\<open>effectivePort()\<close> (lines 407--411): \<open>getPort(_addr)\<close>, the host-order port.\<close>

definition effectivePort :: "sockaddr udp_transceiver \<Rightarrow> int" where
  "effectivePort t = sock_port (addr t)"

section \<open>Lemmas on the steps\<close>

lemma run_steps_append:
  "run_steps (fs @ gs) st = (case run_steps fs st of (None, st') \<Rightarrow> run_steps gs st' | r \<Rightarrow> r)"
  by (induction fs arbitrary: st) (auto split: prod.splits option.splits)

lemma run_steps_inv:
  assumes "\<forall>f \<in> set fs. \<forall>st. P st \<longrightarrow> P (snd (f st))" and "P st"
  shows "P (snd (run_steps fs st))"
  using assms
proof (induction fs arbitrary: st)
  case (Cons f fs)
  obtain r st' where f: "f st = (r, st')" by (cases "f st") blast
  have "P st'" using Cons.prems f by (metis list.set_intros(1) snd_conv)
  then show ?case using Cons.IH [of st'] Cons.prems(1) f by (cases r) simp_all
qed simp

text \<open>
  C30: when every platform call succeeds, the connect-mode constructor yields an
  outgoing transceiver on the new handle, already connected (\<open>_connect\<close> false), with
  the negotiated buffer sizes and \<open>_mcastServer\<close> never assigned; it issues
  \<open>socket\<close>, the buffer-size calls, \<open>setBlock\<close>, \<open>connect\<close> to the target and,
  for a multicast target only, the interface and TTL options that were given; the new
  handle is the one socket it leaves open.
\<close>

theorem UdpTransceiver_connect_success:
  assumes "k_ans k = (\<lambda>c. Ok ())" and "0 \<le> k_next k"
  shows "\<exists>k' bes. UdpTransceiver_connect props tr k a iface ttl =
     (None, ((connect_init props tr a)\<lparr>fd := k_next k, connect := False,
              rcvSize := negotiated (k_bufs k) Receive (props ''Ice.UDP.RcvSize''),
              sndSize := negotiated (k_bufs k) Send (props ''Ice.UDP.SndSize'')\<rparr>,
             k', [Call SysSocket] @ bes @ [Call (SysSetBlock (k_next k)), Call (SysConnect a)]
                 @ (if is_multicast a then
                      (if iface \<noteq> [] then [Call (SysMcastInterface (k_next k) iface)] else [])
                      @ (if ttl \<noteq> -1 then [Call (SysMcastTtl (k_next k) ttl)] else [])
                    else [])
                 @ (if 1 \<le> tr then [Trace TrStartSending None] else [])))
     \<and> k_open k' = k_next k # k_open k"
proof -
  let ?t1 = "(connect_init props tr a)\<lparr>fd := k_next k\<rparr>"
  have "fd ?t1 \<noteq> INVALID_SOCKET" using assms(2) by (simp add: INVALID_SOCKET_def)
  then obtain os' es' where b: "setBufSize props ?t1 (k_bufs k) =
      Inr (?t1\<lparr>rcvSize := negotiated (k_bufs k) Receive (props ''Ice.UDP.RcvSize''),
               sndSize := negotiated (k_bufs k) Send (props ''Ice.UDP.SndSize'')\<rparr>, os', es')"
    by (rule setBufSize_valid)
  show ?thesis
    using assms b
    by (simp add: UdpTransceiver_connect_def connect_steps_def connect_mcast_steps_def run_steps_append
        createSocket_step_def setBufSize_step_def plat_call_def socket_exn_def doConnect_def
        update_step_def trace_step_def trace_line_def toString_def catch_all_def connect_init_def)
qed


abbreviation kern :: "cstate \<Rightarrow> kernel" where
  "kern st \<equiv> fst (snd st)"

lemma plat_call_next: "k_next (kern (snd (plat_call c exn st))) = k_next (kern st)"
  by (cases st) (simp add: plat_call_def split: sum.splits)

lemma update_step_kern: "kern (snd (update_step f st)) = kern st"
  by (cases st) (simp add: update_step_def)

lemma trace_step_kern: "kern (snd (trace_step l m st)) = kern st"
  by (cases st) (simp add: trace_step_def)

lemma bind_trace_step_kern: "kern (snd (bind_trace_step st)) = kern st"
  by (cases st) (simp add: bind_trace_step_def)

lemma resolve_step_kern: "kern (snd (resolve_step h p st)) = kern st"
  by (cases st) (simp add: resolve_step_def split: option.splits)

lemma setBufSize_step_open: "k_open (kern (snd (setBufSize_step props st))) = k_open (kern st)"
  by (cases st) (simp add: setBufSize_step_def split: sum.splits prod.splits)

lemma createSocket_step_open: "set (k_open (kern st)) \<subseteq> set (k_open (kern (snd (createSocket_step st))))"
  by (cases st) (auto simp: createSocket_step_def split: sysret.splits)

lemma wildcard_bind_step_next: "k_next (kern (snd (wildcard_bind_step st))) = k_next (kern st)"
  by (cases st) (simp add: wildcard_bind_step_def Let_def plat_call_next split: option.splits)

lemma catch_all_Some: "catch_all r = (Some x, (t, k, es)) \<Longrightarrow> fd t = INVALID_SOCKET \<and> k = kern (snd r)"
  by (auto simp: catch_all_def split: option.splits prod.splits)

lemma run_steps_outcome:
  assumes "\<forall>f \<in> set fs. \<forall>st. P st \<longrightarrow> step_outcome P R (f st)" and "P st"
  shows "step_outcome P R (run_steps fs st)"
  using assms
proof (induction fs arbitrary: st)
  case (Cons f fs)
  obtain r st' where f: "f st = (r, st')" by (cases "f st") blast
  have o: "step_outcome P R (r, st')" using Cons.prems f by (metis list.set_intros(1))
  show ?case
  proof (cases r)
    case None
    then have "P st'" using o by (simp add: step_outcome_def)
    then show ?thesis using Cons.IH [of st'] Cons.prems(1) f None by simp
  next
    case (Some x)
    then show ?thesis using o f by simp
  qed
qed (simp add: step_outcome_def)

text \<open>
  After \<open>createSocket\<close>, every step of either constructor keeps the new handle open
  and the object on it when it returns, and leaves the kernel with the old handles when
  it throws (the wildcard address of Windows is assumed to resolve, as it does for the
  empty host).
\<close>

lemma release_plat_call:
  "h \<notin> S \<Longrightarrow> owned_new h S st \<Longrightarrow> step_outcome (owned_new h S) (released S) (plat_call c exn st)"
  by (cases st) (auto simp: plat_call_def owned_new_def released_def step_outcome_def split: sum.splits)

lemma release_update:
  "(\<And>t. fd (g t) = fd t) \<Longrightarrow> owned_new h S st \<Longrightarrow> step_outcome (owned_new h S) (released S) (update_step g st)"
  by (cases st) (simp add: update_step_def owned_new_def step_outcome_def)

lemma release_trace:
  "owned_new h S st \<Longrightarrow> step_outcome (owned_new h S) (released S) (trace_step l m st)"
  "owned_new h S st \<Longrightarrow> step_outcome (owned_new h S) (released S) (bind_trace_step st)"
  by (cases st; simp add: trace_step_def bind_trace_step_def owned_new_def step_outcome_def)+

lemma release_setBufSize:
  assumes "h \<noteq> INVALID_SOCKET" and "owned_new h S st"
  shows "step_outcome (owned_new h S) (released S) (setBufSize_step props st)"
proof -
  obtain t k es where st: "st = (t, k, es)" by (cases st) blast
  obtain os' es' where "setBufSize props t (k_bufs k) =
      Inr (t\<lparr>rcvSize := negotiated (k_bufs k) Receive (props ''Ice.UDP.RcvSize''),
             sndSize := negotiated (k_bufs k) Send (props ''Ice.UDP.SndSize'')\<rparr>, os', es')"
    using assms st by (auto simp: owned_new_def intro: setBufSize_valid)
  then show ?thesis using assms(2) st by (simp add: setBufSize_step_def owned_new_def step_outcome_def)
qed

lemma release_wildcard:
  assumes "h \<notin> S" and "owned_new h S st"
  shows "step_outcome (owned_new h S) (released S) (wildcard_bind_step st)"
proof -
  obtain t k es where st: "st = (t, k, es)" by (cases st) blast
  obtain w where "k_resolve k [] (sock_port (addr t)) = Some w" using assms(2) st by (auto simp: owned_new_def)
  moreover have "owned_new h S (t, k, es @ [Call (SysResolve [] (sock_port (addr t)))])"
    using assms(2) st by (simp add: owned_new_def)
  ultimately show ?thesis
    using release_plat_call [OF assms(1)] st by (simp add: wildcard_bind_step_def Let_def)
qed

lemma release_bind_step:
  assumes "h \<notin> S" and "h \<noteq> INVALID_SOCKET" and "owned_new h S st"
  shows "step_outcome (owned_new h S) (released S) (bind_step w i st)"
proof -
  have "step_outcome (owned_new h S) (released S) (run_steps fs st)"
    if "fs = bind_mcast_steps w i \<or> fs = bind_unicast_steps w" for fs
  proof (rule run_steps_outcome)
    show "\<forall>f \<in> set fs. \<forall>st. owned_new h S st \<longrightarrow> step_outcome (owned_new h S) (released S) (f st)"
      using that by (auto simp: bind_mcast_steps_def bind_unicast_steps_def release_plat_call [OF assms(1)]
          release_wildcard [OF assms(1)] release_update split: if_splits)
  qed (rule assms(3))
  then show ?thesis by (cases st) (simp add: bind_step_def)
qed

lemma release_create:
  "k_next k \<notin> set (k_open k) \<Longrightarrow> \<forall>p. k_resolve k [] p \<noteq> None \<Longrightarrow>
   step_outcome (owned_new (k_next k) (set (k_open k))) (released (set (k_open k))) (createSocket_step (t, k, es))"
  by (auto simp: createSocket_step_def owned_new_def released_def step_outcome_def split: sysret.splits)

text \<open>
  C31: spec 4.1 step 5.  When either constructor throws, the socket it created is
  released and the object is left with an invalid handle: the helper that failed closed
  the new socket, and the \<open>catch(...)\<close> block only sets \<open>_fd\<close> to
  \<open>INVALID_SOCKET\<close> and rethrows.  The kernel ends with exactly the handles it had
  open before, whichever step failed (resolution, \<open>createSocket\<close>, \<open>setBlock\<close>,
  \<open>connect\<close>, a socket option, the bind or the multicast join).
\<close>

theorem UdpTransceiver_failure_releases:
  assumes "k_next k \<notin> set (k_open k)" and "0 \<le> k_next k" and "\<forall>p. k_resolve k [] p \<noteq> None"
  shows "(UdpTransceiver_connect props tr k a i ttl = (Some x, (t, k', es))
            \<longrightarrow> fd t = INVALID_SOCKET \<and> set (k_open k') = set (k_open k)) \<and>
         (UdpTransceiver_bind props tr w k host port i c = (Some y, (tb, kb, esb))
            \<longrightarrow> fd tb = INVALID_SOCKET \<and> set (k_open kb) = set (k_open k))"
proof -
  let ?h = "k_next k" and ?S = "set (k_open k)"
  have h: "?h \<noteq> INVALID_SOCKET" using assms(2) by (simp add: INVALID_SOCKET_def)
  have runs: "step_outcome (owned_new ?h ?S) (released ?S) (run_steps (createSocket_step # fs) (t0, k, es0))"
    if "\<forall>f \<in> set fs. \<forall>st. owned_new ?h ?S st \<longrightarrow> step_outcome (owned_new ?h ?S) (released ?S) (f st)" for fs t0 es0
  proof -
    obtain r st1 where c: "createSocket_step (t0, k, es0) = (r, st1)" by (metis prod.exhaust)
    have o: "step_outcome (owned_new ?h ?S) (released ?S) (r, st1)"
      using release_create [OF assms(1,3), of t0 es0] c by simp
    show ?thesis
    proof (cases r)
      case None
      then have "owned_new ?h ?S st1" using o by (simp add: step_outcome_def)
      then show ?thesis using run_steps_outcome [OF that] c None by simp
    next
      case (Some x)
      then show ?thesis using o c by simp
    qed
  qed
  have "\<forall>f \<in> set (tl (connect_steps props a i ttl)). \<forall>st. owned_new ?h ?S st \<longrightarrow>
          step_outcome (owned_new ?h ?S) (released ?S) (f st)"
    by (auto simp: connect_steps_def connect_mcast_steps_def release_plat_call [OF assms(1)] release_update
        release_trace release_setBufSize [OF h] split: if_splits)
  moreover have "connect_steps props a i ttl = createSocket_step # tl (connect_steps props a i ttl)"
    by (simp add: connect_steps_def)
  ultimately have "step_outcome (owned_new ?h ?S) (released ?S)
                     (run_steps (connect_steps props a i ttl) (connect_init props tr a, k, []))"
    by (metis runs)
  moreover have "step_outcome (owned_new ?h ?S) (released ?S)
                   (run_steps (bind_steps props w host port i) (bind_init props tr c, k, []))"
  proof (cases "k_resolve k host port")
    case None
    then show ?thesis by (simp add: bind_steps_def resolve_step_def step_outcome_def released_def)
  next
    case (Some a)
    have "\<forall>f \<in> set (tl (tl (bind_steps props w host port i))). \<forall>st. owned_new ?h ?S st \<longrightarrow>
            step_outcome (owned_new ?h ?S) (released ?S) (f st)"
      by (auto simp: bind_steps_def release_plat_call [OF assms(1)] release_trace
          release_setBufSize [OF h] release_bind_step [OF assms(1) h])
    then have "step_outcome (owned_new ?h ?S) (released ?S)
                 (run_steps (createSocket_step # tl (tl (bind_steps props w host port i)))
                    ((bind_init props tr c)\<lparr>addr := a\<rparr>, k, [Call (SysResolve host port)]))"
      by (rule runs)
    then show ?thesis using Some by (simp add: bind_steps_def resolve_step_def)
  qed
  ultimately show ?thesis
    by (auto simp: UdpTransceiver_connect_def UdpTransceiver_bind_def catch_all_def step_outcome_def released_def
        split: prod.splits option.splits)
qed

text \<open>
  C32: when resolution and every platform call succeed, the bind-mode constructor yields
  an incoming transceiver on the resolved address with the given connect flag; for a
  multicast address it enables address reuse, binds (to the wildcard address on the
  same port on Windows), joins the group and sets \<open>_mcastServer\<close>; for a unicast
  address it enables reuse except on Windows, binds, and never assigns
  \<open>_mcastServer\<close>.
\<close>

theorem UdpTransceiver_bind_success:
  assumes "k_ans k = (\<lambda>c. Ok ())" and "0 \<le> k_next k" and "k_resolve k host port = Some a"
    and "k_resolve k [] (sock_port a) = Some wa"
  shows "\<exists>k' bes. UdpTransceiver_bind props tr w k host port i c =
     (None, ((bind_init props tr c)\<lparr>addr := a, fd := k_next k,
              rcvSize := negotiated (k_bufs k) Receive (props ''Ice.UDP.RcvSize''),
              sndSize := negotiated (k_bufs k) Send (props ''Ice.UDP.SndSize''),
              mcastServer := (if is_multicast a then Some True else None)\<rparr>,
             k', [Call (SysResolve host port), Call SysSocket] @ bes @ [Call (SysSetBlock (k_next k))]
                 @ (if 2 \<le> tr then [TraceBind a] else [])
                 @ (if is_multicast a then
                      [Call (SysReuseAddr (k_next k))]
                      @ (if w then [Call (SysResolve [] (sock_port a)), Call (SysBind (k_next k) wa)]
                         else [Call (SysBind (k_next k) a)])
                      @ [Call (SysMcastGroup (k_next k) a i)]
                    else (if w then [] else [Call (SysReuseAddr (k_next k))]) @ [Call (SysBind (k_next k) a)])
                 @ (if 1 \<le> tr then [Trace TrStartReceiving (if is_multicast a then Some AddressesToString else None)]
                    else [])))
     \<and> k_open k' = k_next k # k_open k"
proof -
  let ?t1 = "(bind_init props tr c)\<lparr>addr := a, fd := k_next k\<rparr>"
  have "fd ?t1 \<noteq> INVALID_SOCKET" using assms(2) by (simp add: INVALID_SOCKET_def)
  then obtain os' es' where b: "setBufSize props ?t1 (k_bufs k) =
      Inr (?t1\<lparr>rcvSize := negotiated (k_bufs k) Receive (props ''Ice.UDP.RcvSize''),
               sndSize := negotiated (k_bufs k) Send (props ''Ice.UDP.SndSize'')\<rparr>, os', es')"
    by (rule setBufSize_valid)
  show ?thesis
    using assms b
    by (simp add: UdpTransceiver_bind_def bind_steps_def bind_step_def bind_mcast_steps_def
        bind_unicast_steps_def resolve_step_def wildcard_bind_step_def run_steps_append
        createSocket_step_def setBufSize_step_def plat_call_def socket_exn_def
        update_step_def trace_step_def bind_trace_step_def trace_line_def toString_def catch_all_def
        bind_init_def INVALID_SOCKET_def)
qed

lemma setBufSize_step_mcastServer:
  "mcastServer (fst (snd (setBufSize_step props st))) = mcastServer (fst st)"
proof -
  obtain t k es where st: "st = (t, k, es)" by (cases st) blast
  show ?thesis
  proof (cases "setBufSize props t (k_bufs k)")
    case (Inr r)
    then obtain t' os' es' where "setBufSize props t (k_bufs k) = Inr (t', os', es')"
      by (cases r) auto
    then show ?thesis using setBufSize_sizes [of props t "k_bufs k" t' os' es'] st
      by (simp add: setBufSize_step_def)
  qed (simp add: setBufSize_step_def st)
qed

lemma connect_steps_snoc:
  "connect_steps props a i ttl =
     butlast (connect_steps props a i ttl) @ [trace_step 1 TrStartSending]"
  by (simp add: connect_steps_def)

section \<open>The object a successful construction returns\<close>

lemma plat_call_obj: "fst (snd (plat_call c exn st)) = fst st"
  by (cases st) (simp add: plat_call_def split: sum.splits)

lemma trace_step_obj: "fst (snd (trace_step l m st)) = fst st"
  by (cases st) (simp add: trace_step_def)

lemma bind_trace_step_obj: "fst (snd (bind_trace_step st)) = fst st"
  by (cases st) (simp add: bind_trace_step_def)

lemma run_steps_obj:
  assumes "\<forall>f \<in> set fs. \<forall>st. fst (snd (f st)) = fst st"
  shows "fst (snd (run_steps fs st)) = fst st"
proof -
  have "\<forall>f \<in> set fs. \<forall>st'. (\<lambda>st'. fst st' = fst st) st' \<longrightarrow> (\<lambda>st'. fst st' = fst st) (snd (f st'))"
    using assms by simp
  from run_steps_inv [OF this] show ?thesis by simp
qed

lemma run_steps_append_None:
  assumes "run_steps (fs @ gs) st = (None, st')"
  obtains st1 where "run_steps fs st = (None, st1)" and "run_steps gs st1 = (None, st')"
  using assms by (auto simp: run_steps_append split: prod.splits option.splits)

lemma catch_all_None: "catch_all r = (None, st) \<longleftrightarrow> r = (None, st)"
  by (auto simp: catch_all_def split: option.splits prod.splits)

lemma connect_mcast_steps_obj:
  "f \<in> set (connect_mcast_steps a i ttl @ [trace_step 1 TrStartSending]) \<Longrightarrow> fst (snd (f st)) = fst st"
  by (auto simp: connect_mcast_steps_def plat_call_obj trace_step_obj split: if_splits)

text \<open>The prefix both constructors share: \<open>createSocket\<close>, then \<open>setBufSize\<close>.\<close>

lemma create_setBufSize_obj:
  assumes "run_steps [createSocket_step, setBufSize_step props] (t, k, es) = (None, st)"
  shows "fst st = t\<lparr>fd := k_next k, rcvSize := negotiated (k_bufs k) Receive (props ''Ice.UDP.RcvSize''),
                      sndSize := negotiated (k_bufs k) Send (props ''Ice.UDP.SndSize'')\<rparr>"
  using assms setBufSize_sizes [of props "t\<lparr>fd := k_next k\<rparr>" "k_bufs k"]
  by (auto simp: createSocket_step_def setBufSize_step_def split: sysret.splits sum.splits prod.splits)

text \<open>
  Whatever the kernel answers, a connect-mode construction that returns gives the
  initial object with the new handle, the negotiated sizes and \<open>_connect\<close> cleared.
\<close>

lemma UdpTransceiver_connect_object:
  assumes "UdpTransceiver_connect props tr k a i ttl = (None, (t, k', es))"
  shows "t = (connect_init props tr a)\<lparr>fd := k_next k, connect := False,
                rcvSize := negotiated (k_bufs k) Receive (props ''Ice.UDP.RcvSize''),
                sndSize := negotiated (k_bufs k) Send (props ''Ice.UDP.SndSize'')\<rparr>"
proof -
  have "run_steps ([createSocket_step, setBufSize_step props]
                   @ [plat_call (\<lambda>t. SysSetBlock (fd t)) socket_exn, plat_call (\<lambda>t. SysConnect (addr t)) doConnect,
                      update_step (\<lambda>t. t\<lparr>connect := False\<rparr>)]
                   @ connect_mcast_steps a i ttl @ [trace_step 1 TrStartSending])
          (connect_init props tr a, k, []) = (None, (t, k', es))"
    using assms by (simp add: UdpTransceiver_connect_def connect_steps_def catch_all_None)
  then obtain st2 where r2: "run_steps [createSocket_step, setBufSize_step props] (connect_init props tr a, k, []) = (None, st2)"
    and r2': "run_steps ([plat_call (\<lambda>t. SysSetBlock (fd t)) socket_exn, plat_call (\<lambda>t. SysConnect (addr t)) doConnect,
                      update_step (\<lambda>t. t\<lparr>connect := False\<rparr>)] @ connect_mcast_steps a i ttl @ [trace_step 1 TrStartSending]) st2
             = (None, (t, k', es))"
    by (rule run_steps_append_None)
  from r2' obtain st5 where r5: "run_steps [plat_call (\<lambda>t. SysSetBlock (fd t)) socket_exn, plat_call (\<lambda>t. SysConnect (addr t)) doConnect,
                      update_step (\<lambda>t. t\<lparr>connect := False\<rparr>)] st2 = (None, st5)"
    and rest: "run_steps (connect_mcast_steps a i ttl @ [trace_step 1 TrStartSending]) st5 = (None, (t, k', es))"
    by (rule run_steps_append_None)
  have "run_steps ([plat_call (\<lambda>t. SysSetBlock (fd t)) socket_exn, plat_call (\<lambda>t. SysConnect (addr t)) doConnect]
                   @ [update_step (\<lambda>t. t\<lparr>connect := False\<rparr>)]) st2 = (None, st5)"
    using r5 by simp
  then obtain st4 where r4: "run_steps [plat_call (\<lambda>t. SysSetBlock (fd t)) socket_exn,
                                         plat_call (\<lambda>t. SysConnect (addr t)) doConnect] st2 = (None, st4)"
    and u: "run_steps [update_step (\<lambda>t. t\<lparr>connect := False\<rparr>)] st4 = (None, st5)"
    by (rule run_steps_append_None)
  have "fst st4 = fst st2"
    using run_steps_obj [of "[plat_call (\<lambda>t. SysSetBlock (fd t)) socket_exn, plat_call (\<lambda>t. SysConnect (addr t)) doConnect]" st2] r4
    by (simp add: plat_call_obj)
  then have "fst st5 = (fst st2)\<lparr>connect := False\<rparr>"
    using u by (cases st4) (auto simp: update_step_def)
  moreover have "t = fst st5"
    using run_steps_obj [of "connect_mcast_steps a i ttl @ [trace_step 1 TrStartSending]" st5] rest
    by (simp add: connect_mcast_steps_obj)
  ultimately show ?thesis using create_setBufSize_obj [OF r2] by simp
qed

lemma wildcard_bind_step_obj: "fst (snd (wildcard_bind_step st)) = fst st"
  by (cases st) (simp add: wildcard_bind_step_def Let_def plat_call_obj split: option.splits)

text \<open>A bind that returns: the multicast branch ends by setting \<open>_mcastServer\<close>.\<close>

lemma bind_step_obj:
  assumes "bind_step w i st = (None, st')"
  shows "fst st' = (if is_multicast (addr (fst st)) then (fst st)\<lparr>mcastServer := Some True\<rparr> else fst st)"
proof (cases "is_multicast (addr (fst st))")
  case True
  let ?pre = "[plat_call (\<lambda>t. SysReuseAddr (fd t)) socket_exn,
               if w then wildcard_bind_step else plat_call (\<lambda>t. SysBind (fd t) (addr t)) socket_exn,
               plat_call (\<lambda>t. SysMcastGroup (fd t) (addr t) i) socket_exn]"
  have "run_steps (?pre @ [update_step (\<lambda>t. t\<lparr>mcastServer := Some True\<rparr>)]) st = (None, st')"
    using assms True by (cases st) (simp add: bind_step_def bind_mcast_steps_def)
  then obtain st3 where r3: "run_steps ?pre st = (None, st3)"
    and u: "run_steps [update_step (\<lambda>t. t\<lparr>mcastServer := Some True\<rparr>)] st3 = (None, st')"
    by (rule run_steps_append_None)
  have "fst st3 = fst st"
    using run_steps_obj [of ?pre st] r3 by (simp add: plat_call_obj wildcard_bind_step_obj)
  then show ?thesis using u True by (cases st3) (auto simp: update_step_def)
next
  case False
  then have "run_steps (bind_unicast_steps w) st = (None, st')"
    using assms by (cases st) (simp add: bind_step_def)
  then show ?thesis
    using False run_steps_obj [of "bind_unicast_steps w" st]
    by (simp add: bind_unicast_steps_def plat_call_obj)
qed

text \<open>
  Whatever the kernel answers, a bind-mode construction that returns gives the initial
  object on the resolved address with the new handle and the negotiated sizes; it is a
  multicast server exactly when the address is a multicast group.
\<close>

lemma UdpTransceiver_bind_object:
  assumes "UdpTransceiver_bind props tr w k host port i c = (None, (t, k', es))"
  shows "\<exists>a. k_resolve k host port = Some a \<and>
           t = (bind_init props tr c)\<lparr>addr := a, fd := k_next k,
                 rcvSize := negotiated (k_bufs k) Receive (props ''Ice.UDP.RcvSize''),
                 sndSize := negotiated (k_bufs k) Send (props ''Ice.UDP.SndSize''),
                 mcastServer := (if is_multicast a then Some True else None)\<rparr>"
proof -
  let ?pre = "[plat_call (\<lambda>t. SysSetBlock (fd t)) socket_exn, bind_trace_step]"
  have "run_steps ([resolve_step host port] @ [createSocket_step, setBufSize_step props]
                   @ ?pre @ [bind_step w i] @ [trace_step 1 TrStartReceiving])
          (bind_init props tr c, k, []) = (None, (t, k', es))"
    using assms by (simp add: UdpTransceiver_bind_def bind_steps_def catch_all_None)
  then obtain st1 where r1: "run_steps [resolve_step host port] (bind_init props tr c, k, []) = (None, st1)"
    and r1': "run_steps ([createSocket_step, setBufSize_step props] @ ?pre @ [bind_step w i]
                         @ [trace_step 1 TrStartReceiving]) st1 = (None, (t, k', es))"
    by (rule run_steps_append_None)
  from r1' obtain st2 where r2: "run_steps [createSocket_step, setBufSize_step props] st1 = (None, st2)"
    and r2': "run_steps (?pre @ [bind_step w i] @ [trace_step 1 TrStartReceiving]) st2 = (None, (t, k', es))"
    by (rule run_steps_append_None)
  from r2' obtain st3 where r3: "run_steps ?pre st2 = (None, st3)"
    and r3': "run_steps ([bind_step w i] @ [trace_step 1 TrStartReceiving]) st3 = (None, (t, k', es))"
    by (rule run_steps_append_None)
  from r3' obtain st4 where s4: "run_steps [bind_step w i] st3 = (None, st4)"
    and s5: "run_steps [trace_step 1 TrStartReceiving] st4 = (None, (t, k', es))"
    by (rule run_steps_append_None)
  obtain a where a: "k_resolve k host port = Some a"
    and st1: "st1 = ((bind_init props tr c)\<lparr>addr := a\<rparr>, k, [Call (SysResolve host port)])"
    using r1 by (auto simp: resolve_step_def split: option.splits)
  have o2: "fst st2 = (bind_init props tr c)\<lparr>addr := a, fd := k_next k,
                 rcvSize := negotiated (k_bufs k) Receive (props ''Ice.UDP.RcvSize''),
                 sndSize := negotiated (k_bufs k) Send (props ''Ice.UDP.SndSize'')\<rparr>"
    using create_setBufSize_obj r2 st1 by simp
  have "fst st3 = fst st2"
    using run_steps_obj [of ?pre st2] r3 by (simp add: plat_call_obj bind_trace_step_obj)
  moreover have "bind_step w i st3 = (None, st4)" using s4 by (auto split: prod.splits option.splits)
  moreover have "t = fst st4" using s5 trace_step_obj [of 1 TrStartReceiving st4] by (auto split: prod.splits option.splits)
  ultimately show ?thesis using a o2 bind_step_obj by (simp add: bind_init_def)
qed

section \<open>The handle a construction creates is fresh\<close>

text \<open>
  Every step but \<open>createSocket\<close> keeps the object's handle and the kernel's next
  handle; \<open>createSocket\<close> takes the next handle and advances it.  So a valid handle
  of the object under construction is always below the kernel's next handle.
\<close>

lemma setBufSize_step_fd_next:
  "fd (fst (snd (setBufSize_step props st))) = fd (fst st) \<and>
   k_next (kern (snd (setBufSize_step props st))) = k_next (kern st)"
proof -
  obtain t k es where st: "st = (t, k, es)" by (cases st) blast
  show ?thesis
  proof (cases "setBufSize props t (k_bufs k)")
    case (Inr r)
    then obtain t' os' es' where "setBufSize props t (k_bufs k) = Inr (t', os', es')" by (cases r) auto
    then show ?thesis using setBufSize_sizes [of props t "k_bufs k" t' os' es'] st
      by (simp add: setBufSize_step_def)
  qed (simp add: setBufSize_step_def st)
qed

lemma bind_step_fd_next:
  "fd (fst (snd (bind_step w i st))) = fd (fst st) \<and> k_next (kern (snd (bind_step w i st))) = k_next (kern st)"
proof -
  let ?Q = "\<lambda>st'. fd (fst st') = fd (fst st) \<and> k_next (kern st') = k_next (kern st)"
  have "\<forall>f \<in> set fs. \<forall>st'. ?Q st' \<longrightarrow> ?Q (snd (f st'))"
    if "fs = bind_mcast_steps w i \<or> fs = bind_unicast_steps w" for fs
    using that by (auto simp: bind_mcast_steps_def bind_unicast_steps_def plat_call_obj plat_call_next
        update_step_kern wildcard_bind_step_obj wildcard_bind_step_next update_step_def split: prod.splits if_splits)
  from run_steps_inv [OF this] show ?thesis by (cases st) (simp add: bind_step_def)
qed

lemma construct_steps_fresh:
  assumes "fs = connect_steps props a i ttl \<or> fs = bind_steps props w h p i"
  shows "\<forall>f \<in> set fs. \<forall>st. (fd (fst st) \<noteq> INVALID_SOCKET \<longrightarrow> fd (fst st) < k_next (kern st))
           \<longrightarrow> (fd (fst (snd (f st))) \<noteq> INVALID_SOCKET \<longrightarrow> fd (fst (snd (f st))) < k_next (kern (snd (f st))))"
proof -
  have c: "fd (fst (snd (createSocket_step st))) \<noteq> INVALID_SOCKET \<longrightarrow>
             fd (fst (snd (createSocket_step st))) < k_next (kern (snd (createSocket_step st)))"
    if "fd (fst st) \<noteq> INVALID_SOCKET \<longrightarrow> fd (fst st) < k_next (kern st)" for st
    using that by (cases st) (auto simp: createSocket_step_def split: sysret.splits)
  show ?thesis using assms
    by (auto simp: connect_steps_def connect_mcast_steps_def bind_steps_def plat_call_obj plat_call_next
        update_step_kern trace_step_obj trace_step_kern bind_trace_step_obj bind_trace_step_kern
        resolve_step_kern setBufSize_step_fd_next bind_step_fd_next c update_step_def
        resolve_step_def split: if_splits prod.splits option.splits)
qed

text \<open>A construction that returns leaves the object on a handle below the kernel's next one.\<close>

lemma constructed_fd_fresh:
  assumes "UdpTransceiver_connect props tr k a i ttl = (None, (t, k', es))
           \<or> UdpTransceiver_bind props tr w k host port i c = (None, (t, k', es))"
    and "0 \<le> k_next k"
  shows "fd t = k_next k \<and> k_next k < k_next k'"
proof -
  let ?P = "\<lambda>st :: cstate. fd (fst st) \<noteq> INVALID_SOCKET \<longrightarrow> fd (fst st) < k_next (kern st)"
  have init: "?P (connect_init props tr a, k, [])" "?P (bind_init props tr c, k, [])"
    by (simp_all add: connect_init_def bind_init_def)
  have "?P (snd (run_steps (connect_steps props a i ttl) (connect_init props tr a, k, [])))"
    by (rule run_steps_inv [OF construct_steps_fresh init(1)]) auto
  moreover have "?P (snd (run_steps (bind_steps props w host port i) (bind_init props tr c, k, [])))"
    by (rule run_steps_inv [OF construct_steps_fresh init(2)]) auto
  ultimately have "?P (t, k', es)"
    using assms(1) by (auto simp: UdpTransceiver_connect_def UdpTransceiver_bind_def catch_all_None)
  moreover have "fd t = k_next k"
    using assms(1) UdpTransceiver_connect_object [of props tr k a i ttl t k' es]
      UdpTransceiver_bind_object [of props tr w k host port i c t k' es] by auto
  ultimately show ?thesis using assms(2) by (simp add: INVALID_SOCKET_def)
qed

text \<open>
  C34: every transceiver the connect-mode constructor returns has \<open>_mcastServer\<close>
  unassigned, so \<open>toString()\<close> reads an uninitialised member; with network tracing
  enabled the constructor's own trace line already does.
\<close>

theorem UdpTransceiver_connect_toString:
  assumes "UdpTransceiver_connect props tr k a i ttl = (None, (t, k', es))"
  shows "toString t = None \<and> (1 \<le> tr \<longrightarrow> Trace TrStartSending None \<in> set es)"
proof -
  let ?st0 = "(connect_init props tr a, k, [])"
  have t: "t = (connect_init props tr a)\<lparr>fd := k_next k, connect := False,
                rcvSize := negotiated (k_bufs k) Receive (props ''Ice.UDP.RcvSize''),
                sndSize := negotiated (k_bufs k) Send (props ''Ice.UDP.SndSize'')\<rparr>"
    using assms by (rule UdpTransceiver_connect_object)
  have r: "run_steps (butlast (connect_steps props a i ttl) @ [trace_step 1 TrStartSending]) ?st0 = (None, (t, k', es))"
    using assms by (simp add: UdpTransceiver_connect_def catch_all_None flip: connect_steps_snoc)
  then obtain st1 where "run_steps [trace_step 1 TrStartSending] st1 = (None, (t, k', es))"
    by (rule run_steps_append_None)
  then have es: "es = snd (snd st1) @ trace_line t 1 TrStartSending"
    by (cases st1) (auto simp: trace_step_def)
  have "toString t = None" by (simp add: t toString_def connect_init_def)
  moreover have "trace_line t 1 TrStartSending = (if 1 \<le> tr then [Trace TrStartSending None] else [])"
    by (simp add: trace_line_def t toString_def connect_init_def)
  ultimately show ?thesis using es by auto
qed



lemmas sample_kernel_defs = sample_kernel_def refusing_kernel_def sample_peer_def sample_group_def

lemmas construct_unfold = UdpTransceiver_connect_def connect_steps_def connect_mcast_steps_def
  UdpTransceiver_bind_def bind_steps_def bind_step_def bind_mcast_steps_def bind_unicast_steps_def
  resolve_step_def wildcard_bind_step_def createSocket_step_def setBufSize_step_def plat_call_def
  socket_exn_def doConnect_def update_step_def trace_step_def bind_trace_step_def trace_line_def toString_def
  catch_all_def connect_init_def bind_init_def
  setBufSize_def setBufSize_loop_unroll setBufSize_unfold sample_os_def sample_props_def
  is_multicast_def IN_MULTICAST_def INVALID_SOCKET_def

lemma sample_group_multicast: "is_multicast sample_group"
  by (simp add: is_multicast_def IN_MULTICAST_def sample_group_def)

lemma sample_group_port: "sock_port sample_group = 10000"
  by (simp add: sock_port_def sample_group_def)

theorem UdpTransceiver_connect_success_witness:
  "\<exists>k' bes. UdpTransceiver_connect sample_props 0 sample_kernel sample_group ''eth0'' 4 =
     (None, ((connect_init sample_props 0 sample_group)\<lparr>fd := 3, connect := False,
              rcvSize := negotiated sample_os Receive (sample_props ''Ice.UDP.RcvSize''),
              sndSize := negotiated sample_os Send (sample_props ''Ice.UDP.SndSize'')\<rparr>,
             k', [Call SysSocket] @ bes @ [Call (SysSetBlock 3), Call (SysConnect sample_group),
                 Call (SysMcastInterface 3 ''eth0''), Call (SysMcastTtl 3 4)]))
     \<and> k_open k' = [3]"
  using UdpTransceiver_connect_success [of sample_kernel sample_props 0 sample_group "''eth0''" 4]
  by (simp add: sample_kernel_def sample_group_multicast)

theorem UdpTransceiver_bind_success_witness:
  "\<exists>k' bes. UdpTransceiver_bind sample_props 0 True sample_kernel ''239.0.0.1'' 10000 [] True =
     (None, ((bind_init sample_props 0 True)\<lparr>addr := sample_group, fd := 3,
              rcvSize := negotiated sample_os Receive (sample_props ''Ice.UDP.RcvSize''),
              sndSize := negotiated sample_os Send (sample_props ''Ice.UDP.SndSize''),
              mcastServer := Some True\<rparr>,
             k', [Call (SysResolve ''239.0.0.1'' 10000), Call SysSocket] @ bes @ [Call (SysSetBlock 3)]
                 @ [Call (SysReuseAddr 3), Call (SysResolve [] 10000), Call (SysBind 3 (SockAddrIn 0 10000)),
                    Call (SysMcastGroup 3 sample_group [])]))
     \<and> k_open k' = [3]"
  using UdpTransceiver_bind_success [where k = sample_kernel and props = sample_props and tr = 0
        and host = "''239.0.0.1''" and port = 10000 and a = sample_group and wa = "SockAddrIn 0 10000"
        and w = True and i = "[]" and c = True]
  by (simp add: sample_kernel_def sample_group_multicast sample_group_port)

theorem UdpTransceiver_failure_releases_witness:
  "\<exists>t k' es tb kb esb.
     UdpTransceiver_connect sample_props 0 refusing_kernel sample_peer [] (-1) =
       (Some (Raise (ConnectFailedException (EOTHER 111))), (t, k', es))
     \<and> UdpTransceiver_bind sample_props 0 False refusing_kernel ''127.0.0.1'' 10000 [] False =
       (Some (Raise (SocketException (EOTHER 98))), (tb, kb, esb))
     \<and> fd t = INVALID_SOCKET \<and> k_open k' = [] \<and> fd tb = INVALID_SOCKET \<and> k_open kb = []"
proof -
  obtain t k' es where r: "UdpTransceiver_connect sample_props 0 refusing_kernel sample_peer [] (-1) =
      (Some (Raise (ConnectFailedException (EOTHER 111))), (t, k', es))"
    by (simp add: construct_unfold sample_kernel_defs)
  obtain tb kb esb where rb: "UdpTransceiver_bind sample_props 0 False refusing_kernel ''127.0.0.1'' 10000 [] False =
      (Some (Raise (SocketException (EOTHER 98))), (tb, kb, esb))"
    by (simp add: construct_unfold sample_kernel_defs)
  have "k_next refusing_kernel \<notin> set (k_open refusing_kernel)" "0 \<le> k_next refusing_kernel"
    "\<forall>p. k_resolve refusing_kernel [] p \<noteq> None"
    by (simp_all add: sample_kernel_defs)
  then have "fd t = INVALID_SOCKET \<and> set (k_open k') = set (k_open refusing_kernel)
             \<and> fd tb = INVALID_SOCKET \<and> set (k_open kb) = set (k_open refusing_kernel)"
    using r rb UdpTransceiver_failure_releases [of refusing_kernel sample_props 0 sample_peer "[]" "-1"
        "Raise (ConnectFailedException (EOTHER 111))" t k' es False "''127.0.0.1''" 10000 False
        "Raise (SocketException (EOTHER 98))" tb kb esb]
    by blast
  with r rb show ?thesis by (auto simp: sample_kernel_defs)
qed

theorem UdpTransceiver_connect_toString_witness:
  "\<exists>t k' es. UdpTransceiver_connect sample_props 1 sample_kernel sample_peer [] (-1) = (None, (t, k', es))
     \<and> toString t = None \<and> Trace TrStartSending None \<in> set es"
proof -
  obtain t k' es where r: "UdpTransceiver_connect sample_props 1 sample_kernel sample_peer [] (-1) = (None, (t, k', es))"
    by (simp add: construct_unfold sample_kernel_defs)
  then have "toString t = None \<and> (1 \<le> (1::int) \<longrightarrow> Trace TrStartSending None \<in> set es)"
    by (rule UdpTransceiver_connect_toString)
  with r show ?thesis by auto
qed

end
