(* ===== verification/Udp_Shutdown.thy ===== *)
theory Udp_Shutdown
  imports Udp_Construct
begin

text \<open>
  \<open>UdpTransceiver::shutdownReadWrite\<close> (lines 50--106): it sets the shutdown flag
  under \<open>_shutdownReadWriteMutex\<close> and shuts the socket down in both directions.  On
  the platforms where that does not wake a reader blocked in \<open>select\<close>/\<open>poll\<close>
  (\<open>_WIN32\<close>, \<open>__sun\<close>, \<open>__hppa\<close>, \<open>_AIX\<close>, \<open>__APPLE__\<close>: the flag \<open>decoy\<close>
  of the model) it first reads the socket's local address, disconnects a connected
  socket, and sends a one-byte decoy datagram to that address from a throwaway socket.
  The model is a step of the construction framework of \<open>Udp_Construct\<close> on the
  object, the kernel and the effects; the decoy socket is a local variable, so the decoy
  is one step with its own sequence of calls.
\<close>

section \<open>Steps of shutdownReadWrite\<close>

text \<open>\<open>assert(_fd != INVALID_SOCKET)\<close>.\<close>

definition assert_valid_step :: cstep where
  "assert_valid_step st =
     (case st of (t, k, es) \<Rightarrow> (if fd t = INVALID_SOCKET then Some AssertFail else None, (t, k, es)))"

text \<open>\<open>if(!_connect) ::connect(_fd, AF_UNSPEC)\<close>: the result is ignored.\<close>

definition disconnect_step :: cstep where
  "disconnect_step st =
     (case st of (t, k, es) \<Rightarrow>
        (None, (t, k, if \<not> connect t then es @ [Call (SysDisconnect (fd t))] else es)))"

text \<open>
  The decoy (lines 97--101): \<open>createSocket\<close>, \<open>setBlock\<close>, \<open>doConnect\<close> to the saved
  local address, \<open>::send(fd, "", 1, 0)\<close> (one byte, the result ignored),
  \<open>closeSocket\<close>.  \<open>setBlock\<close> and \<open>doConnect\<close> are the platform helpers of the
  constructors: when they fail they release the decoy socket and throw.
  \<open>closeSocket\<close> throws a \<open>SocketException\<close> if \<open>close\<close> reports an error; the
  kernel releases the handle only when the close succeeds, as for \<open>close()\<close> (POSIX
  leaves the state of a handle whose close failed unspecified).
\<close>

definition decoy_step :: "sockaddr \<Rightarrow> cstep" where
  "decoy_step localAddr st =
     (case st of (t, k, es) \<Rightarrow>
        (case k_ans k SysSocket of
           Fail e \<Rightarrow> (Some (Raise (SocketException e)), (t, k, es @ [Call SysSocket]))
         | Ok _ \<Rightarrow>
             (let d = k_next k;
                  k1 = k\<lparr>k_open := d # k_open k, k_next := d + 1\<rparr>;
                  k2 = k1\<lparr>k_open := removeAll d (k_open k1)\<rparr>;
                  es1 = es @ [Call SysSocket, Call (SysSetBlock d)]
              in case socket_exn (k_ans k (SysSetBlock d)) of
                   Inl x \<Rightarrow> (Some x, (t, k2, es1 @ [Call (SysClose d)]))
                 | Inr _ \<Rightarrow>
                     (let es2 = es1 @ [Call (SysConnectOn d localAddr)] in
                      case doConnect (k_ans k (SysConnectOn d localAddr)) of
                        Inl x \<Rightarrow> (Some x, (t, k2, es2 @ [Call (SysClose d)]))
                      | Inr _ \<Rightarrow>
                          (let es3 = es2 @ [Call (SysSendOn d 1), Call (SysClose d)]
                           in case socket_exn (k_ans k (SysClose d)) of
                                Inl x \<Rightarrow> (Some x, (t, k1, es3))
                              | Inr _ \<Rightarrow> (None, (t, k2, es3)))))))"

text \<open>
  \<open>shutdownSocketReadWrite(_fd)\<close> on the object's own handle: a failure throws a
  \<open>SocketException\<close>; the handle stays the object's, to be released by
  \<open>close()\<close> (the spec releases a socket on failure only during construction).
\<close>

definition shutdown_call :: cstep where
  "shutdown_call st =
     (case st of (t, k, es) \<Rightarrow>
        (case socket_exn (k_ans k (SysShutdown (fd t))) of
           Inl x \<Rightarrow> (Some x, (t, k, es @ [Call (SysShutdown (fd t))]))
         | Inr _ \<Rightarrow> (None, (t, k, es @ [Call (SysShutdown (fd t))]))))"

text \<open>
  The member function.  The trace line at level 2 comes first, then the flag is set (under
  the mutex); on the decoy platforms
  \<open>fdToLocalAddress\<close> runs before the assertion on the handle.
\<close>

definition shutdownReadWrite_op :: "bool \<Rightarrow> cstep" where
  "shutdownReadWrite_op decoy st =
     (case st of (t, k, es) \<Rightarrow>
        (let es0 = es @ trace_line t 2 TrShuttingDown; t1 = t\<lparr>shutdownReadWrite := True\<rparr> in
         if decoy then
           (case socket_exn (k_ans k (SysLocalAddr (fd t))) of
              Inl x \<Rightarrow> (Some x, (t1, k, es0 @ [Call (SysLocalAddr (fd t))]))
            | Inr _ \<Rightarrow>
                run_steps [assert_valid_step, shutdown_call, disconnect_step, decoy_step (k_local k (fd t))]
                  (t1, k, es0 @ [Call (SysLocalAddr (fd t))]))
         else run_steps [assert_valid_step, shutdown_call] (t1, k, es0)))"

section \<open>Sample values\<close>

text \<open>
  A connected outgoing transceiver on handle 3 with buffers of 65536 bytes, a kernel in which handle 3 is open and
  the next socket is 4, and the same kernel refusing the decoy's \<open>connect\<close> with
  \<open>ECONNREFUSED\<close> (111).
\<close>

definition sample_open_tx :: "sockaddr udp_transceiver" where
  "sample_open_tx = (connect_init sample_props 0 sample_peer)\<lparr>fd := 3, connect := False,
                                                            rcvSize := 65536, sndSize := 65536\<rparr>"

definition sample_open_kernel :: kernel where
  "sample_open_kernel = sample_kernel\<lparr>k_open := [3], k_next := 4\<rparr>"

definition decoy_refusing_kernel :: kernel where
  "decoy_refusing_kernel = sample_open_kernel\<lparr>k_ans := (\<lambda>c.
     if c = SysConnectOn 4 (SockAddrIn 0x7f000001 10001) then Fail (EOTHER 111) else Ok ())\<rparr>"

section \<open>What shutdownReadWrite does\<close>

lemma assert_valid_step_obj: "fst (snd (assert_valid_step st)) = fst st"
  by (cases st) (simp add: assert_valid_step_def)

lemma disconnect_step_obj: "fst (snd (disconnect_step st)) = fst st"
  by (cases st) (simp add: disconnect_step_def)

lemma shutdown_call_obj: "fst (snd (shutdown_call st)) = fst st"
  by (cases st) (simp add: shutdown_call_def split: sum.splits)

lemma decoy_step_obj: "fst (snd (decoy_step a st)) = fst st"
  by (cases st) (simp add: decoy_step_def Let_def split: sysret.splits sum.splits)

text \<open>Whatever the kernel answers, the call sets the flag and changes nothing else of the object.\<close>

lemma shutdownReadWrite_object:
  "fst (snd (shutdownReadWrite_op decoy (t, k, es))) = t\<lparr>shutdownReadWrite := True\<rparr>"
proof -
  let ?P = "\<lambda>st :: cstate. fst st = t\<lparr>shutdownReadWrite := True\<rparr>"
  have "\<forall>f \<in> set fs. \<forall>st. ?P st \<longrightarrow> ?P (snd (f st))"
    if "set fs \<subseteq> {assert_valid_step, shutdown_call, disconnect_step, decoy_step a}" for fs a
    using that by (auto simp: assert_valid_step_obj shutdown_call_obj disconnect_step_obj decoy_step_obj)
  note inv = run_steps_inv [OF this]
  have "?P (snd (run_steps [assert_valid_step, shutdown_call]
                    (t\<lparr>shutdownReadWrite := True\<rparr>, k, es @ trace_line t 2 TrShuttingDown)))"
    by (rule inv) auto
  moreover have "?P (snd (run_steps [assert_valid_step, shutdown_call, disconnect_step, decoy_step (k_local k (fd t))]
                    (t\<lparr>shutdownReadWrite := True\<rparr>, k, es @ trace_line t 2 TrShuttingDown @ [Call (SysLocalAddr (fd t))])))"
    by (rule inv) auto
  ultimately show ?thesis
    by (simp add: shutdownReadWrite_op_def Let_def del: run_steps.simps split: sum.splits)
qed

lemmas shutdown_unfold = shutdownReadWrite_op_def assert_valid_step_def shutdown_call_def
  socket_exn_def disconnect_step_def decoy_step_def doConnect_def Let_def

text \<open>
  The kernel after the call: at most the decoy's handle is new, and it is open only if
  the call ended before \<open>closeSocket\<close>.
\<close>

lemma shutdownReadWrite_kernel:
  assumes "shutdownReadWrite_op d (t, k, es) = (r, (t', k', es'))" and "k_next k \<notin> set (k_open k)"
  shows "k_next k \<le> k_next k' \<and> k_next k' \<le> k_next k + 1 \<and>
         set (k_open k) - {k_next k} \<subseteq> set (k_open k') \<and> set (k_open k') \<subseteq> insert (k_next k) (set (k_open k)) \<and>
         (k_next k \<in> set (k_open k') \<longrightarrow> k_next k' = k_next k + 1)"
  using assms
  by (auto simp: shutdown_unfold split: sum.splits sysret.splits if_splits option.splits)

text \<open>Whatever the kernel holds, the call opens at most the kernel's next handle.\<close>

lemma shutdownReadWrite_kernel_grows:
  assumes "shutdownReadWrite_op d (t, k, es) = (r, (t', k', es'))"
  shows "k_next k \<le> k_next k' \<and> set (k_open k') \<subseteq> insert (k_next k) (set (k_open k))"
  using assms
  by (auto simp: shutdown_unfold split: sum.splits sysret.splits if_splits option.splits)

text \<open>
  C36: on the decoy platforms, when the kernel grants every call, \<open>shutdownReadWrite\<close>
  reads the local address, shuts the socket down, disconnects it if it is connected,
  and sends one byte to that address from a new socket that it closes again: the kernel
  ends with the same open handles.
\<close>

theorem shutdownReadWrite_decoy_success:
  assumes "k_ans k = (\<lambda>c. Ok ())" and "fd t \<noteq> INVALID_SOCKET" and "k_next k \<notin> set (k_open k)"
  shows "shutdownReadWrite_op True (t, k, es) =
     (None, (t\<lparr>shutdownReadWrite := True\<rparr>, k\<lparr>k_next := k_next k + 1\<rparr>,
             es @ trace_line t 2 TrShuttingDown @ [Call (SysLocalAddr (fd t)), Call (SysShutdown (fd t))]
                @ (if connect t then [] else [Call (SysDisconnect (fd t))])
                @ [Call SysSocket, Call (SysSetBlock (k_next k)),
                   Call (SysConnectOn (k_next k) (k_local k (fd t))),
                   Call (SysSendOn (k_next k) 1), Call (SysClose (k_next k))]))"
  using assms by (simp add: shutdown_unfold)

text \<open>
  C37: on the decoy platforms, whenever \<open>shutdownReadWrite\<close> throws (reading the
  local address, shutting the socket down, or creating, configuring or connecting the
  decoy socket fails), the kernel ends with the same open handles as before: the
  object's own socket stays open and a decoy socket that was created is released,
  unless closing the decoy itself fails.
\<close>

theorem shutdownReadWrite_decoy_failure_releases:
  assumes "shutdownReadWrite_op True (t, k, es) = (Some x, (t', k', es'))"
    and "k_next k \<notin> set (k_open k)" and "k_ans k (SysClose (k_next k)) = Ok ()"
  shows "set (k_open k') = set (k_open k)"
  using assms
  by (auto simp: shutdown_unfold split: sum.splits sysret.splits if_splits option.splits)

section \<open>Witnesses\<close>

lemmas shutdown_sample_defs = sample_open_tx_def sample_open_kernel_def decoy_refusing_kernel_def
  sample_kernel_def connect_init_def INVALID_SOCKET_def

theorem shutdownReadWrite_decoy_success_witness:
  "shutdownReadWrite_op True (sample_open_tx, sample_open_kernel, []) =
     (None, (sample_open_tx\<lparr>shutdownReadWrite := True\<rparr>, sample_open_kernel\<lparr>k_next := 5\<rparr>,
             [Call (SysLocalAddr 3), Call (SysShutdown 3), Call (SysDisconnect 3),
              Call SysSocket, Call (SysSetBlock 4), Call (SysConnectOn 4 (SockAddrIn 0x7f000001 10001)),
              Call (SysSendOn 4 1), Call (SysClose 4)]))"
  using shutdownReadWrite_decoy_success [of sample_open_kernel sample_open_tx "[]"]
  by (simp add: shutdown_sample_defs)

theorem shutdownReadWrite_decoy_failure_releases_witness:
  "set (k_open (fst (snd (snd (shutdownReadWrite_op True (sample_open_tx, decoy_refusing_kernel, [])))))) = {3}"
proof -
  obtain x t' k' es' where run: "shutdownReadWrite_op True (sample_open_tx, decoy_refusing_kernel, []) = (Some x, (t', k', es'))"
    by (simp add: shutdown_unfold shutdown_sample_defs)
  have "k_next decoy_refusing_kernel \<notin> set (k_open decoy_refusing_kernel)"
    and "k_ans decoy_refusing_kernel (SysClose (k_next decoy_refusing_kernel)) = Ok ()"
    by (simp_all add: shutdown_sample_defs)
  from shutdownReadWrite_decoy_failure_releases [OF run this] run show ?thesis
    by (simp add: shutdown_sample_defs)
qed

end
