(* ===== verification/Udp_Interleave.thy ===== *)
theory Udp_Interleave
  imports Udp_Shutdown
begin

text \<open>
  The reader thread of \<open>read\<close> as a small-step machine, and its interleaving with a
  thread that calls \<open>shutdownReadWrite\<close>.  The machine has a program point for each
  label of \<open>read\<close>'s loop (\<open>repeat\<close> and \<open>repeatSelect\<close>, lines 242--331), one
  for the receive after the flag check (line 252), and a final point holding the result.
  A step runs from one point to the next: the flag check at \<open>repeat\<close> is a step of
  its own because it is the only part of the loop done under
  \<open>_shutdownReadWriteMutex\<close>.  The object is shared: the shutdown thread sets its
  flag between any two steps of the reader, in particular between the flag check and the
  receive.
\<close>

section \<open>The reader machine\<close>

datatype 'addr rd_pc =
    RdRepeat
  | RdRecv
  | RdSelect
  | RdDone "(byte list \<times> 'addr udp_transceiver) option result"

record 'addr rd_conf =
  rd_pc :: "'addr rd_pc"
  rd_t :: "'addr udp_transceiver"
  rd_rs :: "'addr recv_answer list"
  rd_ps :: "nat sysret list"
  rd_cs :: "unit sysret list"
  rd_log :: "'addr effect list"

text \<open>Leave the loop with a result and the effects of the last pass.\<close>

definition rd_finish :: "'addr rd_conf \<Rightarrow> (byte list \<times> 'addr udp_transceiver) option result
                          \<Rightarrow> 'addr effect list \<Rightarrow> 'addr rd_conf" where
  "rd_finish c r es = c\<lparr>rd_pc := RdDone r, rd_log := rd_log c @ es\<rparr>"

text \<open>
  One step.  \<open>None\<close>: the step waits for an answer of the OS that has not come (the
  list of answers is empty), or the reader has finished.
\<close>

fun rd_step :: "bool \<Rightarrow> int \<Rightarrow> int32 \<Rightarrow> 'addr rd_conf \<Rightarrow> 'addr rd_conf option" where
  "rd_step windows timeout packetSize c =
     (let t = rd_t c in
      case rd_pc c of
        RdRepeat \<Rightarrow>
          (if shutdownReadWrite t then Some (rd_finish c (Inl (Raise ConnectionLostException)) [])
           else Some (c\<lparr>rd_pc := RdRecv\<rparr>))
      | RdRecv \<Rightarrow>
          (if fd t = INVALID_SOCKET then Some (rd_finish c (Inl AssertFail) [])
           else
             (case rd_rs c of
                [] \<Rightarrow> None
              | r # rs \<Rightarrow>
                  (let c1 = c\<lparr>rd_rs := rs, rd_log := rd_log c @
                              [Call (if connect t then SysRecvFrom (unat packetSize) else SysRecv (unat packetSize))]\<rparr>
                   in case r of
                        Ok (data, peer) \<Rightarrow>
                          (if connect t then
                             (case rd_cs c of
                                [] \<Rightarrow> None
                              | cc # cs \<Rightarrow>
                                  (let c2 = c1\<lparr>rd_cs := cs, rd_log := rd_log c1 @ [Call (SysConnect peer)]\<rparr> in
                                   case doConnect cc of
                                     Inl f \<Rightarrow> Some (rd_finish c2 (Inl f) [])
                                   | Inr _ \<Rightarrow> Some (rd_finish (c2\<lparr>rd_t := t\<lparr>connect := False\<rparr>\<rparr>)
                                                  (Inr (Some (data, t\<lparr>connect := False\<rparr>)))
                                                  (trace_line (t\<lparr>connect := False\<rparr>) 1 TrConnected
                                                   @ received_effects (t\<lparr>connect := False\<rparr>) (length data)))))
                           else Some (rd_finish c1 (Inr (Some (data, t))) (received_effects t (length data))))
                      | Fail e \<Rightarrow>
                          (if e = EINTR then Some (c1\<lparr>rd_pc := RdRepeat\<rparr>)
                           else if e = EWOULDBLOCK then
                             (if timeout = 0 then Some (rd_finish c1 (Inr None) [])
                              else Some (c1\<lparr>rd_pc := RdSelect\<rparr>))
                           else if recvTruncated windows e then
                             Some (rd_finish c1 (Inl (Raise DatagramLimitException)) (warn_limit t packetSize))
                           else Some (rd_finish c1 (Inl (Raise (SocketException e))) [])))))
      | RdSelect \<Rightarrow>
          (case rd_ps c of
             [] \<Rightarrow> None
           | p # ps \<Rightarrow>
               (let c1 = c\<lparr>rd_ps := ps, rd_log := rd_log c @ [Call (SysPoll POLLIN (-1))]\<rparr> in
                case p of
                  Fail e \<Rightarrow>
                    (if e = EINTR then Some c1 else Some (rd_finish c1 (Inl (Raise (SocketException e))) []))
                | Ok n \<Rightarrow>
                    (if n = 0 then Some (rd_finish c1 (Inl (Raise TimeoutException)) [])
                     else Some (c1\<lparr>rd_pc := RdRepeat\<rparr>))))
      | RdDone r \<Rightarrow> None)"

section \<open>Reader and shutdown threads\<close>

text \<open>
  The system: the reader's configuration (whose object and effects are shared), the
  kernel, and where in the shared effects the shutdown thread's call began, once it has
  run.
\<close>

record sys =
  sys_rd :: "sockaddr rd_conf"
  sys_k :: kernel
  sys_sd :: "nat option"

text \<open>
  A step of either thread.  The shutdown thread runs \<open>shutdownReadWrite\<close> once, as one
  step: after its first trace line it holds \<open>_shutdownReadWriteMutex\<close> until it
  returns (line 63), and the reader's only step under the mutex is the flag check, which
  therefore comes wholly before or wholly after the call.  The reader's other steps take no
  lock and may overlap the call in the program; they share with it only the effect log and
  \<open>_connect\<close> (read by the disconnect of line 85, cleared by the reader after a first
  datagram), and the reader's answers do not depend on the kernel's, so running the call
  between two steps of the reader gives every outcome of such an overlap, up to the order
  of the two threads' effects in the log.
\<close>

inductive sys_step :: "bool \<Rightarrow> int \<Rightarrow> int32 \<Rightarrow> bool \<Rightarrow> sys \<Rightarrow> sys \<Rightarrow> bool"
  for windows timeout packetSize decoy where
  reader: "rd_step windows timeout packetSize (sys_rd s) = Some c' \<Longrightarrow>
             sys_step windows timeout packetSize decoy s (s\<lparr>sys_rd := c'\<rparr>)"
| shutdown: "sys_sd s = None \<Longrightarrow>
             shutdownReadWrite_op decoy (rd_t (sys_rd s), sys_k s, rd_log (sys_rd s)) = (r, (t', k', log')) \<Longrightarrow>
             sys_step windows timeout packetSize decoy s
               (s\<lparr>sys_rd := (sys_rd s)\<lparr>rd_t := t', rd_log := log'\<rparr>, sys_k := k',
                   sys_sd := Some (length (rd_log (sys_rd s)))\<rparr>)"

inductive sys_reach :: "bool \<Rightarrow> int \<Rightarrow> int32 \<Rightarrow> bool \<Rightarrow> sys \<Rightarrow> sys \<Rightarrow> bool"
  for windows timeout packetSize decoy s0 where
  start: "sys_reach windows timeout packetSize decoy s0 s0"
| step: "sys_reach windows timeout packetSize decoy s0 s \<Longrightarrow> sys_step windows timeout packetSize decoy s s' \<Longrightarrow>
           sys_reach windows timeout packetSize decoy s0 s'"

text \<open>A receive call among effects.\<close>

definition is_recv :: "'addr effect \<Rightarrow> bool" where
  "is_recv e = (case e of Call (SysRecv n) \<Rightarrow> True | Call (SysRecvFrom n) \<Rightarrow> True | _ \<Rightarrow> False)"

section \<open>Predicates of the proofs and sample values\<close>

text \<open>
  \<open>no_recv_after\<close> says that effects only grew, by no receive; \<open>shutdown_inv\<close>
  is the invariant of the interleaving.  The sample system has the reader blocked in
  \<open>poll\<close> on the connected transceiver of \<open>Udp_Shutdown\<close>, with the decoy's
  datagram to come; \<open>sample_sys_parked\<close> is the same system after the decoy
  shutdown has run.
\<close>

definition no_recv_after :: "'addr effect list \<Rightarrow> 'addr effect list \<Rightarrow> bool" where
  "no_recv_after log log' =
     (take (length log) log' = log \<and> (\<forall>e \<in> set (drop (length log) log'). \<not> is_recv e))"

definition shutdown_inv :: "sys \<Rightarrow> bool" where
  "shutdown_inv s = (case sys_sd s of None \<Rightarrow> True
     | Some n \<Rightarrow> shutdownReadWrite (rd_t (sys_rd s)) \<and> n \<le> length (rd_log (sys_rd s))
                 \<and> length (filter is_recv (drop n (rd_log (sys_rd s))))
                     + (if rd_pc (sys_rd s) = RdRecv then 1 else 0) \<le> 1)"

definition sample_sys :: sys where
  "sample_sys = \<lparr>sys_rd = \<lparr>rd_pc = RdSelect, rd_t = sample_open_tx, rd_rs = [], rd_ps = [Ok 1], rd_cs = [],
                             rd_log = []\<rparr>,
                 sys_k = sample_open_kernel, sys_sd = None\<rparr>"

definition sample_shutdown_log :: "sockaddr effect list" where
  "sample_shutdown_log = [Call (SysLocalAddr 3), Call (SysShutdown 3), Call (SysDisconnect 3),
     Call SysSocket, Call (SysSetBlock 4), Call (SysConnectOn 4 (SockAddrIn 0x7f000001 10001)),
     Call (SysSendOn 4 1), Call (SysClose 4)]"

definition sample_sys_parked :: sys where
  "sample_sys_parked = \<lparr>sys_rd = \<lparr>rd_pc = RdSelect, rd_t = sample_open_tx\<lparr>shutdownReadWrite := True\<rparr>,
                                rd_rs = [], rd_ps = [Ok 1], rd_cs = [], rd_log = sample_shutdown_log\<rparr>,
                       sys_k = sample_open_kernel\<lparr>k_next := 5\<rparr>, sys_sd = Some 0\<rparr>"

definition sample_sys_woken :: sys where
  "sample_sys_woken = \<lparr>sys_rd = \<lparr>rd_pc = RdRepeat, rd_t = sample_open_tx\<lparr>shutdownReadWrite := True\<rparr>,
                               rd_rs = [], rd_ps = [], rd_cs = [],
                               rd_log = sample_shutdown_log @ [Call (SysPoll POLLIN (-1))]\<rparr>,
                       sys_k = sample_open_kernel\<lparr>k_next := 5\<rparr>, sys_sd = Some 0\<rparr>"

text \<open>
  The reader past its flag check on the same connected transceiver, with an empty
  datagram to come: what \<open>recv\<close> returns on a socket whose reading side has been shut
  down, on the platforms where \<open>shutdownReadWrite\<close> needs no decoy.
\<close>

definition sample_race_sys :: sys where
  "sample_race_sys = \<lparr>sys_rd = \<lparr>rd_pc = RdRecv, rd_t = sample_open_tx, rd_rs = [Ok ([], sample_peer)],
                                  rd_ps = [], rd_cs = [], rd_log = []\<rparr>,
                      sys_k = sample_open_kernel, sys_sd = None\<rparr>"

section \<open>The interleaving invariant\<close>

lemma filter_is_recv_sinks [simp]:
  "filter is_recv (trace_line t l m) = []"
  "filter is_recv (received_effects t n) = []"
  "filter is_recv (warn_limit t p) = []"
  by (simp_all add: trace_line_def received_effects_def warn_limit_def is_recv_def)

lemma rd_step_log:
  assumes "rd_step w tm p c = Some c'"
  shows "\<exists>new. rd_log c' = rd_log c @ new \<and> shutdownReadWrite (rd_t c') = shutdownReadWrite (rd_t c) \<and>
           length (filter is_recv new) \<le> (if rd_pc c = RdRecv then 1 else 0) \<and>
           (rd_pc c' = RdRecv \<longrightarrow> rd_pc c = RdRepeat \<and> \<not> shutdownReadWrite (rd_t c))"
  using assms
  by (auto simp: rd_finish_def Let_def is_recv_def split: rd_pc.splits if_splits list.splits sysret.splits
      prod.splits sum.splits)

lemma no_recv_after_iff:
  "no_recv_after log log' \<longleftrightarrow> (\<exists>new. log' = log @ new \<and> (\<forall>e \<in> set new. \<not> is_recv e))"
proof
  assume "no_recv_after log log'"
  then have "log' = log @ drop (length log) log'" and "\<forall>e \<in> set (drop (length log) log'). \<not> is_recv e"
    unfolding no_recv_after_def by (metis append_take_drop_id)+
  then show "\<exists>new. log' = log @ new \<and> (\<forall>e \<in> set new. \<not> is_recv e)" by blast
qed (auto simp: no_recv_after_def)

lemma no_recv_after_append:
  "no_recv_after log c \<Longrightarrow> no_recv_after log (c @ new) \<longleftrightarrow> (\<forall>e \<in> set new. \<not> is_recv e)"
  by (auto simp: no_recv_after_iff)

lemma shutdownReadWrite_no_recv:
  assumes "shutdownReadWrite_op decoy (t, k, log) = (r, (t', k', log'))"
  shows "no_recv_after log log'"
proof -
  let ?P = "\<lambda>st :: cstate. no_recv_after log (snd (snd st))"
  have steps: "\<forall>f \<in> set fs. \<forall>st. ?P st \<longrightarrow> ?P (snd (f st))"
    if "set fs \<subseteq> {assert_valid_step, shutdown_call, disconnect_step, decoy_step a}" for fs a
  proof -
    have "?P (snd (f st))" if "?P st" "f \<in> {assert_valid_step, shutdown_call, disconnect_step, decoy_step a}" for f st
      using that
      by (cases st) (auto simp: assert_valid_step_def shutdown_call_def disconnect_step_def
          decoy_step_def Let_def is_recv_def no_recv_after_append split: sum.splits sysret.splits)
    with that show ?thesis by blast
  qed
  note inv = run_steps_inv [OF steps]
  have "?P (snd (run_steps [assert_valid_step, shutdown_call]
                    (t\<lparr>shutdownReadWrite := True\<rparr>, k, log @ trace_line t 2 TrShuttingDown)))"
    by (rule inv) (auto simp: no_recv_after_iff trace_line_def is_recv_def)
  moreover have "?P (snd (run_steps [assert_valid_step, shutdown_call, disconnect_step, decoy_step (k_local k (fd t))]
                    (t\<lparr>shutdownReadWrite := True\<rparr>, k, log @ trace_line t 2 TrShuttingDown @ [Call (SysLocalAddr (fd t))])))"
    by (rule inv) (auto simp: no_recv_after_iff trace_line_def is_recv_def)
  ultimately show ?thesis using assms
    by (auto simp: shutdownReadWrite_op_def Let_def no_recv_after_iff is_recv_def trace_line_def
        simp del: run_steps.simps split: sum.splits if_splits)
qed

lemma sys_step_shutdown_inv:
  assumes "sys_step w tm p decoy s s'" and "shutdown_inv s"
  shows "shutdown_inv s'"
  using assms
proof (induction rule: sys_step.induct)
  case (reader s c')
  then obtain new where "rd_log c' = rd_log (sys_rd s) @ new"
      "shutdownReadWrite (rd_t c') = shutdownReadWrite (rd_t (sys_rd s))"
      "length (filter is_recv new) \<le> (if rd_pc (sys_rd s) = RdRecv then 1 else 0)"
      "rd_pc c' = RdRecv \<longrightarrow> rd_pc (sys_rd s) = RdRepeat \<and> \<not> shutdownReadWrite (rd_t (sys_rd s))"
    using rd_step_log by blast
  with reader.prems show ?case by (auto simp: shutdown_inv_def split: option.splits if_splits)
next
  case (shutdown s r t' k' log')
  then have "no_recv_after (rd_log (sys_rd s)) log'" by (intro shutdownReadWrite_no_recv)
  moreover have "t' = (rd_t (sys_rd s))\<lparr>shutdownReadWrite := True\<rparr>"
    using shutdownReadWrite_object [of decoy "rd_t (sys_rd s)" "sys_k s" "rd_log (sys_rd s)"] shutdown(2) by simp
  ultimately show ?case by (auto simp: shutdown_inv_def no_recv_after_iff filter_empty_conv)
qed

lemma sys_reach_shutdown_inv:
  assumes "sys_reach w tm p decoy s0 s" and "sys_sd s0 = None"
  shows "shutdown_inv s"
  using assms
proof (induction rule: sys_reach.induct)
  case start
  then show ?case by (simp add: shutdown_inv_def)
next
  case (step s s')
  then show ?case by (blast intro: sys_step_shutdown_inv)
qed

text \<open>
  C40: in every interleaving of the reader with one call of \<open>shutdownReadWrite\<close>
  (on either platform, whatever the kernel answers), once the shutdown call has run the
  flag is set, at most one receive is issued after it, and only by a reader that had
  already passed its flag check (a reader waiting to receive has issued none since the
  call); the reader's next flag check ends the read with \<open>ConnectionLostException\<close>.
\<close>

theorem shutdown_stops_receives:
  assumes "sys_reach w tm p decoy s0 s" and "sys_sd s0 = None" and "sys_sd s = Some n"
  shows "shutdownReadWrite (rd_t (sys_rd s)) \<and> length (filter is_recv (drop n (rd_log (sys_rd s)))) \<le> 1
         \<and> (rd_pc (sys_rd s) = RdRecv \<longrightarrow> filter is_recv (drop n (rd_log (sys_rd s))) = [])
         \<and> (rd_pc (sys_rd s) = RdRepeat \<longrightarrow>
              rd_step w tm p (sys_rd s) = Some (rd_finish (sys_rd s) (Inl (Raise ConnectionLostException)) []))"
proof -
  have "shutdown_inv s" using assms(1,2) by (rule sys_reach_shutdown_inv)
  with assms(3) show ?thesis by (auto simp: shutdown_inv_def Let_def split: if_splits)
qed

lemma sample_sys_reach: "sys_reach False 100 65507 True sample_sys sample_sys_woken"
proof -
  let ?s1 = "sample_sys\<lparr>sys_rd := (sys_rd sample_sys)\<lparr>rd_t := sample_open_tx\<lparr>shutdownReadWrite := True\<rparr>,
                rd_log := sample_shutdown_log\<rparr>, sys_k := sample_open_kernel\<lparr>k_next := 5\<rparr>, sys_sd := Some 0\<rparr>"
  have "shutdownReadWrite_op True (rd_t (sys_rd sample_sys), sys_k sample_sys, rd_log (sys_rd sample_sys)) =
          (None, (sample_open_tx\<lparr>shutdownReadWrite := True\<rparr>, sample_open_kernel\<lparr>k_next := 5\<rparr>, sample_shutdown_log))"
    by (simp add: sample_sys_def sample_shutdown_log_def shutdown_unfold shutdown_sample_defs)
  then have "sys_step False 100 65507 True sample_sys ?s1"
    using sys_step.shutdown [of sample_sys True] by (simp add: sample_sys_def)
  then have r1: "sys_reach False 100 65507 True sample_sys ?s1"
    by (rule sys_reach.step [OF sys_reach.start])
  have "rd_step False 100 65507 (sys_rd ?s1) = Some (sys_rd sample_sys_woken)"
    by (simp add: sample_sys_def sample_sys_woken_def)
  then have "sys_step False 100 65507 True ?s1 sample_sys_woken"
    using sys_step.reader [of False 100 65507 ?s1 "sys_rd sample_sys_woken" True]
    by (simp add: sample_sys_def sample_sys_woken_def)
  with r1 show ?thesis by (rule sys_reach.step)
qed

theorem shutdown_stops_receives_witness:
  "shutdownReadWrite (rd_t (sys_rd sample_sys_woken)) \<and>
   length (filter is_recv (rd_log (sys_rd sample_sys_woken))) \<le> 1 \<and>
   rd_step False 100 65507 (sys_rd sample_sys_woken) =
     Some (rd_finish (sys_rd sample_sys_woken) (Inl (Raise ConnectionLostException)) [])"
  using shutdown_stops_receives [OF sample_sys_reach]
  by (simp add: sample_sys_def sample_sys_woken_def)

text \<open>
  C8: a reader parked in \<open>poll\<close> is released by the first readiness its wait reports
  after the shutdown call: the wait goes back to \<open>repeat\<close>, whose flag check ends the
  read with \<open>ConnectionLostException\<close>, two steps in all and no receive in between.
  The shutdown thread runs once, so after its call every step of the system is the
  reader's: this is the spec's "released within one decoy-wake cycle".
\<close>

theorem parked_reader_released:
  assumes "sys_reach w tm p decoy s0 s" and "sys_sd s0 = None" and "sys_sd s = Some n"
    and "rd_pc (sys_rd s) = RdSelect" and "rd_ps (sys_rd s) = Ok m # ps" and "m \<noteq> 0"
  shows "\<exists>c. rd_step w tm p (sys_rd s) = Some c \<and> rd_pc c = RdRepeat \<and> rd_rs c = rd_rs (sys_rd s) \<and>
             rd_step w tm p c = Some (rd_finish c (Inl (Raise ConnectionLostException)) [])"
proof -
  have "shutdownReadWrite (rd_t (sys_rd s))"
    using sys_reach_shutdown_inv [OF assms(1,2)] assms(3) by (simp add: shutdown_inv_def)
  then show ?thesis using assms(4-6) by (simp add: Let_def)
qed

lemma sample_sys_reach_parked: "sys_reach False 100 65507 True sample_sys sample_sys_parked"
proof -
  have "shutdownReadWrite_op True (rd_t (sys_rd sample_sys), sys_k sample_sys, rd_log (sys_rd sample_sys)) =
          (None, (sample_open_tx\<lparr>shutdownReadWrite := True\<rparr>, sample_open_kernel\<lparr>k_next := 5\<rparr>, sample_shutdown_log))"
    by (simp add: sample_sys_def sample_shutdown_log_def shutdown_unfold shutdown_sample_defs)
  then have "sys_step False 100 65507 True sample_sys sample_sys_parked"
    using sys_step.shutdown [of sample_sys True] by (simp add: sample_sys_def sample_sys_parked_def)
  then show ?thesis by (rule sys_reach.step [OF sys_reach.start])
qed

theorem parked_reader_released_witness:
  "\<exists>c. rd_step False 100 65507 (sys_rd sample_sys_parked) = Some c \<and> rd_pc c = RdRepeat \<and> rd_rs c = [] \<and>
       rd_step False 100 65507 c = Some (rd_finish c (Inl (Raise ConnectionLostException)) [])"
  using parked_reader_released [OF sample_sys_reach_parked, of 0 1 "[]"]
  by (simp add: sample_sys_def sample_sys_parked_def)

text \<open>
  C33: the flag check is not atomic with the receive that follows it.  Whenever
  \<open>shutdownReadWrite\<close> runs while the reader is past its flag check (on either
  platform, whatever the kernel answers), and the connected socket then yields a datagram,
  the reader's receive step issues the receive after the call and ends the read with that
  datagram and success, although the flag is set: it never observes
  \<open>ConnectionLostException\<close>, which the spec's "observes the connection-lost error,
  never a truncated/garbage payload" requires.
\<close>

theorem shutdown_race_returns_datagram:
  assumes "sys_sd s = None" and "rd_pc (sys_rd s) = RdRecv"
    and "shutdownReadWrite_op decoy (rd_t (sys_rd s), sys_k s, rd_log (sys_rd s)) = (r, (t', k', log'))"
    and "rd_rs (sys_rd s) = Ok (data, peer) # rs" and "\<not> connect (rd_t (sys_rd s))"
    and "fd (rd_t (sys_rd s)) \<noteq> INVALID_SOCKET"
  shows "\<exists>s2 s3. sys_step w tm p decoy s s2 \<and> sys_step w tm p decoy s2 s3 \<and>
           sys_sd s3 = Some (length (rd_log (sys_rd s))) \<and> shutdownReadWrite (rd_t (sys_rd s3)) \<and>
           Call (SysRecv (unat p)) \<in> set (drop (length (rd_log (sys_rd s))) (rd_log (sys_rd s3))) \<and>
           rd_pc (sys_rd s3) = RdDone (Inr (Some (data, rd_t (sys_rd s3))))"
proof -
  let ?s2 = "s\<lparr>sys_rd := (sys_rd s)\<lparr>rd_t := t', rd_log := log'\<rparr>, sys_k := k',
                sys_sd := Some (length (rd_log (sys_rd s)))\<rparr>"
  have st2: "sys_step w tm p decoy s ?s2" using assms(1,3) by (rule sys_step.shutdown)
  have t': "t' = (rd_t (sys_rd s))\<lparr>shutdownReadWrite := True\<rparr>"
    using shutdownReadWrite_object [of decoy "rd_t (sys_rd s)" "sys_k s" "rd_log (sys_rd s)"] assms(3) by simp
  have nr: "no_recv_after (rd_log (sys_rd s)) log'" using assms(3) by (rule shutdownReadWrite_no_recv)
  let ?c3 = "rd_finish ((sys_rd ?s2)\<lparr>rd_rs := rs, rd_log := log' @ [Call (SysRecv (unat p))]\<rparr>)
               (Inr (Some (data, t'))) (received_effects t' (length data))"
  have "rd_step w tm p (sys_rd ?s2) = Some ?c3" using assms(2,4-6) t' by (simp add: Let_def)
  then have st3: "sys_step w tm p decoy ?s2 (?s2\<lparr>sys_rd := ?c3\<rparr>)" by (rule sys_step.reader)
  have "length (rd_log (sys_rd s)) \<le> length log'" using nr by (auto simp: no_recv_after_iff)
  then show ?thesis using st2 st3 t' by (intro exI [of _ ?s2] exI [of _ "?s2\<lparr>sys_rd := ?c3\<rparr>"]) (auto simp: rd_finish_def)
qed

theorem shutdown_race_returns_datagram_witness:
  "\<exists>s2 s3. sys_step False 100 65507 False sample_race_sys s2 \<and> sys_step False 100 65507 False s2 s3 \<and>
     sys_sd s3 = Some 0 \<and> shutdownReadWrite (rd_t (sys_rd s3)) \<and>
     Call (SysRecv 65507) \<in> set (rd_log (sys_rd s3)) \<and>
     rd_pc (sys_rd s3) = RdDone (Inr (Some ([], rd_t (sys_rd s3))))"
proof -
  obtain r t' k' log' where sh: "shutdownReadWrite_op False (sample_open_tx, sample_open_kernel, []) = (r, (t', k', log'))"
    by (metis prod_cases3)
  have "sys_sd sample_race_sys = None" "rd_pc (sys_rd sample_race_sys) = RdRecv"
    "rd_rs (sys_rd sample_race_sys) = Ok ([], sample_peer) # []"
    "\<not> connect (rd_t (sys_rd sample_race_sys))" "fd (rd_t (sys_rd sample_race_sys)) \<noteq> INVALID_SOCKET"
    by (simp_all add: sample_race_sys_def shutdown_sample_defs)
  moreover have "shutdownReadWrite_op False (rd_t (sys_rd sample_race_sys), sys_k sample_race_sys,
                   rd_log (sys_rd sample_race_sys)) = (r, (t', k', log'))"
    using sh by (simp add: sample_race_sys_def)
  ultimately show ?thesis
    using shutdown_race_returns_datagram [of sample_race_sys False r t' k' log' "[]" sample_peer "[]" False 100 65507]
    by (simp add: sample_race_sys_def)
qed

end
