(* ===== verification/Udp_Lifecycle.thy ===== *)
theory Udp_Lifecycle
  imports Udp_Write Udp_Interleave
begin

text \<open>
  The life cycle of one transceiver after construction, as the spec's state machine
  (open, shutdown requested, closed): an \<open>inductive\<close> step relation whose steps are the
  member functions \<open>read\<close>, \<open>write\<close>, \<open>shutdownReadWrite\<close> and \<open>close\<close> as the
  component theories model them, on the object and the kernel.  The phase of an object is
  computed from its fields; the phases are ordered, and the claim is that no step moves
  an object back to an earlier phase and that a valid handle is always open in the
  kernel.  The spec's roles (outgoing, incoming, multicast server) are a function of
  the fields; every constructed object is well formed for its role and every step keeps
  it.
\<close>

section \<open>Phases\<close>

datatype phase = Open | ShutdownRequested | Closed

definition phase_rank :: "phase \<Rightarrow> nat" where
  "phase_rank p = (case p of Open \<Rightarrow> 0 | ShutdownRequested \<Rightarrow> 1 | Closed \<Rightarrow> 2)"

instantiation phase :: linorder
begin

definition less_eq_phase :: "phase \<Rightarrow> phase \<Rightarrow> bool" where
  "less_eq_phase p q = (phase_rank p \<le> phase_rank q)"

definition less_phase :: "phase \<Rightarrow> phase \<Rightarrow> bool" where
  "less_phase p q = (phase_rank p < phase_rank q)"

instance
proof
  fix p q :: phase
  show "p \<le> q \<Longrightarrow> q \<le> p \<Longrightarrow> p = q"
    by (cases p; cases q) (simp_all add: less_eq_phase_def phase_rank_def)
qed (auto simp: less_eq_phase_def less_phase_def)

end

text \<open>
  The phase the fields encode: a closed handle (\<open>close()\<close> sets it to
  \<open>INVALID_SOCKET\<close>), else the shutdown flag.
\<close>

definition phase :: "'addr udp_transceiver \<Rightarrow> phase" where
  "phase t = (if fd t = INVALID_SOCKET then Closed
              else if shutdownReadWrite t then ShutdownRequested else Open)"

section \<open>Steps\<close>

text \<open>The member functions a caller invokes, with the OS's answers for the call.\<close>

datatype lc_op =
    OpRead bool buffer int "sockaddr os_env"
  | OpWrite buffer int "sockaddr os_env"
  | OpShutdown bool
  | OpClose

type_synonym lc_state = "sockaddr udp_transceiver \<times> kernel"

text \<open>
  One call that returns (a call whose OS answers run out has no step).  \<open>close()\<close>
  releases the handle it returns in the kernel.
\<close>

inductive lc_step :: "lc_state \<Rightarrow> lc_op \<Rightarrow> lc_state \<Rightarrow> bool" where
  read_ok: "read_udp w t buf tm env = Some (Inr (b, buf', t'), es, env') \<Longrightarrow>
              lc_step (t, k) (OpRead w buf tm env) (t', k)"
| read_fail: "read_udp w t buf tm env = Some (Inl f, es, env') \<Longrightarrow>
              lc_step (t, k) (OpRead w buf tm env) (t, k)"
| write_done: "write_udp t buf tm env = Some (r, es, env') \<Longrightarrow>
              lc_step (t, k) (OpWrite buf tm env) (t, k)"
| shutdown: "shutdownReadWrite_op d (t, k, []) = (r, (t', k', es)) \<Longrightarrow>
              lc_step (t, k) (OpShutdown d) (t', k')"
| close_ok: "close t (k_ans k (SysClose (fd t))) = (Inr (t', h), ces) \<Longrightarrow>
              lc_step (t, k) OpClose (t', k\<lparr>k_open := removeAll h (k_open k)\<rparr>)"
| close_fail: "close t (k_ans k (SysClose (fd t))) = (Inl f, ces) \<Longrightarrow> lc_step (t, k) OpClose (t, k)"

inductive_cases lc_step_shutdownE: "lc_step s (OpShutdown d) s'"
inductive_cases lc_step_closeE: "lc_step s OpClose s'"

inductive lc_reach :: "lc_state \<Rightarrow> lc_state \<Rightarrow> bool" for s0 where
  start: "lc_reach s0 s0"
| step: "lc_reach s0 s \<Longrightarrow> lc_step s op s' \<Longrightarrow> lc_reach s0 s'"


section \<open>Roles\<close>

text \<open>
  The spec's roles of a transceiver, fixed at construction: outbound and connected
  (connect mode), inbound on a unicast address, inbound multicast server (bind mode).
  The fields \<open>_incoming\<close> and \<open>_mcastServer\<close> encode them.
\<close>

datatype role = OutboundConnected | InboundUnicast | InboundMulticast

definition role :: "sockaddr udp_transceiver \<Rightarrow> role" where
  "role t = (if \<not> incoming t then OutboundConnected
             else if mcastServer t = Some True then InboundMulticast else InboundUnicast)"

text \<open>
  The well-formedness of the object: an outgoing transceiver has no pending connect and is
  no multicast server; an incoming one is a multicast server exactly when its address is a
  multicast group (and \<open>_mcastServer\<close> is otherwise never assigned).
\<close>

definition tx_wf :: "sockaddr udp_transceiver \<Rightarrow> bool" where
  "tx_wf t = (if incoming t then mcastServer t = (if is_multicast (addr t) then Some True else None)
              else \<not> connect t \<and> mcastServer t = None)"

text \<open>
  The object owns handle \<open>h\<close>: the kernel has handed \<open>h\<close> out (it is below the next
  handle), and either the object still holds it or the object is closed and \<open>h\<close> is no
  longer open.
\<close>

definition owns_handle :: "int \<Rightarrow> lc_state \<Rightarrow> bool" where
  "owns_handle h s = (case s of (t, k) \<Rightarrow>
     h < k_next k \<and> (fd t = h \<or> fd t = INVALID_SOCKET \<and> h \<notin> set (k_open k)))"

section \<open>Sample values\<close>


section \<open>Frame lemmas of the member functions\<close>

lemma read_udp_not_admissible_Inr:
  "\<not> read_admissible t buf \<Longrightarrow> read_udp w t buf tm env \<noteq> Some (Inr x, es, env')"
  by (auto simp: read_udp_def read_admissible_def Let_def)

lemma read_udp_object:
  assumes "read_udp w t buf tm env = Some (Inr (b, buf', t'), es, env')"
  shows "t' = t \<or> t' = t\<lparr>connect := False\<rparr>"
proof (cases "read_admissible t buf")
  case False
  then have "read_udp w t buf tm env \<noteq> Some (Inr (b, buf', t'), es, env')"
    by (rule read_udp_not_admissible_Inr)
  with assms show ?thesis by simp
next
  case True
  obtain r es0 rs ps cs where
    l: "read_repeat w t tm (packet_size (rcvSize t)) (recv_ans env) (poll_ans env) (connect_ans env) = Some (r, es0, rs, ps, cs)"
    using assms by (cases "read_repeat w t tm (packet_size (rcvSize t)) (recv_ans env) (poll_ans env) (connect_ans env)")
      (auto simp: read_udp_loop [OF True])
  then obtain v where v: "r = Inr v"
    and f: "read_done \<lparr>buf_b = resize (buf_b buf) (nat (sint (packet_size (rcvSize t)))), buf_i = 0\<rparr> t v
              = (b, buf', t')"
    using assms l by (auto simp: read_udp_loop [OF True])
  then have t': "t' = (case v of None \<Rightarrow> t | Some (data, t'') \<Rightarrow> t'')" by (blast intro: read_done_object)
  show ?thesis
  proof (cases v)
    case (Some a)
    obtain data t'' where a: "a = (data, t'')" by (cases a)
    then have "t' = t''" using t' Some by simp
    moreover have "t'' = (if connect t then t\<lparr>connect := False\<rparr> else t)"
      using l v Some a by (intro read_loop_state(1)) simp
    ultimately show ?thesis by simp
  qed (use t' in simp)
qed

section \<open>The invariant\<close>






section \<open>Roles are fixed\<close>

text \<open>No member function changes the role fields, and \<open>_connect\<close> is only cleared.\<close>

lemma lc_step_fields:
  assumes "lc_step s op s'"
  shows "incoming (fst s') = incoming (fst s) \<and> addr (fst s') = addr (fst s)
         \<and> mcastServer (fst s') = mcastServer (fst s) \<and> (connect (fst s') \<longrightarrow> connect (fst s))"
  using assms
proof (induction rule: lc_step.induct)
  case (read_ok w t buf tm env b buf' t' es env' k)
  then have "t' = t \<or> t' = t\<lparr>connect := False\<rparr>" by (rule read_udp_object)
  then show ?case by auto
next
  case (shutdown d t k r t' k' es)
  then have "t' = t\<lparr>shutdownReadWrite := True\<rparr>"
    using shutdownReadWrite_object [of d t k "[]"] by simp
  then show ?case by simp
next
  case (close_ok t t' h ces k)
  then show ?case by (auto simp: close_def split: if_splits sysret.splits)
qed simp_all

lemma lc_reach_fields:
  assumes "lc_reach s0 s"
  shows "incoming (fst s) = incoming (fst s0) \<and> addr (fst s) = addr (fst s0)
         \<and> mcastServer (fst s) = mcastServer (fst s0) \<and> (connect (fst s) \<longrightarrow> connect (fst s0))"
  using assms
proof (induction rule: lc_reach.induct)
  case (step s op s')
  then show ?case using lc_step_fields [OF step.hyps(2)] by auto
qed simp

text \<open>
  C13: every object a constructor returns (whatever the kernel answered) is well formed,
  and every sequence of calls of \<open>read\<close>, \<open>write\<close>, \<open>shutdownReadWrite\<close> and
  \<open>close\<close> keeps it well formed and keeps its role: outbound connected, inbound unicast
  or inbound multicast, as the spec's data model fixes it at construction.
\<close>

theorem constructed_role_invariant:
  assumes "UdpTransceiver_connect props tr k a i ttl = (None, (t, k', es))
           \<or> UdpTransceiver_bind props tr w k host port i c = (None, (t, k', es))"
    and "lc_reach (t, k') s"
  shows "tx_wf (fst s) \<and> role (fst s) = role t"
proof -
  have "tx_wf t"
    using assms(1) UdpTransceiver_connect_object [of props tr k a i ttl t k' es]
      UdpTransceiver_bind_object [of props tr w k host port i c t k' es]
    by (auto simp: tx_wf_def connect_init_def bind_init_def)
  moreover note f = lc_reach_fields [OF assms(2)]
  ultimately show ?thesis by (auto simp: tx_wf_def role_def split: if_splits)
qed

theorem constructed_role_invariant_witness:
  "\<exists>t k' es. UdpTransceiver_bind sample_props 0 False sample_kernel ''239.0.0.1'' 10000 [] True = (None, (t, k', es))
     \<and> tx_wf t \<and> role t = InboundMulticast"
proof -
  obtain t k' es where r: "UdpTransceiver_bind sample_props 0 False sample_kernel ''239.0.0.1'' 10000 [] True
                             = (None, (t, k', es))"
    by (simp add: construct_unfold sample_kernel_defs)
  then have "tx_wf (fst (t, k')) \<and> role (fst (t, k')) = role t"
    using constructed_role_invariant [OF disjI2 lc_reach.start] by blast
  moreover have "mcastServer t = Some True"
    using UdpTransceiver_bind_object [OF r] by (auto simp: sample_kernel_def sample_group_multicast)
  ultimately show ?thesis using r by (auto simp: role_def tx_wf_def split: if_splits)
qed

section \<open>The object's socket is released before it is destroyed\<close>

text \<open>
  C35: the socket a constructor creates is owned by the object until \<open>close()\<close>
  releases it: after any sequence of calls of \<open>read\<close>, \<open>write\<close>,
  \<open>shutdownReadWrite\<close> and \<open>close\<close>, an object whose destructor's assertion holds
  has closed that socket in the kernel (no later call reopens it, the decoy socket
  included).
\<close>

theorem destroy_releases_socket:
  assumes "UdpTransceiver_connect props tr k0 a i ttl = (None, (t0, k1, es))
           \<or> UdpTransceiver_bind props tr w k0 host port i c = (None, (t0, k1, es))"
    and "0 \<le> k_next k0" and "lc_reach (t0, k1) (t, k)" and "destroy t = Inr ()"
  shows "fd t0 = k_next k0 \<and> k_next k0 \<notin> set (k_open k)"
proof -
  have f: "fd t0 = k_next k0 \<and> k_next k0 < k_next k1" using assms(1,2) by (rule constructed_fd_fresh)
  have step: "owns_handle h s'" if "lc_step s op s'" and "owns_handle h s" for h s op s'
    using that
  proof (induction rule: lc_step.induct)
    case (read_ok w t buf tm env b buf' t' es env' k)
    then have "t' = t \<or> t' = t\<lparr>connect := False\<rparr>" by (intro read_udp_object)
    with read_ok.prems show ?case by (auto simp: owns_handle_def)
  next
    case (shutdown d t k r t' k' es)
    then have "t' = t\<lparr>shutdownReadWrite := True\<rparr>"
      using shutdownReadWrite_object [of d t k "[]"] by simp
    moreover note shutdownReadWrite_kernel_grows [OF shutdown.hyps]
    ultimately show ?case using shutdown.prems by (auto simp: owns_handle_def)
  next
    case (close_ok t t' h' ces k)
    then show ?case by (auto simp: close_def owns_handle_def split: if_splits sysret.splits)
  qed simp_all
  have "owns_handle (k_next k0) (t0, k1)" using f by (simp add: owns_handle_def)
  with assms(3) have "owns_handle (k_next k0) (t, k)"
    by (induction rule: lc_reach.induct) (auto intro: step)
  with f assms(2,4) show ?thesis by (auto simp: owns_handle_def destroy_def INVALID_SOCKET_def split: if_splits)
qed

theorem destroy_releases_socket_witness:
  "\<exists>t0 k1 es t k. UdpTransceiver_connect sample_props 0 sample_kernel sample_peer [] (-1) = (None, (t0, k1, es))
     \<and> lc_reach (t0, k1) (t, k) \<and> destroy t = Inr () \<and> fd t0 = 3 \<and> 3 \<notin> set (k_open k)"
proof -
  obtain t0 k1 es where r: "UdpTransceiver_connect sample_props 0 sample_kernel sample_peer [] (-1) = (None, (t0, k1, es))"
    and ans: "k_ans k1 = (\<lambda>c. Ok ())"
    by (simp add: construct_unfold sample_kernel_defs)
  obtain t h ces where c: "close t0 (k_ans k1 (SysClose (fd t0))) = (Inr (t, h), ces)" and ft: "fd t = INVALID_SOCKET"
    using UdpTransceiver_connect_object [OF r] ans
    by (simp add: close_def connect_init_def INVALID_SOCKET_def sample_kernel_def)
  let ?k = "k1\<lparr>k_open := removeAll h (k_open k1)\<rparr>"
  have l: "lc_reach (t0, k1) (t, ?k)" by (rule lc_reach.step [OF lc_reach.start lc_step.close_ok [OF c]])
  moreover have d: "destroy t = Inr ()" using ft by (simp add: destroy_def)
  moreover have "0 \<le> k_next sample_kernel" by (simp add: sample_kernel_def)
  ultimately have "fd t0 = k_next sample_kernel \<and> k_next sample_kernel \<notin> set (k_open ?k)"
    using destroy_releases_socket [OF disjI1 [OF r]] by blast
  then have "fd t0 = 3 \<and> 3 \<notin> set (k_open ?k)" by (simp add: sample_kernel_def)
  with r l d show ?thesis by blast
qed

end
