(* ===== verification/Udp_Channel.thy ===== *)
theory Udp_Channel
  imports Udp_Write Udp_Read
begin

text \<open>
  Two transceivers joined by the network: the datagrams the writer's kernel accepts from
  \<open>write\<close> (lines 108--213) and the answers the reader's kernel gives to the receive
  of \<open>read\<close> (lines 215--364).  The network is the spec's UDP: a datagram is delivered
  whole or not at all.  The reader's kernel copies a datagram into the receive buffer of
  \<open>packetSize\<close> bytes; a longer datagram is reported with \<open>WSAEMSGSIZE\<close> on Windows
  and cut to the buffer elsewhere (\<open>recv\<close> without \<open>MSG_TRUNC\<close>).
\<close>

section \<open>The network\<close>

text \<open>The payloads of the sends a list of effects issues, in order.\<close>

definition sent_payloads :: "'addr effect list \<Rightarrow> byte list list" where
  "sent_payloads es = [d. Call (SysSend d) \<leftarrow> es]"

text \<open>
  The payloads the writer's kernel accepted: the \<open>i\<close>-th send is answered by the
  \<open>i\<close>-th answer of the OS, and a send answered with a byte count transmits its
  payload.
\<close>

definition accepted_sends :: "'addr effect list \<Rightarrow> nat sysret list \<Rightarrow> byte list list" where
  "accepted_sends es as = [d. (d, Ok n) \<leftarrow> zip (sent_payloads es) as]"

text \<open>The answer of the reader's kernel to a receive of \<open>len\<close> bytes when datagram
  \<open>d\<close> from \<open>src\<close> is pending.\<close>

definition udp_recv :: "bool \<Rightarrow> nat \<Rightarrow> byte list \<Rightarrow> 'addr \<Rightarrow> 'addr recv_answer" where
  "udp_recv windows len d src =
     (if length d \<le> len then Ok (d, src)
      else if windows then Fail EMSGSIZE
      else Ok (take len d, src))"

text \<open>The datagrams \<open>ds\<close> from \<open>src\<close>, as the answers to successive receives of
  \<open>packetSize\<close> bytes.\<close>

definition deliver :: "bool \<Rightarrow> int32 \<Rightarrow> 'addr \<Rightarrow> byte list list \<Rightarrow> 'addr recv_answer list" where
  "deliver windows packetSize src ds = map (\<lambda>d. udp_recv windows (unat packetSize) d src) ds"

section \<open>Lemmas\<close>

lemma accepted_sends_simps [simp]:
  "accepted_sends [] as = []"
  "accepted_sends es [] = []"
  "accepted_sends (Call (SysSend d) # es) (Ok n # as) = d # accepted_sends es as"
  "accepted_sends (Call (SysSend d) # es) (Fail e # as) = accepted_sends es as"
  "accepted_sends (Call (SysPoll ev tm) # es) as = accepted_sends es as"
  "accepted_sends (BytesSent n # es) as = accepted_sends es as"
  "accepted_sends (trace_line t l m @ es) as = accepted_sends es as"
  by (simp_all add: accepted_sends_def sent_payloads_def trace_line_def)

text \<open>A \<open>write\<close> loop that returns true had exactly one send accepted: its payload.\<close>

lemma write_loop_accepted:
  shows "write_send t timeout data ss ps = Some (Inr True, es, ss', ps') \<Longrightarrow> accepted_sends es ss = [data]"
    and "write_select t timeout data ss ps = Some (Inr True, es, ss', ps') \<Longrightarrow> accepted_sends es ss = [data]"
proof (induction t timeout data ss ps and t timeout data ss ps arbitrary: es ss' ps' and es ss' ps'
       rule: write_send_write_select.induct)
  case (2 t timeout data ret ss ps)
  then show ?case by (auto split: if_splits)
qed (auto simp: prepend_eq_Some split: if_splits)

lemma write_udp_accepted:
  assumes "write_udp t buf timeout env = Some (Inr (True, buf'), es, env')"
  shows "accepted_sends es (send_ans env) = [buf_b buf]"
    and "buf' = \<lparr>buf_b = buf_b buf, buf_i = length (buf_b buf)\<rparr>"
    and "\<not> exceeds_packet (packet_size (sndSize t)) (length (buf_b buf))"
  using assms
  by (cases buf; auto simp: write_udp_def Let_def intro: write_loop_accepted(1) split: if_splits)+

text \<open>A datagram that passed the writer's size check fits the reader's receive buffer
  when the reader's ceiling is at least the writer's.\<close>

lemma datagram_fits:
  assumes "\<not> exceeds_packet pw n" and "n < 2 ^ 31" and "sint pw \<le> sint (pr :: int32)"
  shows "n \<le> unat pr"
proof -
  have "int n \<le> sint pr" using assms by (simp add: exceeds_packet_def int_of_size_small)
  then have "0 \<le> sint pr" by simp
  with \<open>int n \<le> sint pr\<close> show ?thesis by (simp add: unat_nonneg_sint)
qed

lemma deliver_fits [simp]:
  "length d \<le> unat p \<Longrightarrow> deliver windows p src [d] = [Ok (d, src)]"
  by (simp add: deliver_def udp_recv_def)

section \<open>Properties of the channel\<close>

text \<open>
  C20: datagram integrity.  When \<open>write\<close> returns true, the network delivers what the
  writer's kernel accepted, and the reader's ceiling is at least the writer's, the next
  \<open>read\<close> of the peer returns true with a buffer byte for byte equal to the writer's
  buffer (iterator at the end), in either mode of the reader and on either platform.  The
  buffer must be shorter than \<open>2^31\<close> bytes: above that the writer's size check sees
  the length modulo \<open>2^32\<close> (C18).
\<close>

theorem datagram_roundtrip:
  assumes "write_udp tw wbuf wto envw = Some (Inr (True, wbuf'), es, envw')"
    and "length (buf_b wbuf) < 2 ^ 31"
    and "sint (packet_size (sndSize tw)) \<le> sint (packet_size (rcvSize tr))"
    and "read_admissible tr rbuf" and "\<not> shutdownReadWrite tr" and "fd tr \<noteq> INVALID_SOCKET"
    and "\<not> connect tr \<or> connect_ans envr = Ok () # cs"
    and "recv_ans envr = deliver windows (packet_size (rcvSize tr)) src (accepted_sends es (send_ans envw)) @ rs"
  shows "\<exists>tr' es' envr'. read_udp windows tr rbuf rto envr = Some (Inr (True, wbuf', tr'), es', envr')"
proof -
  note w = write_udp_accepted [OF assms(1)]
  have "length (buf_b wbuf) \<le> unat (packet_size (rcvSize tr))"
    using w(3) assms(2,3) by (rule datagram_fits)
  then have "recv_ans envr = Ok (buf_b wbuf, src) # rs"
    using assms(8) w(1) by simp
  with assms(4-7) w(2) show ?thesis by (auto simp: read_udp_loop doConnect_def)
qed

text \<open>
  C21: a datagram longer than the reader's packet size is not delivered intact.  On
  Windows \<open>read\<close> raises \<open>DatagramLimitException\<close> (with its warning); elsewhere
  \<open>recvTruncated()\<close> is false, so \<open>read\<close> returns true with the datagram cut to the
  packet size, and the caller cannot tell.
\<close>

theorem oversize_datagram_truncated:
  assumes "read_admissible tr rbuf" and "\<not> shutdownReadWrite tr" and "fd tr \<noteq> INVALID_SOCKET"
    and "\<not> connect tr" and "unat (packet_size (rcvSize tr)) < length d"
    and "recv_ans envr = deliver windows (packet_size (rcvSize tr)) src [d]"
  shows "read_udp windows tr rbuf rto envr =
           (if windows
            then Some (Inl (Raise DatagramLimitException),
                       Call (SysRecv (unat (packet_size (rcvSize tr)))) # warn_limit tr (packet_size (rcvSize tr)),
                       envr\<lparr>recv_ans := []\<rparr>)
            else Some (Inr (True, \<lparr>buf_b = take (unat (packet_size (rcvSize tr))) d,
                                    buf_i = unat (packet_size (rcvSize tr))\<rparr>, tr),
                       Call (SysRecv (unat (packet_size (rcvSize tr))))
                         # received_effects tr (unat (packet_size (rcvSize tr))),
                       envr\<lparr>recv_ans := []\<rparr>))"
  using assms by (simp add: read_udp_loop deliver_def udp_recv_def recvTruncated_def)

section \<open>Witnesses\<close>

definition sample_reader :: "nat udp_transceiver" where
  "sample_reader = sample_tx\<lparr>connect := False\<rparr>"

lemma sample_reader_admissible: "read_admissible sample_reader \<lparr>buf_b = [], buf_i = 0\<rparr>"
  by (simp add: read_admissible_def sample_reader_def sample_tx_def exceeds_packet_def int_of_size_def)

theorem datagram_roundtrip_witness:
  "\<exists>tr' es' envr'. read_udp False sample_reader \<lparr>buf_b = [], buf_i = 0\<rparr> 0
                      (sample_env [] [] [Ok ([1, 2, 3], 9)] []) =
                    Some (Inr (True, \<lparr>buf_b = [1, 2, 3], buf_i = 3\<rparr>, tr'), es', envr')"
proof -
  have w: "write_udp sample_tx sample_buf 100 (sample_env [Ok 3] [] [] []) =
             Some (Inr (True, \<lparr>buf_b = [1, 2, 3], buf_i = 3\<rparr>),
                   [Call (SysSend [1, 2, 3]), BytesSent 3], sample_env [] [] [] [])"
    by (simp add: write_udp_def sample_tx_def sample_buf_def sample_env_def exceeds_packet_def
                  int_of_size_def INVALID_SOCKET_def)
  have "sample_env [] [] [Ok ([1, 2, 3], 9::nat)] [] =
          (sample_env [] [] [Ok ([1, 2, 3], 9)] [])\<lparr>recv_ans :=
             deliver False (packet_size (rcvSize sample_reader)) 9
               (accepted_sends [Call (SysSend [1, 2, 3]), BytesSent 3] (send_ans (sample_env [Ok 3] [] [] [] :: nat os_env))) @ []\<rparr>"
    by (simp add: sample_env_def sample_reader_def sample_tx_def deliver_def udp_recv_def)
  then show ?thesis
    using datagram_roundtrip [OF w _ _ sample_reader_admissible, where windows = False and src = 9
          and envr = "sample_env [] [] [Ok ([1, 2, 3], 9)] []" and rs = "[]" and cs = "[]" and rto = 0]
    by (simp add: sample_env_def sample_reader_def sample_tx_def sample_buf_def INVALID_SOCKET_def)
qed

theorem oversize_datagram_truncated_witness:
  "read_udp False (sample_reader\<lparr>rcvSize := 30\<rparr>) \<lparr>buf_b = [], buf_i = 0\<rparr> 0
     (sample_env [] [] [Ok ([1, 2], 9)] []) =
   Some (Inr (True, \<lparr>buf_b = [1, 2], buf_i = 2\<rparr>, sample_reader\<lparr>rcvSize := 30\<rparr>),
         [Call (SysRecv 2), BytesReceived 2], sample_env [] [] [] [])"
proof -
  have p: "packet_size 30 = 2"
    by (simp add: packet_size_def min_int32_def maxPacketSize_def udpOverhead_def)
  have "read_admissible (sample_reader\<lparr>rcvSize := 30\<rparr>) \<lparr>buf_b = [], buf_i = 0\<rparr>"
    by (simp add: read_admissible_def p exceeds_packet_def int_of_size_def)
  moreover have "sample_env [] [] [Ok ([1, 2], 9::nat)] [] =
     (sample_env [] [] [] [])\<lparr>recv_ans := deliver False (packet_size (rcvSize (sample_reader\<lparr>rcvSize := 30\<rparr>))) 9 [[1, 2, 3]]\<rparr>"
    by (simp add: p sample_env_def deliver_def udp_recv_def)
  ultimately show ?thesis
    using oversize_datagram_truncated [of "sample_reader\<lparr>rcvSize := 30\<rparr>" "\<lparr>buf_b = [], buf_i = 0\<rparr>" "[1, 2, 3]"
            "(sample_env [] [] [] [])\<lparr>recv_ans := deliver False (packet_size (rcvSize (sample_reader\<lparr>rcvSize := 30\<rparr>))) 9 [[1, 2, 3]]\<rparr>"
            False 9 0]
    by (simp add: p sample_reader_def sample_tx_def sample_env_def INVALID_SOCKET_def)
qed

end
