(* ===== verification/Spec2Isabelle.thy ===== *)
theory Spec2Isabelle
  imports Udp_Write Udp_Read Udp_BufSize Udp_Lifecycle Udp_Channel
begin

text \<open>
  \<^bold>\<open>A verified model of Ice's UDP transceiver.\<close>

  The program is \<open>src/cpp/src/Ice/UdpTransceiver.cpp\<close> (ZeroC Ice 3.3): the class
  \<open>IceInternal::UdpTransceiver\<close>, one datagram endpoint of the Ice runtime.  It owns one
  non-blocking UDP socket and offers the transport contract of Ice: \<open>write\<close> and
  \<open>read\<close> of one datagram with a timeout, \<open>shutdownReadWrite\<close>, \<open>close\<close>.  Its parts:
  \<^item> the datagram size ceiling: the constants \<open>_udpOverhead\<close> and \<open>_maxPacketSize\<close>,
    and \<open>min(_maxPacketSize, size - _udpOverhead)\<close> computed in \<open>write\<close>, \<open>read\<close> and
    \<open>checkSendSize\<close> from the negotiated buffer sizes;
  \<^item> the I/O engine: \<open>write\<close> (send, wait for writability, retry) and \<open>read\<close>
    (check the shutdown flag, receive, connect to the first sender, wait for
    readability, retry);
  \<^item> the object's life cycle: the two constructors (connect mode, bind mode with
    multicast), \<open>setBufSize\<close>, \<open>shutdownReadWrite\<close> (with the decoy datagram that wakes a
    blocked reader on some platforms), \<open>close\<close> and the destructor;
  \<^item> the sinks: the trace lines (\<open>Trace out(_logger, ...)\<close> at a level of
    \<open>_traceLevels->network\<close>), the logger's warnings and the statistics calls;
  \<^item> small members: \<open>fd\<close>, \<open>shutdownWrite\<close>, \<open>initialize\<close>, \<open>type\<close>,
    \<open>toString\<close>, \<open>effectivePort\<close>.
  The shutdown flag is the only state two threads share: a shutdown request from one
  thread must release a reader blocked in another.  Two endpoints meet through the
  network: what one \<open>write\<close>s, the peer \<open>read\<close>s.

  \<^bold>\<open>How the code is modelled.\<close>
  Each member function is a HOL function of the object's state (the record
  \<open>udp_transceiver\<close> of \<open>Udp_State\<close>, one field per data member read or written,
  \<open>traceNetwork\<close> for \<open>_traceLevels->network\<close>) and of the answers the operating
  system gives: one list of answers per kind of system call (\<open>os_env\<close>), consumed in
  order.  A call's model returns its result (an exception, a failed \<open>assert\<close>, or the
  return value with the new state), the effects it produced in order (each system call
  with its arguments, the payload of each send included, each call of the statistics
  sink, each warning, the diagnostic line on \<open>cerr\<close>, each trace line with the form its
  \<open>toString()\<close> took) and the answers it has not consumed.  When a list of answers
  runs out the call has not returned, and the model is \<open>None\<close>: the answer lists are the
  fuel of the loops, so the loops are total functions and the liveness claims say which
  answers make a call return.  A C \<open>int\<close> is a \<open>32 word\<close> read with \<open>sint\<close>;
  \<open>static_cast<int>\<close> of a \<open>size_t\<close> is \<open>int_of_size\<close>, the length modulo \<open>2^32\<close>
  read as a signed value.  Each \<open>goto\<close> loop is a pair of mutually recursive \<open>fun\<close>s,
  one per label, with one equation per shape of the next answer.

  \<^bold>\<open>The theories.\<close>
  \<^item> \<open>Udp_Prelude\<close>: machine types, OS error codes (\<open>errno\<close>), system-call results,
    the Ice exceptions (\<open>ice_exn\<close>), system calls, the trace messages
    (\<open>trace_msg\<close>), the forms of \<open>toString\<close> and the effects; shared word lemmas.
  \<^item> \<open>Udp_Limits\<close>: \<open>udpOverhead\<close>, \<open>maxPacketSize\<close> (lines 650--651),
    \<open>packet_size\<close>, \<open>exceeds_packet\<close>, \<open>checkSendSize\<close> (lines 394--405); claims
    C17, C18, C22 on the exact value of the ceiling and on the cast of the length.
  \<^item> \<open>Udp_State\<close>: the record \<open>udp_transceiver\<close>, \<open>buffer\<close>, the result type,
    \<open>os_env\<close>, \<open>toString\<close> (lines 373--385), \<open>trace_line\<close> (a trace block),
    \<open>untraced\<close>, \<open>fd_get\<close>, \<open>close\<close> (with its trace line and \<open>closeSocket\<close>,
    which throws on the OS's refusal and then leaves the handle valid),
    \<open>destroy\<close>, \<open>shutdownWrite\<close>, \<open>initialize\<close>, \<open>type_name\<close> (lines 24--48,
    366--391, 567--570), the sample values of the witnesses.
  \<^item> \<open>Udp_Write\<close>: \<open>write_send\<close>/\<open>write_select\<close> (the labels \<open>repeat\<close> and
    \<open>repeatSelect\<close>) and \<open>write_udp\<close> (lines 109--213); claims C2, C6, C11, C12,
    C15, C19.
  \<^item> \<open>Udp_Read\<close>: \<open>read_repeat\<close>/\<open>read_select\<close>, \<open>received_effects\<close>,
    \<open>read_done\<close> (the final \<open>resize\<close>) and \<open>read_udp\<close> (lines 216--364), with
    \<open>recvTruncated\<close> and \<open>doConnect\<close> of the platform layer modelled from the spec;
    claims C1, C3, C4, C5, C7, C9, C14, C16, C39.
  \<^item> \<open>Udp_Channel\<close>: the network between a writer and a reader: the payloads the
    writer's kernel accepted (\<open>accepted_sends\<close>) delivered as the reader kernel's
    answers (\<open>deliver\<close>, \<open>udp_recv\<close>: a datagram that does not fit the receive buffer
    is reported on Windows and cut elsewhere); claims C20, C21.
  \<^item> \<open>Udp_BufSize\<close>: \<open>setBufSize\<close> (lines 577--644): one \<open>setBufSize_body\<close> per
    iteration of its \<open>for\<close> loop (\<open>i = 0\<close> receive, \<open>i = 1\<close> send),
    \<open>setBufSize_loop\<close> for the loop (a \<open>function\<close> with the measure \<open>2 - i\<close>), and
    the kernel's buffers as the state \<open>os_sockbuf\<close>: the applied sizes and the kernel's
    adjustment of a requested size, an arbitrary function, so the claims hold for every
    kernel.  \<open>negotiated\<close> is the contract of one direction.  Claims C23, C24,
    C26--C28.
  \<^item> \<open>Udp_Construct\<close>: the connect-mode and bind-mode constructors (lines 413--565)
    with their trace lines and \<open>effectivePort\<close>.  The kernel is the record
    \<open>kernel\<close>: open handles, the next handle, the new socket's buffers, the answer to
    each platform call (a function of the call: each call happens at most once per
    construction), the name resolver and the local addresses.  A constructor is the list
    of the steps of its \<open>try\<close> block, run by \<open>run_steps\<close> until the first exception,
    then \<open>catch_all\<close>.  A platform call that fails (\<open>plat_call\<close>: \<open>setBlock\<close>,
    \<open>doConnect\<close>, \<open>doBind\<close>, the multicast options) closes the new socket and throws,
    as the spec's step 5 of 4.1 has it ("the socket is released"), and \<open>catch_all\<close>
    then invalidates the handle.  Addresses are \<open>sockaddr\<close> words and the multicast
    tests are the bit tests of \<open>IN_MULTICAST\<close>/\<open>IN6_IS_ADDR_MULTICAST\<close>.  The
    update of \<open>_addr\<close> by \<open>doBind\<close> (the port the kernel chose) is not modelled: the
    bound address is the requested one, which only \<open>effectivePort\<close> reads.  The lemmas
    \<open>UdpTransceiver_connect_object\<close>/\<open>UdpTransceiver_bind_object\<close> give the object
    any construction that returns yields, whatever the kernel answered, and
    \<open>constructed_fd_fresh\<close> that its handle is the kernel's next one.  Claims
    C30--C32, C34.
  \<^item> \<open>Udp_Shutdown\<close>: \<open>shutdownReadWrite\<close> (lines 51--106) on both platform variants
    (the flag \<open>decoy\<close>), in the same framework.  The decoy socket is released when
    its \<open>setBlock\<close> or \<open>doConnect\<close> fails; a failure of
    \<open>fdToLocalAddress\<close> or \<open>shutdownSocketReadWrite\<close> on the object's own handle
    leaves that handle to \<open>close()\<close>.  Claims C36, C37.
  \<^item> \<open>Udp_Interleave\<close>: the reader of \<open>read\<close> as a small-step machine
    (\<open>rd_step\<close>: the flag check under \<open>_shutdownReadWriteMutex\<close>, the receive and
    the wait are separate steps), and the interleaving of the reader with one
    \<open>shutdownReadWrite\<close> call, which holds the mutex for its whole body, as the
    inductive relations \<open>sys_step\<close>/\<open>sys_reach\<close>.  Claims C8, C33, C40.
  \<^item> \<open>Udp_Lifecycle\<close>: the spec's states (\<open>phase\<close>, ordered by an instance of
    \<open>linorder\<close>), the spec's roles (\<open>role\<close>, \<open>tx_wf\<close>) and the inductive relation
    \<open>lc_step\<close> whose steps are the modelled \<open>read\<close>, \<open>write\<close>,
    \<open>shutdownReadWrite\<close> and \<open>close\<close>; \<open>owns_handle\<close> ties the object to the
    socket its constructor created until \<open>close\<close> releases it and the destructor's
    assertion (\<open>destroy\<close>) may pass.  Claims C13, C25, C35.
  \<^item> this theory: the properties that span components (C10, C29, C38).

  \<^bold>\<open>What the claims show.\<close>
  Size limits (C2, C3): an oversize buffer raises \<open>DatagramLimitException\<close> before any
  system call, and that exception arises this way only for such a buffer.  Functional
  behaviour of every branch of the loops: a sent datagram (C6), a received one (C7), a
  first datagram that connects the socket to its sender (C4), "not ready" with timeout 0
  (C9).  Transient failures: interrupted calls never change a result, in either
  direction (C10).  Errors: a send that would block followed by a wait that times out
  raises the timeout (C11); the exceptions each call can raise (C12, C14).  Safety: a set shutdown flag
  makes \<open>read\<close> raise \<open>ConnectionLostException\<close> before any receive (C1); the
  pending connect is a one-way switch (C5); \<open>write\<close> after \<open>close\<close> fails its
  assertion (C19).  Liveness: with timeout 0 \<open>write\<close> and \<open>read\<close> return as
  soon as the OS answers once (C15, C39); a reader parked in the wait of \<open>read\<close>
  when the shutdown runs is released by the first readiness its wait reports, goes back
  to the flag check without consuming a receive answer, and ends with
  \<open>ConnectionLostException\<close> (C8).  Bounds: the packet size is exact (C17, C22) and the
  length cast wraps above \<open>2^31\<close> (C18).  Tracing is observational: the trace level
  changes nothing of \<open>read\<close> but its trace lines (C16).  Round trip: a datagram that
  \<open>write\<close> accepted is read back byte for byte by a peer whose ceiling is at least the
  writer's (C20); a longer one is reported on Windows and silently cut elsewhere (C21).
  Buffer sizes: \<open>setBufSize\<close> refines \<open>negotiated\<close> and touches no other field
  (C23); it asks the kernel only for a configured size of at least 28 bytes that differs
  from the default (C24); each warning is logged exactly in its case (C26, C27); with a
  kernel that respects the overhead the derived packet sizes lie in \<open>[0, 65507]\<close>
  (C28).  Across components: a kernel that applies less than the overhead leaves an
  endpoint that rejects every datagram (C29).  Construction: with a granting kernel each
  constructor yields the object and issues the calls and trace lines the code makes,
  multicast options only for multicast addresses (C30, C32); when a constructor throws,
  the object's handle is invalid and the kernel holds the same open handles as before,
  the new socket released (C31); the connect-mode object never assigns
  \<open>_mcastServer\<close>, which \<open>toString\<close> reads (C34).  Shutdown: the decoy variant
  (C36), which releases every socket it created when it throws (C37); after any
  \<open>shutdownReadWrite\<close> a \<open>read\<close> ends with \<open>ConnectionLostException\<close> (C38).
  Concurrency: in every interleaving with a shutdown call at
  most one receive follows the call, issued by a reader already past its flag check, and
  the next flag check ends the read (C40), an invariant proved by rule induction; that
  one receive returns whatever datagram the socket gives, with success, whenever the
  shutdown runs between the reader's flag check and its receive (C33).  Life cycle, ownership and type:
  every object a constructor returns is well formed and keeps its role through every
  call (C13); every call keeps a valid handle open in the kernel and no call moves the
  object back to an earlier state (C25); once the destructor's assertion holds, the
  socket the constructor created is closed and no call has reopened it (C35).

  \<^bold>\<open>Findings the model shows.\<close>
  \<open>write\<close> throws \<open>new TimeoutException\<close>, a pointer that no handler of
  \<open>TimeoutException\<close> catches (C12).  \<open>read\<close> waits with \<open>poll(..., -1)\<close> and
  ignores its timeout, so it never raises \<open>TimeoutException\<close> (C14), against the
  spec's "wait for readability with the given timeout".  The size check casts the
  length to \<open>int\<close>: buffers of \<open>2^32\<close> bytes and more pass it as their length modulo
  \<open>2^32\<close> (C18).  The oversize path of \<open>write\<close> prints a diagnostic line on \<open>cerr\<close>
  although its comment says it logs nothing.  A datagram within the sender's ceiling but
  above the receiver's is returned cut to the receiver's packet size, with success,
  everywhere but on Windows (C21), against the spec's promise of byte-for-byte integrity
  and of a size-limit error on truncation.  \<open>setBufSize\<close> never checks the size the
  kernel applies against the overhead (C29), and with an unset property and an OS
  default below 28 it warns that the unset property has an invalid value (C27).  The comment
  of \<open>read\<close>'s size check (lines 219--223) calls the ceiling "the UDP send buffer
  size", but the code uses the receive buffer size \<open>_rcvSize\<close> (C3).
  \<open>_mcastServer\<close> is read uninitialised by \<open>toString\<close> on connect-mode and unicast
  objects (C34); the disconnect is issued for connected sockets, not for the
  "unconnected-role" ones the spec names (C36).  \<open>read\<close> checks the shutdown flag
  only before its receive: a \<open>shutdownReadWrite\<close> that runs between the check and the
  receive is not seen, and the read returns what the shut-down socket gives (an empty
  datagram, or the decoy's byte) with success (C33), against the spec's "observes the
  connection-lost error, never a truncated/garbage payload".

  \<^bold>\<open>Not modelled.\<close>
  The text of the trace lines beyond their message and the form of \<open>toString\<close>
  (\<open>fdToString\<close> and \<open>addressesToString\<close> format addresses in \<open>Network.cpp\<close>);
  the platform layer of \<open>Network.cpp\<close> beyond the behaviour the spec gives it
  (\<open>recvTruncated\<close>, \<open>doConnect\<close>, \<open>createSocket\<close>, \<open>setBlock\<close>,
  \<open>doBind\<close>, the multicast options, \<open>getAddressForServer\<close>,
  \<open>fdToLocalAddress\<close>, \<open>closeSocket\<close>: each one call that succeeds or throws);
  the buffer-size helpers are infallible in the model; the wildcard address of the
  Windows multicast bind is assumed to resolve (C31 states it); the \<open>FD_ZERO\<close> set-up of
  Windows; the bytes of the OS's buffers beyond the datagram copied into them.  The
  interleaving has one reader and one shutdown call and no writer thread: \<open>write\<close>
  reads neither the shutdown flag nor \<open>_connect\<close>, and neither other thread changes
  a field \<open>write\<close> reads, so a writer's steps commute with theirs and its outcome is
  the one \<open>write_udp\<close> gives alone.  The kernel hands out handles in increasing order
  (\<open>k_next\<close>), where a real kernel reuses the lowest free descriptor; a reused
  descriptor would only make the decoy socket share a closed handle's number.  It
  releases a handle only when its close succeeds (POSIX leaves the state of a handle
  whose close failed unspecified).  The OS
  is an arbitrary sequence of answers, so every claim holds for every behaviour of the
  OS unless it states an assumption on the answers.
\<close>

section \<open>Properties across components\<close>

text \<open>
  C10: interrupted system calls are absorbed in both directions: removing every
  \<open>EINTR\<close> answer to \<open>send\<close>, to the receives and to the polls changes neither
  whether \<open>write\<close> and \<open>read\<close> return nor what they return.
\<close>

theorem udp_eintr_transparent:
  "map_option fst (write_udp t buf timeout env) =
     map_option fst (write_udp t buf timeout
       (env\<lparr>send_ans := strip_eintr (send_ans env), poll_ans := strip_eintr (poll_ans env)\<rparr>)) \<and>
   map_option fst (read_udp windows t buf timeout env) =
     map_option fst (read_udp windows t buf timeout
       (env\<lparr>recv_ans := strip_eintr (recv_ans env), poll_ans := strip_eintr (poll_ans env)\<rparr>))"
  using write_udp_eintr_transparent [of t buf timeout env] read_udp_eintr_transparent [of windows t buf timeout env]
  by blast

text \<open>
  A kernel that applies every requested size as 20 bytes, below the UDP overhead, and
  properties that request 100 bytes for both buffers.
\<close>

definition tiny_os :: os_sockbuf where
  "tiny_os = \<lparr>sb_rcv = 106496, sb_snd = 106496, sb_adjust = (\<lambda>d r. 20)\<rparr>"

definition tiny_props :: properties where
  "tiny_props k = Some 100"

text \<open>
  C29: \<open>setBufSize\<close> stores whatever size the kernel applies, without comparing it with
  \<open>_udpOverhead\<close>.  When the kernel applies a size below the overhead to both buffers,
  the endpoint it sets up rejects every datagram: each \<open>write\<close> and each \<open>read\<close> of
  a buffer shorter than \<open>2^31\<close> bytes raises \<open>DatagramLimitException\<close> before any
  system call, even an empty one.
\<close>

theorem undersized_buffers_reject_all:
  assumes "setBufSize props t os = Inr (t', os', es)"
    and "0 \<le> sint (sb_rcv os')" and "sint (sb_rcv os') < 28"
    and "0 \<le> sint (sb_snd os')" and "sint (sb_snd os') < 28"
    and "buf_i buf = 0" and "length (buf_b buf) < 2 ^ 31"
  shows "(\<exists>ws. write_udp t' buf timeout env = Some (Inl (Raise DatagramLimitException), ws, env)) \<and>
         (\<exists>rs. read_udp windows t' buf timeout env = Some (Inl (Raise DatagramLimitException), rs, env))"
proof -
  have "rcvSize t' = sb_rcv os'" "sndSize t' = sb_snd os'"
    using setBufSize_sizes [OF assms(1)] by simp_all
  then have "exceeds_packet (packet_size (rcvSize t')) (length (buf_b buf))"
            "exceeds_packet (packet_size (sndSize t')) (length (buf_b buf))"
    using assms(2-7) by (simp_all add: exceeds_below_overhead)
  then show ?thesis using assms(6) by (simp add: write_udp_def read_udp_def Let_def)
qed

lemma tiny_setBufSize:
  "setBufSize tiny_props sample_tx tiny_os =
     Inr (sample_tx\<lparr>rcvSize := 20, sndSize := 20\<rparr>, tiny_os\<lparr>sb_rcv := 20, sb_snd := 20\<rparr>,
          [Call (SysGetBufSize Receive), Call (SysSetBufSize Receive 100), Call (SysGetBufSize Receive),
           WarnBufSizeAdjusted ''receive'' 100 20,
           Call (SysGetBufSize Send), Call (SysSetBufSize Send 100), Call (SysGetBufSize Send),
           WarnBufSizeAdjusted ''send'' 100 20])"
  by (simp add: setBufSize_def setBufSize_loop_unroll setBufSize_unfold tiny_os_def tiny_props_def
                sample_tx_def INVALID_SOCKET_def)

theorem undersized_buffers_reject_all_witness:
  "(\<exists>ws. write_udp (sample_tx\<lparr>rcvSize := 20, sndSize := 20\<rparr>) sample_buf 100 (sample_env [Ok 3] [] [Ok ([7], 9)] [])
          = Some (Inl (Raise DatagramLimitException), ws, sample_env [Ok 3] [] [Ok ([7], 9)] [])) \<and>
   (\<exists>rs. read_udp False (sample_tx\<lparr>rcvSize := 20, sndSize := 20\<rparr>) sample_buf 100 (sample_env [Ok 3] [] [Ok ([7], 9)] [])
          = Some (Inl (Raise DatagramLimitException), rs, sample_env [Ok 3] [] [Ok ([7], 9)] []))"
proof -
  have "(\<exists>ws. write_udp (sample_tx\<lparr>rcvSize := 20, sndSize := 20\<rparr>) sample_buf 100 (sample_env [Ok 3] [] [Ok ([7], 9)] [])
          = Some (Inl (Raise DatagramLimitException), ws, sample_env [Ok 3] [] [Ok ([7], 9)] [])) \<and>
        (\<exists>rs. read_udp False (sample_tx\<lparr>rcvSize := 20, sndSize := 20\<rparr>) sample_buf 100 (sample_env [Ok 3] [] [Ok ([7], 9)] [])
          = Some (Inl (Raise DatagramLimitException), rs, sample_env [Ok 3] [] [Ok ([7], 9)] []))"
    by (rule undersized_buffers_reject_all [OF tiny_setBufSize]) (simp_all add: tiny_os_def sample_buf_def)
  then show ?thesis .
qed

text \<open>
  C38: whatever \<open>shutdownReadWrite\<close> meets (either platform, any answers of the
  kernel, even an exception), a later \<open>read\<close> of an admissible buffer raises
  \<open>ConnectionLostException\<close> before any system call and consumes no answer.
\<close>

theorem shutdown_then_read_connection_lost:
  assumes "shutdownReadWrite_op decoy (t, k, es) = (r, (t', k', es'))" and "read_admissible t buf"
  shows "read_udp windows t' buf timeout env = Some (Inl (Raise ConnectionLostException), [], env)"
proof -
  have t': "t' = t\<lparr>shutdownReadWrite := True\<rparr>"
    using shutdownReadWrite_object [of decoy t k es] assms(1) by simp
  then have "read_admissible t' buf" using assms(2) by (simp add: read_admissible_def)
  then show ?thesis using t' by (cases "recv_ans env") (simp_all add: read_udp_loop)
qed

theorem shutdown_then_read_connection_lost_witness:
  "read_udp False (sample_open_tx\<lparr>shutdownReadWrite := True\<rparr>) sample_buf 100 (\<lparr>send_ans = [], poll_ans = [], recv_ans = [], connect_ans = []\<rparr>)
     = Some (Inl (Raise ConnectionLostException), [], \<lparr>send_ans = [], poll_ans = [], recv_ans = [], connect_ans = []\<rparr>)"
proof -
  have "shutdownReadWrite_op False (sample_open_tx, sample_open_kernel, []) =
          (None, (sample_open_tx\<lparr>shutdownReadWrite := True\<rparr>, sample_open_kernel, [Call (SysShutdown 3)]))"
    by (simp add: shutdown_unfold shutdown_sample_defs)
  moreover have "read_admissible sample_open_tx sample_buf"
    by (simp add: read_admissible_def shutdown_sample_defs sample_buf_def exceeds_packet_def int_of_size_def)
  ultimately show ?thesis by (rule shutdown_then_read_connection_lost)
qed

end
